theory Spec2Isabelle
  imports Complex_Main "HOL-Library.Word"
begin

unbundle bit_operations_syntax

section \<open>The frame orchestrator of the RTXDI sample (src/main.cpp, class SceneRenderer)\<close>

text \<open>
  The class \<^verbatim>\<open>SceneRenderer\<close> is embedded as a record of its members and of the members
  of \<^verbatim>\<open>UIData\<close> that its methods read and write; every method is a function from the
  state to the new state. A nullable handle (\<^verbatim>\<open>std::unique_ptr\<close>, \<^verbatim>\<open>std::shared_ptr\<close>)
  is an \<open>option\<close>; dereferencing an empty handle, indexing a vector out of range and
  dividing an integer by zero are results \<open>Inl\<close> of type \<open>fault\<close>. The unsigned 32-bit integers of the source
  (\<^verbatim>\<open>uint\<close>, \<^verbatim>\<open>uint32_t\<close>) are \<open>32 word\<close>, so \<open>+\<close> wraps as it does in C++.

  The collaborators that live outside main.cpp are parameters of the model (record
  \<open>world\<close>): whether a texture file loads and with which size, the size of the
  procedural sky texture, and the camera-path interpolation. The view matrix is a value of
  an arbitrary type \<open>'m\<close>, and the comparison \<^verbatim>\<open>operator==\<close> of two view matrices is the
  parameter \<open>viewMatrixEq\<close>, so nothing is assumed about floating-point equality.

  The commands a frame records into its command list are kept as a list of \<open>gpu_cmd\<close>
  (field \<open>m_CommandList\<close>: what was recorded since the last \<^verbatim>\<open>open()\<close>, which is what
  \<^verbatim>\<open>executeCommandList\<close> submits), in the order of recording. Not modelled: the profiler, the
  denoiser integration (the build without \<^verbatim>\<open>WITH_NRD\<close> is embedded), the wall clock
  (of the frame-rate limiter only the division is kept, its loop waits on the clock), IES
  profiles, material read-back results and the contents of GPU buffers. The members that
  \<^verbatim>\<open>Init\<close> always assigns (the scene-independent passes, the profiler, the command list)
  are not handles of the model.
\<close>

subsection \<open>Enumerations\<close>

datatype FrameStepMode = Disabled | Wait | Step

datatype RenderingMode =
  ReStirDirectOnly | ReStirDirectBrdfMIS | ReStirDirectBrdfIndirect | BrdfDirectOnly

datatype CheckerboardMode = Off | Black | White

datatype fault = NullDereference | IndexOutOfRange | DivisionByZero

text \<open>The four images of the render targets that can be shown on screen.\<close>

datatype target_image = LdrColor | AccumulatedColor | ResolvedColor | HdrColor

text \<open>What a texture descriptor of the environment light denotes.\<close>

datatype env_texture = ProceduralSky | FileTexture string

text \<open>
  The value \<^verbatim>\<open>1.f / (float)n\<close>: the quotient for \<open>n \<noteq> 0\<close> (rounding is not modelled),
  and the IEEE infinity for \<open>n = 0\<close>.
\<close>

datatype weight = Finite real | PlusInfinity

subsection \<open>Records of the collaborating objects\<close>

record texture_desc =
  width :: "32 word"
  height :: "32 word"

record framebuffer_info =
  fb_width :: "32 word"
  fb_height :: "32 word"

record ContextParameters =
  RenderWidth :: "32 word"
  RenderHeight :: "32 word"
  CheckerboardSamplingMode :: CheckerboardMode

record RenderTargets =
  Size :: "32 word \<times> 32 word"

record RtxdiResources =
  res_context :: ContextParameters
  res_emissiveMeshes :: "32 word"
  res_emissiveTriangles :: "32 word"
  res_primitiveLights :: "32 word"
  EnvironmentPdfTexture :: texture_desc

record LoadedTexture =
  path :: string
  texture :: texture_desc

record TemporalAntiAliasingPass =
  taa_frameIndex :: nat

record GenerateMipsPass =
  sourceTexture :: env_texture
  targetTexture :: texture_desc

record 'm PlanarView =
  viewMatrix :: 'm
  viewport :: "32 word \<times> 32 word"
  pixelOffset :: "nat option"

text \<open>The arguments of the two lighting-pass families, as RenderScene passes them.\<close>

record resampling_args =
  rs_enableDenoiserInputPacking :: bool
  rs_enableSpecularMis :: bool
  rs_frameIndex :: "32 word"

record brdf_args =
  br_enableDenoiserInputPacking :: bool
  br_enableIndirect :: bool
  br_enableAdditiveBlend :: bool
  br_enableSpecularMis :: bool
  br_frameIndex :: "32 word"

datatype gpu_cmd =
    BuildTopLevelAccelStruct
  | RenderEnvironmentMap
  | EnvironmentMapPdfMipmap
  | ClearColorAttachment
  | RasterizedGBuffer
  | RaytracedGBuffer
  | PrepareLights bool
  | LocalLightPdfMipmap
  | LightingRender resampling_args
  | RenderBrdfRays brdf_args
  | Compositing
  | Glass
  | Accumulation weight
  | TemporalResolve real bool
  | ToneMapping bool target_image
  | BlitTexture target_image

subsection \<open>UIData and SceneRenderer\<close>

text \<open>
  \<^verbatim>\<open>UIData\<close> is declared in UserInterface.h, which is not among the sources; its members
  are typed by their use in main.cpp: flags are \<open>bool\<close>, the two environment-map
  integers are compared with \<open>0\<close> and \<open>2\<close> and with \<open>>= 0\<close> and are \<open>int\<close>, and the two
  accumulation counters (arguments of one \<^verbatim>\<open>std::min\<close>, cast to \<^verbatim>\<open>float\<close>) are unsigned
  32-bit integers, and so is the frame-rate limit, the divisor of an integer division.
\<close>

record UIData =
  reloadShaders :: bool
  resetAccumulation :: bool
  resetRtxdiContext :: bool
  environmentMapDirty :: int
  environmentMapIndex :: int
  environmentMapImportanceSampling :: bool
  enableToneMapping :: bool
  enableAccumulation :: bool
  enableTAA :: bool
  enablePixelJitter :: bool
  enableDenoiser :: bool
  enableLocalLightImportanceSampling :: bool
  enableTransparentGeometry :: bool
  enableMaterialReadback :: bool
  rasterizeGBuffer :: bool
  animateMeshes :: bool
  freezeRandom :: bool
  enableFpsLimit :: bool
  fpsLimit :: "32 word"
  animationFrame :: "32 word option"
  numAccumulatedFrames :: "32 word"
  framesToAccumulate :: "32 word"
  taaClampingFactor :: real
  renderingMode :: RenderingMode
  rtxdiContextParams :: ContextParameters

text \<open>
  The two lights of the scene are handles that say whether the objects exist; what a frame
  writes into them is kept in \<open>sunIrradiance\<close> and \<open>envLightTexture\<close>. The environment
  light is created by SceneLoaded, which the framework calls once the scene is loaded: a
  renderer whose environment light exists has its scene (\<^verbatim>\<open>m_Scene\<close>), and RenderScene is
  called for such a renderer only.
\<close>

record 'm SceneRenderer =
  m_ui :: UIData
  m_RenderTargets :: "RenderTargets option"
  m_RtxdiContext :: "ContextParameters option"
  m_RtxdiResources :: "RtxdiResources option"
  m_TemporalAntiAliasingPass :: "TemporalAntiAliasingPass option"
  m_ToneMappingPass :: "unit option"
  m_RenderEnvironmentMapPass :: "unit option"
  m_EnvironmentMapPdfMipmapPass :: "GenerateMipsPass option"
  m_LocalLightPdfMipmapPass :: "unit option"
  m_EnvironmentMap :: "LoadedTexture option"
  m_SunLight :: "unit option"
  m_EnvironmentLight :: "unit option"
  m_Camera :: 'm
  m_View :: "'m PlanarView"
  m_ViewPrevious :: "'m PlanarView"
  m_FrameIndex :: "32 word"
  m_FramesSinceAnimation :: "32 word"
  m_PreviousViewValid :: bool
  m_MaterialReadbackCountdown :: int
  m_FrameStepMode :: FrameStepMode
  m_SceneEmissiveMeshes :: "32 word"
  m_SceneEmissiveTriangles :: "32 word"
  m_ScenePrimitiveLights :: "32 word"
  environmentMaps :: "string list"
  envLightTexture :: "env_texture option"
  sunIrradiance :: real
  passBindings :: "RenderTargets option"
  prepareLightsBinding :: "RtxdiResources option"
  lightingBinding :: "(RenderTargets \<times> RtxdiResources) option"
  blitBindingCache :: "target_image list"
  passFrames :: nat
  m_CommandList :: "gpu_cmd list"

text \<open>The collaborators outside main.cpp, as one frame sees them.\<close>

record 'm world =
  loadTexture :: "string \<Rightarrow> texture_desc option"
  skyTexture :: texture_desc
  interpolateCameraPath :: "32 word \<Rightarrow> 'm option"
  viewMatrixEq :: "'m \<Rightarrow> 'm \<Rightarrow> bool"

subsection \<open>Faults\<close>

definition deref :: "'a option \<Rightarrow> fault + 'a" where
  "deref h = (case h of None \<Rightarrow> Inl NullDereference | Some x \<Rightarrow> Inr x)"

definition andThen :: "fault + 'a \<Rightarrow> ('a \<Rightarrow> fault + 'b) \<Rightarrow> fault + 'b" where
  "andThen r f = (case r of Inl e \<Rightarrow> Inl e | Inr x \<Rightarrow> f x)"

subsection \<open>Constructors of the collaborating objects\<close>

text \<open>
  Modelled from the spec: RenderTargets.cpp is not among the sources. The Resource Bundle is
  "a set of GPU surfaces sized to the current output resolution": the constructor keeps the
  size it is given (main.cpp reads it back as \<^verbatim>\<open>m_RenderTargets->Size\<close>).
\<close>

definition newRenderTargets :: "32 word \<times> 32 word \<Rightarrow> RenderTargets" where
  "newRenderTargets sz = \<lparr>Size = sz\<rparr>"

text \<open>
  Modelled from the spec: RtxdiResources.cpp is not among the sources. The Ray-Tracing
  Resource Bundle is sized by the context (output resolution), the three light counts and
  the resolution of the environment map, and "holds a fixed-size PDF texture keyed to
  environment resolution".
\<close>

definition newRtxdiResources ::
  "ContextParameters \<Rightarrow> 32 word \<Rightarrow> 32 word \<Rightarrow> 32 word \<Rightarrow> 32 word \<Rightarrow> 32 word \<Rightarrow> RtxdiResources" where
  "newRtxdiResources ctx meshes triangles lights envWidth envHeight =
     \<lparr>res_context = ctx, res_emissiveMeshes = meshes, res_emissiveTriangles = triangles,
      res_primitiveLights = lights,
      EnvironmentPdfTexture = \<lparr>width = envWidth, height = envHeight\<rparr>\<rparr>"

subsection \<open>Event handlers\<close>

text \<open>KeyboardUpdate, for the two keys of the frame-step mode (F1 and F2, no modifier).\<close>

definition KeyboardUpdate_F1 :: "'m SceneRenderer \<Rightarrow> 'm SceneRenderer" where
  "KeyboardUpdate_F1 s =
     s\<lparr>m_FrameStepMode := (if m_FrameStepMode s = Disabled then Wait else Disabled)\<rparr>"

definition KeyboardUpdate_F2 :: "'m SceneRenderer \<Rightarrow> 'm SceneRenderer" where
  "KeyboardUpdate_F2 s = (if m_FrameStepMode s = Wait then s\<lparr>m_FrameStepMode := Step\<rparr> else s)"

text \<open>
  BackBufferResizing. \<^verbatim>\<open>ResetBindingCache\<close> belongs to the pass library; the cache it
  empties is the one \<^verbatim>\<open>BlitTexture\<close> fills (one binding set per source texture).
\<close>

definition BackBufferResizing :: "'m SceneRenderer \<Rightarrow> 'm SceneRenderer" where
  "BackBufferResizing s =
     s\<lparr>m_RenderTargets := None,
       m_RtxdiContext := None,
       m_RtxdiResources := None,
       blitBindingCache := [],
       m_TemporalAntiAliasingPass := None,
       m_ToneMappingPass := None\<rparr>"

subsection \<open>Construction and SceneLoaded\<close>

text \<open>
  The members as their initialisers in the class leave them (lines 101 to 122; every handle
  empty). \<open>ui\<close> is the UIData the renderer was given, \<open>identity\<close> the view matrix of a
  default-constructed view and camera.
\<close>

definition constructed :: "UIData \<Rightarrow> 'm \<Rightarrow> 'm SceneRenderer" where
  "constructed ui identity =
     \<lparr>m_ui = ui,
      m_RenderTargets = None,
      m_RtxdiContext = None,
      m_RtxdiResources = None,
      m_TemporalAntiAliasingPass = None,
      m_ToneMappingPass = None,
      m_RenderEnvironmentMapPass = None,
      m_EnvironmentMapPdfMipmapPass = None,
      m_LocalLightPdfMipmapPass = None,
      m_EnvironmentMap = None,
      m_SunLight = None,
      m_EnvironmentLight = None,
      m_Camera = identity,
      m_View = \<lparr>viewMatrix = identity, viewport = (0, 0), pixelOffset = None\<rparr>,
      m_ViewPrevious = \<lparr>viewMatrix = identity, viewport = (0, 0), pixelOffset = None\<rparr>,
      m_FrameIndex = 0,
      m_FramesSinceAnimation = 0,
      m_PreviousViewValid = False,
      m_MaterialReadbackCountdown = 0,
      m_FrameStepMode = Disabled,
      m_SceneEmissiveMeshes = 0,
      m_SceneEmissiveTriangles = 0,
      m_ScenePrimitiveLights = 0,
      environmentMaps = [],
      envLightTexture = None,
      sunIrradiance = 0,
      passBindings = None,
      prepareLightsBinding = None,
      lightingBinding = None,
      blitBindingCache = [],
      passFrames = 0,
      m_CommandList = []\<rparr>"

text \<open>
  SceneLoaded (lines 260 to 306): the camera is placed, the sun light is the first
  directional light of the scene if there is one, the environment light is created, the
  environment map is marked for a full reload with the procedural sky selected, and the
  lights are counted. \<open>pose\<close> is the view matrix of the camera after \<^verbatim>\<open>LookAt\<close>, \<open>maps\<close>
  the environment maps of the scene, \<open>directionalLight\<close> says whether the scene has a
  directional light, and the three counts are what the scene provider reports.
\<close>

definition SceneLoaded ::
  "'m \<Rightarrow> string list \<Rightarrow> bool \<Rightarrow> 32 word \<Rightarrow> 32 word \<Rightarrow> 32 word \<Rightarrow>
   'm SceneRenderer \<Rightarrow> 'm SceneRenderer" where
  "SceneLoaded pose maps directionalLight meshes triangles lights s =
     s\<lparr>m_Camera := pose,
       m_SunLight := (if directionalLight then Some () else m_SunLight s),
       m_EnvironmentLight := Some (),
       environmentMaps := maps,
       m_ui := (m_ui s)\<lparr>environmentMapDirty := 2, environmentMapIndex := 0\<rparr>,
       m_SceneEmissiveMeshes := meshes,
       m_SceneEmissiveTriangles := triangles,
       m_ScenePrimitiveLights := lights\<rparr>"

subsection \<open>LoadEnvironmentMap\<close>

definition LoadEnvironmentMap :: "'m world \<Rightarrow> 'm SceneRenderer \<Rightarrow> fault + 'm SceneRenderer" where
  "LoadEnvironmentMap w s =
     (let s1 = (if m_EnvironmentMap s \<noteq> None then s\<lparr>m_EnvironmentMap := None\<rparr> else s) in
      if environmentMapIndex (m_ui s1) > 0 then
        (let i = nat (environmentMapIndex (m_ui s1)) in
         if i < length (environmentMaps s1) then
           (let environmentMapPath = environmentMaps s1 ! i in
            case loadTexture w environmentMapPath of
              Some d \<Rightarrow>
                Inr (s1\<lparr>m_EnvironmentMap := Some \<lparr>path = environmentMapPath, texture = d\<rparr>\<rparr>)
            | None \<Rightarrow>
                Inr (s1\<lparr>m_EnvironmentMap := None,
                        environmentMaps := take i (environmentMaps s1) @ drop (Suc i) (environmentMaps s1),
                        m_ui := (m_ui s1)\<lparr>environmentMapIndex := 0\<rparr>\<rparr>))
         else Inl IndexOutOfRange)
      else Inr s1)"

subsection \<open>SetupView\<close>

definition SetupView :: "framebuffer_info \<Rightarrow> 32 word \<Rightarrow> 'm SceneRenderer \<Rightarrow> 'm SceneRenderer" where
  "SetupView fbinfo effectiveFrameIndex s =
     (let s1 = s\<lparr>m_View :=
                  \<lparr>viewMatrix = m_Camera s,
                   viewport = (fb_width fbinfo, fb_height fbinfo),
                   pixelOffset =
                     (case m_TemporalAntiAliasingPass s of
                        Some taa \<Rightarrow> if enablePixelJitter (m_ui s) then Some (taa_frameIndex taa) else None
                      | None \<Rightarrow> None)\<rparr>\<rparr>
      in if m_FrameIndex s1 = 0 then s1\<lparr>m_ViewPrevious := m_View s1\<rparr> else s1)"

subsection \<open>SetupRenderPasses\<close>

text \<open>Lines 477 to 482: dirty level 2 drops the PDF mipmap pass and becomes level 1.\<close>

definition resolveFullReload :: "'m SceneRenderer \<Rightarrow> 'm SceneRenderer" where
  "resolveFullReload s =
     (if environmentMapDirty (m_ui s) = 2
      then s\<lparr>m_EnvironmentMapPdfMipmapPass := None, m_ui := (m_ui s)\<lparr>environmentMapDirty := 1\<rparr>\<rparr>
      else s)"

text \<open>Lines 484 to 496: a shader reload drops every pass built from shader code.\<close>

definition reloadShadersIfRequested :: "'m SceneRenderer \<Rightarrow> 'm SceneRenderer" where
  "reloadShadersIfRequested s =
     (if reloadShaders (m_ui s)
      then s\<lparr>m_TemporalAntiAliasingPass := None,
             m_RenderEnvironmentMapPass := None,
             m_EnvironmentMapPdfMipmapPass := None,
             m_LocalLightPdfMipmapPass := None,
             m_ui := (m_ui s)\<lparr>environmentMapDirty := 1\<rparr>\<rparr>
      else s)"

text \<open>Lines 501 to 504.\<close>

definition ensureRenderEnvironmentMapPass :: "'m SceneRenderer \<Rightarrow> 'm SceneRenderer" where
  "ensureRenderEnvironmentMapPass s =
     (if m_RenderEnvironmentMapPass s = None then s\<lparr>m_RenderEnvironmentMapPass := Some ()\<rparr> else s)"

text \<open>Lines 506 to 510: the active environment map and its size.\<close>

definition activeEnvironmentMap ::
  "'m world \<Rightarrow> 'm SceneRenderer \<Rightarrow> fault + (env_texture \<times> texture_desc)" where
  "activeEnvironmentMap w s =
     (if environmentMapIndex (m_ui s) > 0
      then andThen (deref (m_EnvironmentMap s)) (\<lambda>t. Inr (FileTexture (path t), texture t))
      else andThen (deref (m_RenderEnvironmentMapPass s)) (\<lambda>_. Inr (ProceduralSky, skyTexture w)))"

text \<open>Lines 512 to 517: the test that releases the Ray-Tracing Resource Bundle.\<close>

definition invalidateRtxdiResources :: "texture_desc \<Rightarrow> 'm SceneRenderer \<Rightarrow> 'm SceneRenderer" where
  "invalidateRtxdiResources environmentMapSize s =
     (case m_RtxdiResources s of
        Some r \<Rightarrow>
          if width environmentMapSize \<noteq> width (EnvironmentPdfTexture r) \<and>
             height environmentMapSize \<noteq> height (EnvironmentPdfTexture r)
          then s\<lparr>m_RtxdiResources := None\<rparr>
          else s
      | None \<Rightarrow> s)"

text \<open>Lines 519 to 534; the result says whether the render targets were created.\<close>

definition ensureRenderTargets ::
  "framebuffer_info \<Rightarrow> 'm SceneRenderer \<Rightarrow> bool \<times> 'm SceneRenderer" where
  "ensureRenderTargets fbinfo s =
     (if m_RenderTargets s = None
      then (let rt = newRenderTargets (fb_width fbinfo, fb_height fbinfo)
            in (True, s\<lparr>m_RenderTargets := Some rt, passBindings := Some rt\<rparr>))
      else (False, s))"

text \<open>Lines 536 to 544.\<close>

definition ensureRtxdiContext :: "framebuffer_info \<Rightarrow> 'm SceneRenderer \<Rightarrow> 'm SceneRenderer" where
  "ensureRtxdiContext fbinfo s =
     (if m_RtxdiContext s = None
      then (let params = (rtxdiContextParams (m_ui s))
                           \<lparr>RenderWidth := fb_width fbinfo, RenderHeight := fb_height fbinfo\<rparr>
            in s\<lparr>m_ui := (m_ui s)\<lparr>rtxdiContextParams := params\<rparr>, m_RtxdiContext := Some params\<rparr>)
      else s)"

text \<open>Lines 546 to 563; the result says whether the bundle was created.\<close>

definition ensureRtxdiResources ::
  "texture_desc \<Rightarrow> 'm SceneRenderer \<Rightarrow> fault + (bool \<times> 'm SceneRenderer)" where
  "ensureRtxdiResources environmentMapSize s =
     (if m_RtxdiResources s = None
      then andThen (deref (m_RtxdiContext s)) (\<lambda>ctx.
             let r = newRtxdiResources ctx (m_SceneEmissiveMeshes s) (m_SceneEmissiveTriangles s)
                       (m_ScenePrimitiveLights s) (width environmentMapSize) (height environmentMapSize)
             in Inr (True, s\<lparr>m_RtxdiResources := Some r,
                             prepareLightsBinding := Some r,
                             m_ui := (m_ui s)\<lparr>environmentMapDirty := 1\<rparr>\<rparr>))
      else Inr (False, s))"

text \<open>Lines 565 to 581: the two PDF mipmap passes.\<close>

definition ensurePdfMipmapPasses ::
  "env_texture \<Rightarrow> bool \<Rightarrow> 'm SceneRenderer \<Rightarrow> fault + 'm SceneRenderer" where
  "ensurePdfMipmapPasses environmentMap rtxdiResourcesCreated s =
     andThen
       (if m_EnvironmentMapPdfMipmapPass s = None \<or> rtxdiResourcesCreated
        then andThen (deref (m_RtxdiResources s)) (\<lambda>r.
               Inr (s\<lparr>m_EnvironmentMapPdfMipmapPass :=
                        Some \<lparr>sourceTexture = environmentMap,
                              targetTexture = EnvironmentPdfTexture r\<rparr>\<rparr>))
        else Inr s)
       (\<lambda>s1.
          if m_LocalLightPdfMipmapPass s1 = None \<or> rtxdiResourcesCreated
          then andThen (deref (m_RtxdiResources s1)) (\<lambda>_.
                 Inr (s1\<lparr>m_LocalLightPdfMipmapPass := Some ()\<rparr>))
          else Inr s1)"

text \<open>Lines 583 to 598: the binding set of the lighting passes; the reload flag is cleared.\<close>

definition bindLightingPasses ::
  "bool \<Rightarrow> bool \<Rightarrow> 'm SceneRenderer \<Rightarrow> fault + 'm SceneRenderer" where
  "bindLightingPasses renderTargetsCreated rtxdiResourcesCreated s =
     andThen
       (if renderTargetsCreated \<or> rtxdiResourcesCreated
        then andThen (deref (m_RenderTargets s)) (\<lambda>rt.
             andThen (deref (m_RtxdiResources s)) (\<lambda>r.
               Inr (s\<lparr>lightingBinding := Some (rt, r)\<rparr>)))
        else Inr s)
       (\<lambda>s1. Inr (s1\<lparr>m_ui := (m_ui s1)\<lparr>reloadShaders := False\<rparr>\<rparr>))"

text \<open>Lines 600 to 612.\<close>

definition ensureTemporalAntiAliasingPass :: "'m SceneRenderer \<Rightarrow> fault + 'm SceneRenderer" where
  "ensureTemporalAntiAliasingPass s =
     (if m_TemporalAntiAliasingPass s = None
      then andThen (deref (m_RenderTargets s)) (\<lambda>_.
             Inr (s\<lparr>m_TemporalAntiAliasingPass := Some \<lparr>taa_frameIndex = 0\<rparr>\<rparr>))
      else Inr s)"

text \<open>Lines 614 to 620; the result is \<^verbatim>\<open>exposureResetRequired\<close>.\<close>

definition ensureToneMappingPass :: "'m SceneRenderer \<Rightarrow> fault + (bool \<times> 'm SceneRenderer)" where
  "ensureToneMappingPass s =
     (if m_ToneMappingPass s = None
      then andThen (deref (m_RenderTargets s)) (\<lambda>_. Inr (True, s\<lparr>m_ToneMappingPass := Some ()\<rparr>))
      else Inr (False, s))"

text \<open>
  SetupRenderPasses in three parts: the environment map is selected (lines 477 to 510), the
  two resource bundles and the context are validated or rebuilt (lines 512 to 563), and the
  passes that bind them are rebuilt (lines 565 to 620). The locals \<^verbatim>\<open>environmentMap\<close>,
  \<^verbatim>\<open>environmentMapSize\<close>, \<^verbatim>\<open>renderTargetsCreated\<close> and \<^verbatim>\<open>rtxdiResourcesCreated\<close> are handed
  from part to part.
\<close>

definition selectEnvironmentMap ::
  "'m world \<Rightarrow> 'm SceneRenderer \<Rightarrow> fault + (env_texture \<times> texture_desc \<times> 'm SceneRenderer)" where
  "selectEnvironmentMap w s =
     (let s1 = ensureRenderEnvironmentMapPass (reloadShadersIfRequested (resolveFullReload s)) in
      andThen (activeEnvironmentMap w s1) (\<lambda>(environmentMap, environmentMapSize).
        Inr (environmentMap, environmentMapSize, s1)))"

definition createResourceBundles ::
  "framebuffer_info \<Rightarrow> texture_desc \<Rightarrow> 'm SceneRenderer \<Rightarrow> fault + (bool \<times> bool \<times> 'm SceneRenderer)" where
  "createResourceBundles fbinfo environmentMapSize s =
     (let (renderTargetsCreated, s1) =
            ensureRenderTargets fbinfo (invalidateRtxdiResources environmentMapSize s)
      in andThen (ensureRtxdiResources environmentMapSize (ensureRtxdiContext fbinfo s1))
           (\<lambda>(rtxdiResourcesCreated, s2). Inr (renderTargetsCreated, rtxdiResourcesCreated, s2)))"

definition createPasses ::
  "env_texture \<Rightarrow> bool \<Rightarrow> bool \<Rightarrow> 'm SceneRenderer \<Rightarrow> fault + (bool \<times> 'm SceneRenderer)" where
  "createPasses environmentMap renderTargetsCreated rtxdiResourcesCreated s =
     andThen (ensurePdfMipmapPasses environmentMap rtxdiResourcesCreated s) (\<lambda>s1.
     andThen (bindLightingPasses renderTargetsCreated rtxdiResourcesCreated s1) (\<lambda>s2.
     andThen (ensureTemporalAntiAliasingPass s2) ensureToneMappingPass))"

definition SetupRenderPasses ::
  "framebuffer_info \<Rightarrow> 'm world \<Rightarrow> 'm SceneRenderer \<Rightarrow> fault + (bool \<times> 'm SceneRenderer)" where
  "SetupRenderPasses fbinfo w s =
     andThen (selectEnvironmentMap w s) (\<lambda>(environmentMap, environmentMapSize, s1).
     andThen (createResourceBundles fbinfo environmentMapSize s1)
       (\<lambda>(renderTargetsCreated, rtxdiResourcesCreated, s2).
          createPasses environmentMap renderTargetsCreated rtxdiResourcesCreated s2))"

subsection \<open>RenderScene: the frozen frame (lines 652 to 673)\<close>

definition emit :: "gpu_cmd \<Rightarrow> 'm SceneRenderer \<Rightarrow> 'm SceneRenderer" where
  "emit c s = s\<lparr>m_CommandList := m_CommandList s @ [c]\<rparr>"

text \<open>\<^verbatim>\<open>m_CommonPasses->BlitTexture\<close>: the blit is recorded and its binding set is cached.\<close>

definition blitTexture :: "target_image \<Rightarrow> 'm SceneRenderer \<Rightarrow> 'm SceneRenderer" where
  "blitTexture img s =
     (emit (BlitTexture img) s)\<lparr>blitBindingCache := List.insert img (blitBindingCache s)\<rparr>"

definition waitImage :: "UIData \<Rightarrow> target_image" where
  "waitImage ui =
     (if enableToneMapping ui then LdrColor
      else if enableAccumulation ui then AccumulatedColor
      else if enableTAA ui then ResolvedColor
      else HdrColor)"

definition RenderSceneWait :: "'m SceneRenderer \<Rightarrow> fault + 'm SceneRenderer" where
  "RenderSceneWait s =
     andThen (deref (m_RenderTargets s)) (\<lambda>_.
       Inr (blitTexture (waitImage (m_ui s)) (s\<lparr>m_CommandList := []\<rparr>)))"

subsection \<open>RenderScene: the stages of a full frame\<close>

text \<open>Lines 675 and 676.\<close>

definition leaveStepMode :: "'m SceneRenderer \<Rightarrow> 'm SceneRenderer" where
  "leaveStepMode s = (if m_FrameStepMode s = Step then s\<lparr>m_FrameStepMode := Wait\<rparr> else s)"

text \<open>
  Lines 678 to 696: the effective frame index. On a camera path, \<^verbatim>\<open>LookAt\<close> sets the camera
  to the interpolated pose; an exhausted path ends the animation.
\<close>

definition resolveEffectiveFrameIndex ::
  "'m world \<Rightarrow> 'm SceneRenderer \<Rightarrow> 32 word \<times> 'm SceneRenderer" where
  "resolveEffectiveFrameIndex w s =
     (let effectiveFrameIndex = (if freezeRandom (m_ui s) then 0 else m_FrameIndex s) in
      case animationFrame (m_ui s) of
        None \<Rightarrow> (effectiveFrameIndex, s)
      | Some a \<Rightarrow>
          (case interpolateCameraPath w a of
             Some pose \<Rightarrow>
               (a, s\<lparr>m_Camera := pose, m_ui := (m_ui s)\<lparr>animationFrame := Some (a + 1)\<rparr>\<rparr>)
           | None \<Rightarrow>
               (effectiveFrameIndex, s\<lparr>m_ui := (m_ui s)\<lparr>animationFrame := None\<rparr>\<rparr>)))"

text \<open>
  Lines 700 to 718: the frame-rate limiter. \<^verbatim>\<open>1000000 / m_ui.fpsLimit\<close> is an integer
  division, which traps for a limit of 0; the loop that follows waits on the wall clock
  and leaves the members alone.
\<close>

definition limitFrameRate :: "'m SceneRenderer \<Rightarrow> fault + unit" where
  "limitFrameRate s =
     (if enableFpsLimit (m_ui s) \<and> m_FrameIndex s > 0
      then (if fpsLimit (m_ui s) = 0 then Inl DivisionByZero else Inr ())
      else Inr ())"

text \<open>Lines 725 to 730.\<close>

definition resetRtxdiContextIfRequested :: "'m SceneRenderer \<Rightarrow> 'm SceneRenderer" where
  "resetRtxdiContextIfRequested s =
     (if resetRtxdiContext (m_ui s)
      then s\<lparr>m_RtxdiContext := None, m_RtxdiResources := None,
             m_ui := (m_ui s)\<lparr>resetRtxdiContext := False\<rparr>\<rparr>
      else s)"

text \<open>Lines 732 to 735.\<close>

definition reloadEnvironmentMapIfDirty ::
  "'m world \<Rightarrow> 'm SceneRenderer \<Rightarrow> fault + 'm SceneRenderer" where
  "reloadEnvironmentMapIfDirty w s =
     (if environmentMapDirty (m_ui s) = 2 then LoadEnvironmentMap w s else Inr s)"

text \<open>Lines 743 to 748: the passes flip their double-buffered state.\<close>

definition NextFrame :: "'m SceneRenderer \<Rightarrow> fault + 'm SceneRenderer" where
  "NextFrame s =
     andThen (deref (m_RenderTargets s)) (\<lambda>_. Inr (s\<lparr>passFrames := Suc (passFrames s)\<rparr>))"

text \<open>Lines 750 to 756: the condition under which the jitter is not advanced, and the advance.\<close>

definition skipJitterAdvance :: "'m SceneRenderer \<Rightarrow> fault + bool" where
  "skipJitterAdvance s =
     (if enableAccumulation (m_ui s)
      then andThen (deref (m_RtxdiContext s)) (\<lambda>ctx.
             Inr (CheckerboardSamplingMode ctx \<noteq> Off \<and> (m_FrameIndex s AND 1) \<noteq> 0))
      else Inr False)"

definition advanceJitter :: "'m SceneRenderer \<Rightarrow> fault + 'm SceneRenderer" where
  "advanceJitter s =
     andThen (skipJitterAdvance s) (\<lambda>skip.
       if \<not> skip
       then andThen (deref (m_TemporalAntiAliasingPass s)) (\<lambda>taa.
              Inr (s\<lparr>m_TemporalAntiAliasingPass :=
                       Some (taa\<lparr>taa_frameIndex := Suc (taa_frameIndex taa)\<rparr>)\<rparr>))
       else Inr s)"

text \<open>Line 758.\<close>

definition cameraIsStatic :: "'m world \<Rightarrow> 'm SceneRenderer \<Rightarrow> bool" where
  "cameraIsStatic w s =
     (m_PreviousViewValid s \<and> viewMatrixEq w (viewMatrix (m_View s)) (viewMatrix (m_ViewPrevious s)))"

text \<open>Lines 759 to 775: the accumulated-frame counter and the accumulation weight.\<close>

definition updateAccumulation :: "bool \<Rightarrow> 'm SceneRenderer \<Rightarrow> 'm SceneRenderer" where
  "updateAccumulation static s =
     (let ui = m_ui s;
          n = (if static \<and> enableAccumulation ui \<and> \<not> resetAccumulation ui
               then (if framesToAccumulate ui > 0
                     then min (numAccumulatedFrames ui + 1) (framesToAccumulate ui)
                     else numAccumulatedFrames ui + 1)
               else 1)
      in s\<lparr>m_ui := ui\<lparr>numAccumulatedFrames := n, resetAccumulation := False\<rparr>\<rparr>)"

definition accumulationWeight :: "32 word \<Rightarrow> weight" where
  "accumulationWeight n = (if n = 0 then PlusInfinity else Finite (1 / real (unat n)))"

text \<open>Lines 779 to 785.\<close>

definition countDownMaterialReadback :: "'m SceneRenderer \<Rightarrow> 'm SceneRenderer" where
  "countDownMaterialReadback s =
     (if m_MaterialReadbackCountdown s > 0
      then s\<lparr>m_MaterialReadbackCountdown := m_MaterialReadbackCountdown s - 1\<rparr>
      else s)"

text \<open>Lines 787 to 811: the environment light, the sun, and the denoiser switched off.\<close>

definition updateEnvironmentLight :: "'m SceneRenderer \<Rightarrow> fault + 'm SceneRenderer" where
  "updateEnvironmentLight s =
     andThen
       (if environmentMapIndex (m_ui s) \<ge> 0
        then andThen (deref (m_EnvironmentLight s)) (\<lambda>_.
             andThen
               (case m_EnvironmentMap s of
                  Some t \<Rightarrow> Inr (FileTexture (path t))
                | None \<Rightarrow> andThen (deref (m_RenderEnvironmentMapPass s)) (\<lambda>_. Inr ProceduralSky))
               (\<lambda>tex.
             andThen (deref (m_SunLight s)) (\<lambda>_.
               Inr (s\<lparr>envLightTexture := Some tex,
                      sunIrradiance := (if environmentMapIndex (m_ui s) > 0 then 0 else 1)\<rparr>))))
        else andThen (deref (m_EnvironmentLight s)) (\<lambda>_.
             andThen (deref (m_SunLight s)) (\<lambda>_.
               Inr (s\<lparr>envLightTexture := None, sunIrradiance := 0\<rparr>))))
       (\<lambda>s1. Inr (s1\<lparr>m_ui := (m_ui s1)\<lparr>enableDenoiser := False\<rparr>\<rparr>))"

text \<open>Lines 814 to 828: the command list is opened; the acceleration structure is rebuilt
  while the scene moved within the last two frames.\<close>

definition beginFrame :: "'m SceneRenderer \<Rightarrow> fault + 'm SceneRenderer" where
  "beginFrame s =
     andThen (deref (m_RtxdiResources s)) (\<lambda>_.
     andThen (deref (m_RtxdiContext s)) (\<lambda>_.
       let s1 = s\<lparr>m_CommandList := []\<rparr>
       in Inr (if m_FramesSinceAnimation s1 < 2 then emit BuildTopLevelAccelStruct s1 else s1)))"

text \<open>Lines 830 to 840: the environment map, rendered from the sun light, and its PDF
  mipmap, when dirty.\<close>

definition recordEnvironmentMap :: "'m SceneRenderer \<Rightarrow> fault + 'm SceneRenderer" where
  "recordEnvironmentMap s =
     (if environmentMapDirty (m_ui s) \<noteq> 0
      then andThen
             (if environmentMapIndex (m_ui s) = 0
              then andThen (deref (m_RenderEnvironmentMapPass s)) (\<lambda>_.
                   andThen (deref (m_SunLight s)) (\<lambda>_. Inr (emit RenderEnvironmentMap s)))
              else Inr s)
             (\<lambda>s1. andThen (deref (m_EnvironmentMapPdfMipmapPass s1)) (\<lambda>_.
                Inr ((emit EnvironmentMapPdfMipmap s1)
                       \<lparr>m_ui := (m_ui s1)\<lparr>environmentMapDirty := 0\<rparr>\<rparr>)))
      else Inr s)"

text \<open>Lines 842 to 851.\<close>

definition recordGBuffer :: "'m SceneRenderer \<Rightarrow> fault + 'm SceneRenderer" where
  "recordGBuffer s =
     (let s1 = emit ClearColorAttachment s in
      if rasterizeGBuffer (m_ui s1)
      then andThen (deref (m_RenderTargets s1)) (\<lambda>_. Inr (emit RasterizedGBuffer s1))
      else Inr (emit RaytracedGBuffer s1))"

text \<open>Lines 861 to 878.\<close>

definition recordPrepareLights :: "'m SceneRenderer \<Rightarrow> fault + 'm SceneRenderer" where
  "recordPrepareLights s =
     andThen (deref (m_RtxdiContext s)) (\<lambda>_.
       let s1 = emit (PrepareLights (m_EnvironmentMapPdfMipmapPass s \<noteq> None \<and>
                                     environmentMapImportanceSampling (m_ui s))) s
       in if enableLocalLightImportanceSampling (m_ui s1)
          then andThen (deref (m_LocalLightPdfMipmapPass s1)) (\<lambda>_. Inr (emit LocalLightPdfMipmap s1))
          else Inr s1)"

text \<open>
  Lines 908 to 936: the rendering mode selects the lighting passes and their flags.
  \<open>frameIndex\<close> is \<^verbatim>\<open>frameParameters.frameIndex\<close>, the effective frame index.
\<close>

definition lightingPasses :: "RenderingMode \<Rightarrow> 32 word \<Rightarrow> gpu_cmd list" where
  "lightingPasses mode frameIndex =
     (if mode = ReStirDirectOnly \<or> mode = ReStirDirectBrdfMIS \<or>
         mode = ReStirDirectBrdfIndirect
      then [LightingRender
              \<lparr>rs_enableDenoiserInputPacking =
                 (mode = ReStirDirectBrdfMIS \<or> mode \<noteq> ReStirDirectBrdfIndirect),
               rs_enableSpecularMis =
                 (mode = ReStirDirectBrdfMIS \<or> mode = ReStirDirectBrdfIndirect),
               rs_frameIndex = frameIndex\<rparr>]
      else []) @
     (if mode = BrdfDirectOnly \<or> mode = ReStirDirectBrdfMIS \<or>
         mode = ReStirDirectBrdfIndirect
      then [RenderBrdfRays
              \<lparr>br_enableDenoiserInputPacking = True,
               br_enableIndirect = (mode = ReStirDirectBrdfIndirect),
               br_enableAdditiveBlend =
                 (mode = ReStirDirectBrdfMIS \<or> mode = ReStirDirectBrdfIndirect),
               br_enableSpecularMis =
                 (mode = ReStirDirectBrdfMIS \<or> mode = ReStirDirectBrdfIndirect),
               br_frameIndex = frameIndex\<rparr>]
      else [])"

text \<open>The lighting passes read the resampling context; the BRDF-ray family also reads the
  environment light.\<close>

definition recordLighting :: "32 word \<Rightarrow> 'm SceneRenderer \<Rightarrow> fault + 'm SceneRenderer" where
  "recordLighting effectiveFrameIndex s =
     (let mode = renderingMode (m_ui s);
          passes = lightingPasses mode effectiveFrameIndex in
      if passes = [] then Inr s
      else andThen (deref (m_RtxdiContext s)) (\<lambda>_.
           andThen (if mode = BrdfDirectOnly \<or> mode = ReStirDirectBrdfMIS \<or>
                       mode = ReStirDirectBrdfIndirect
                    then deref (m_EnvironmentLight s) else Inr ()) (\<lambda>_.
             Inr (s\<lparr>m_CommandList := m_CommandList s @ passes\<rparr>))))"

text \<open>Lines 956 to 967: compositing and the glass pass, which read the environment light.\<close>

definition recordCompositing :: "'m SceneRenderer \<Rightarrow> fault + 'm SceneRenderer" where
  "recordCompositing s =
     andThen (deref (m_EnvironmentLight s)) (\<lambda>_.
       let s1 = emit Compositing s in
       Inr (if enableTransparentGeometry (m_ui s1) then emit Glass s1 else s1))"

text \<open>Lines 969 to 985: accumulation or temporal resolve; the result names the final HDR image.\<close>

definition recordResolve ::
  "bool \<Rightarrow> weight \<Rightarrow> 'm SceneRenderer \<Rightarrow> fault + (target_image \<times> 'm SceneRenderer)" where
  "recordResolve static accWeight s =
     andThen (deref (m_RenderTargets s)) (\<lambda>_.
       if enableAccumulation (m_ui s)
       then Inr (AccumulatedColor, emit (Accumulation accWeight) s)
       else if enableTAA (m_ui s)
       then (let clamp = (if static then 2 else 3 / 2);
                 s1 = s\<lparr>m_ui := (m_ui s)\<lparr>taaClampingFactor := clamp\<rparr>\<rparr>
             in andThen (deref (m_TemporalAntiAliasingPass s1)) (\<lambda>_.
                  Inr (ResolvedColor, emit (TemporalResolve clamp (m_PreviousViewValid s1)) s1)))
       else Inr (HdrColor, s))"

text \<open>Lines 987 to 1010: tone mapping and the blit to the display surface.\<close>

definition recordOutput ::
  "bool \<Rightarrow> target_image \<Rightarrow> 'm SceneRenderer \<Rightarrow> fault + 'm SceneRenderer" where
  "recordOutput exposureResetRequired finalHdrImage s =
     (if enableToneMapping (m_ui s)
      then andThen (deref (m_ToneMappingPass s)) (\<lambda>_.
             Inr (blitTexture LdrColor (emit (ToneMapping exposureResetRequired finalHdrImage) s)))
      else Inr (blitTexture finalHdrImage s))"

text \<open>Lines 1012 to 1025: the frame is committed.\<close>

definition commitFrame :: "'m SceneRenderer \<Rightarrow> 'm SceneRenderer" where
  "commitFrame s =
     (let s1 = (if enableMaterialReadback (m_ui s)
                then s\<lparr>m_ui := (m_ui s)\<lparr>enableMaterialReadback := False\<rparr>,
                       m_MaterialReadbackCountdown := 2\<rparr>
                else s);
          s2 = (if animateMeshes (m_ui s1)
                then s1\<lparr>m_FramesSinceAnimation := 0\<rparr>
                else s1\<lparr>m_FramesSinceAnimation := m_FramesSinceAnimation s1 + 1\<rparr>)
      in s2\<lparr>m_FrameIndex := m_FrameIndex s2 + 1,
            m_ViewPrevious := m_View s2,
            m_PreviousViewValid := True\<rparr>)"

subsection \<open>RenderScene\<close>

text \<open>
  The part of a full frame after the resource setup (lines 743 to 1025);
  \<open>effectiveFrameIndex\<close> and \<open>exposureResetRequired\<close> are the locals of that name.
\<close>

definition renderPasses ::
  "'m world \<Rightarrow> 32 word \<Rightarrow> bool \<Rightarrow> 'm SceneRenderer \<Rightarrow> fault + 'm SceneRenderer" where
  "renderPasses w effectiveFrameIndex exposureResetRequired s =
     andThen (NextFrame s) (\<lambda>s1.
     andThen (advanceJitter s1) (\<lambda>s2.
       let static = cameraIsStatic w s2;
           s3 = countDownMaterialReadback (updateAccumulation static s2);
           accWeight = accumulationWeight (numAccumulatedFrames (m_ui s3))
       in
       andThen (updateEnvironmentLight s3) (\<lambda>s4.
       andThen (beginFrame s4) (\<lambda>s5.
       andThen (recordEnvironmentMap s5) (\<lambda>s6.
       andThen (recordGBuffer s6) (\<lambda>s7.
       andThen (recordPrepareLights s7) (\<lambda>s8.
       andThen (recordLighting effectiveFrameIndex s8) (\<lambda>s9.
       andThen (recordCompositing s9) (\<lambda>s9c.
       andThen (recordResolve static accWeight s9c) (\<lambda>(finalHdrImage, s10).
       andThen (recordOutput exposureResetRequired finalHdrImage s10) (\<lambda>s11.
         Inr (commitFrame s11))))))))))))"

text \<open>
  The part of a full frame up to the resource setup (lines 675 to 739); the result carries
  the locals \<open>effectiveFrameIndex\<close> and \<open>exposureResetRequired\<close>.
\<close>

definition prepareFrame ::
  "framebuffer_info \<Rightarrow> 'm world \<Rightarrow> 'm SceneRenderer \<Rightarrow> fault + (32 word \<times> bool \<times> 'm SceneRenderer)" where
  "prepareFrame fbinfo w s =
     (let (effectiveFrameIndex, s1) = resolveEffectiveFrameIndex w (leaveStepMode s) in
      andThen (limitFrameRate s1) (\<lambda>_.
      andThen (reloadEnvironmentMapIfDirty w (resetRtxdiContextIfRequested s1)) (\<lambda>s2.
      andThen (SetupRenderPasses fbinfo w (SetupView fbinfo effectiveFrameIndex s2))
        (\<lambda>(exposureResetRequired, s3). Inr (effectiveFrameIndex, exposureResetRequired, s3)))))"

definition RenderScene ::
  "framebuffer_info \<Rightarrow> 'm world \<Rightarrow> 'm SceneRenderer \<Rightarrow> fault + 'm SceneRenderer" where
  "RenderScene fbinfo w s =
     (if m_FrameStepMode s = Wait then RenderSceneWait s
      else andThen (prepareFrame fbinfo w s) (\<lambda>(effectiveFrameIndex, exposureResetRequired, s1).
             renderPasses w effectiveFrameIndex exposureResetRequired s1))"

text \<open>Consecutive frames with the same framebuffer and collaborators; the states after each.\<close>

fun renderFrames ::
  "nat \<Rightarrow> framebuffer_info \<Rightarrow> 'm world \<Rightarrow> 'm SceneRenderer \<Rightarrow> fault + 'm SceneRenderer list" where
  "renderFrames 0 fbinfo w s = Inr []"
| "renderFrames (Suc n) fbinfo w s =
     andThen (RenderScene fbinfo w s) (\<lambda>s1.
     andThen (renderFrames n fbinfo w s1) (\<lambda>rest. Inr (s1 # rest)))"

subsection \<open>Descriptions used in the statements\<close>

text \<open>The commands of a full frame, in the order RenderScene records them, read off the
  state \<open>s\<close> that the resource setup leaves.\<close>

definition frameCommands :: "'m world \<Rightarrow> 32 word \<Rightarrow> bool \<Rightarrow> 'm SceneRenderer \<Rightarrow> gpu_cmd list" where
  "frameCommands w effectiveFrameIndex exposureResetRequired s =
     (let ui = m_ui s;
          static = cameraIsStatic w s;
          finalHdrImage = (if enableAccumulation ui then AccumulatedColor
                           else if enableTAA ui then ResolvedColor else HdrColor)
      in
      (if m_FramesSinceAnimation s < 2 then [BuildTopLevelAccelStruct] else []) @
      (if environmentMapDirty ui \<noteq> 0
       then (if environmentMapIndex ui = 0 then [RenderEnvironmentMap] else []) @
            [EnvironmentMapPdfMipmap]
       else []) @
      [ClearColorAttachment, if rasterizeGBuffer ui then RasterizedGBuffer else RaytracedGBuffer] @
      [PrepareLights (m_EnvironmentMapPdfMipmapPass s \<noteq> None \<and> environmentMapImportanceSampling ui)] @
      (if enableLocalLightImportanceSampling ui then [LocalLightPdfMipmap] else []) @
      lightingPasses (renderingMode ui) effectiveFrameIndex @
      [Compositing] @
      (if enableTransparentGeometry ui then [Glass] else []) @
      (if enableAccumulation ui
       then [Accumulation
               (accumulationWeight (numAccumulatedFrames (m_ui (updateAccumulation static s))))]
       else if enableTAA ui
       then [TemporalResolve (if static then 2 else 3 / 2) (m_PreviousViewValid s)]
       else []) @
      (if enableToneMapping ui
       then [ToneMapping exposureResetRequired finalHdrImage, BlitTexture LdrColor]
       else [BlitTexture finalHdrImage]))"

text \<open>The state that the passes of a full frame leave, read off the state \<open>s\<close> after the
  resource setup; \<open>ctx\<close> and \<open>taa\<close> are the context and the anti-aliasing pass in \<open>s\<close>.\<close>

definition renderPassesResult ::
  "'m world \<Rightarrow> 32 word \<Rightarrow> bool \<Rightarrow> ContextParameters \<Rightarrow> TemporalAntiAliasingPass \<Rightarrow>
   'm SceneRenderer \<Rightarrow> 'm SceneRenderer" where
  "renderPassesResult w effectiveFrameIndex exposureResetRequired ctx taa s =
     s\<lparr>passFrames := Suc (passFrames s),
       m_TemporalAntiAliasingPass :=
         Some \<lparr>taa_frameIndex =
           (if enableAccumulation (m_ui s) \<and> CheckerboardSamplingMode ctx \<noteq> Off \<and>
               (m_FrameIndex s AND 1) \<noteq> 0
            then taa_frameIndex taa else Suc (taa_frameIndex taa))\<rparr>,
       m_ui := (m_ui s)
         \<lparr>numAccumulatedFrames :=
            numAccumulatedFrames (m_ui (updateAccumulation (cameraIsStatic w s) s)),
          resetAccumulation := False,
          enableDenoiser := False,
          environmentMapDirty := 0,
          taaClampingFactor :=
            (if \<not> enableAccumulation (m_ui s) \<and> enableTAA (m_ui s)
             then (if cameraIsStatic w s then 2 else 3 / 2) else taaClampingFactor (m_ui s)),
          enableMaterialReadback := False\<rparr>,
       m_MaterialReadbackCountdown :=
         (if enableMaterialReadback (m_ui s) then 2
          else if m_MaterialReadbackCountdown s > 0 then m_MaterialReadbackCountdown s - 1
          else m_MaterialReadbackCountdown s),
       envLightTexture :=
         (if environmentMapIndex (m_ui s) \<ge> 0
          then Some (case m_EnvironmentMap s of
                       Some t \<Rightarrow> FileTexture (path t) | None \<Rightarrow> ProceduralSky)
          else None),
       sunIrradiance := (if environmentMapIndex (m_ui s) = 0 then 1 else 0),
       m_CommandList := frameCommands w effectiveFrameIndex exposureResetRequired s,
       blitBindingCache :=
         List.insert (if enableToneMapping (m_ui s) then LdrColor
                      else if enableAccumulation (m_ui s) then AccumulatedColor
                      else if enableTAA (m_ui s) then ResolvedColor else HdrColor)
           (blitBindingCache s),
       m_FramesSinceAnimation :=
         (if animateMeshes (m_ui s) then 0 else m_FramesSinceAnimation s + 1),
       m_FrameIndex := m_FrameIndex s + 1,
       m_ViewPrevious := m_View s,
       m_PreviousViewValid := True\<rparr>"

text \<open>The commands of the two lighting-pass families.\<close>

definition isLightingPass :: "gpu_cmd \<Rightarrow> bool" where
  "isLightingPass c =
     (case c of LightingRender _ \<Rightarrow> True | RenderBrdfRays _ \<Rightarrow> True | _ \<Rightarrow> False)"

text \<open>The environment map that lines 506 to 510 select, with its size, when its handle is
  not empty.\<close>

definition selectedEnvironment ::
  "'m world \<Rightarrow> 'm SceneRenderer \<Rightarrow> (env_texture \<times> texture_desc) option" where
  "selectedEnvironment w s =
     (if environmentMapIndex (m_ui s) > 0
      then map_option (\<lambda>t. (FileTexture (path t), texture t)) (m_EnvironmentMap s)
      else Some (ProceduralSky, skyTexture w))"

text \<open>The state that SetupRenderPasses leaves when the selected environment map is
  \<open>src\<close> with size \<open>sz\<close>: every handle is filled, an empty one with a new object.\<close>

definition resourceSetupResult ::
  "framebuffer_info \<Rightarrow> env_texture \<Rightarrow> texture_desc \<Rightarrow> 'm SceneRenderer \<Rightarrow> 'm SceneRenderer" where
  "resourceSetupResult fb src sz s =
     (let ui = m_ui s;
          res1 = (case m_RtxdiResources s of
                    Some r \<Rightarrow>
                      if width sz \<noteq> width (EnvironmentPdfTexture r) \<and>
                         height sz \<noteq> height (EnvironmentPdfTexture r)
                      then None else Some r
                  | None \<Rightarrow> None);
          rt = (case m_RenderTargets s of Some rt \<Rightarrow> rt
                | None \<Rightarrow> newRenderTargets (fb_width fb, fb_height fb));
          params = (rtxdiContextParams ui)\<lparr>RenderWidth := fb_width fb, RenderHeight := fb_height fb\<rparr>;
          ctx = (case m_RtxdiContext s of Some c \<Rightarrow> c | None \<Rightarrow> params);
          r = (case res1 of Some r \<Rightarrow> r
               | None \<Rightarrow> newRtxdiResources ctx (m_SceneEmissiveMeshes s)
                           (m_SceneEmissiveTriangles s) (m_ScenePrimitiveLights s)
                           (width sz) (height sz))
      in s\<lparr>m_RenderTargets := Some rt,
           passBindings := (if m_RenderTargets s = None then Some rt else passBindings s),
           m_RtxdiContext := Some ctx,
           m_RtxdiResources := Some r,
           prepareLightsBinding := (if res1 = None then Some r else prepareLightsBinding s),
           m_TemporalAntiAliasingPass :=
             Some (case (if reloadShaders ui then None else m_TemporalAntiAliasingPass s) of
                     Some t \<Rightarrow> t | None \<Rightarrow> \<lparr>taa_frameIndex = 0\<rparr>),
           m_ToneMappingPass := Some (),
           m_RenderEnvironmentMapPass := Some (),
           m_EnvironmentMapPdfMipmapPass :=
             (if reloadShaders ui \<or> environmentMapDirty ui = 2 \<or>
                 m_EnvironmentMapPdfMipmapPass s = None \<or> res1 = None
              then Some \<lparr>sourceTexture = src, targetTexture = EnvironmentPdfTexture r\<rparr>
              else m_EnvironmentMapPdfMipmapPass s),
           m_LocalLightPdfMipmapPass := Some (),
           lightingBinding :=
             (if m_RenderTargets s = None \<or> res1 = None then Some (rt, r)
              else lightingBinding s),
           m_ui := ui
             \<lparr>environmentMapDirty :=
                (if res1 = None \<or> reloadShaders ui \<or> environmentMapDirty ui = 2 then 1
                 else environmentMapDirty ui),
              reloadShaders := False,
              rtxdiContextParams :=
                (if m_RtxdiContext s = None then params else rtxdiContextParams ui)\<rparr>\<rparr>)"

text \<open>The state in which SetupRenderPasses starts (lines 675 to 738), read off the state
  \<open>s\<close> in which RenderScene starts and the state \<open>l\<close> that the reload of the environment
  map leaves: the frame-step mode has left Step, the camera follows the camera path, a
  requested reset has released the context and its bundle, and the views are set up.\<close>

definition beforeResourceSetup ::
  "framebuffer_info \<Rightarrow> 'm world \<Rightarrow> 'm SceneRenderer \<Rightarrow> 'm SceneRenderer \<Rightarrow> 'm SceneRenderer" where
  "beforeResourceSetup fb w s l =
     (let cam = m_Camera (snd (resolveEffectiveFrameIndex w s));
          v = \<lparr>viewMatrix = cam,
               viewport = (fb_width fb, fb_height fb),
               pixelOffset =
                 (case m_TemporalAntiAliasingPass s of
                    Some taa \<Rightarrow> if enablePixelJitter (m_ui s) then Some (taa_frameIndex taa) else None
                  | None \<Rightarrow> None)\<rparr>
      in s\<lparr>m_FrameStepMode := (if m_FrameStepMode s = Step then Wait else m_FrameStepMode s),
           m_Camera := cam,
           m_RtxdiContext := (if resetRtxdiContext (m_ui s) then None else m_RtxdiContext s),
           m_RtxdiResources := (if resetRtxdiContext (m_ui s) then None else m_RtxdiResources s),
           m_EnvironmentMap := m_EnvironmentMap l,
           environmentMaps := environmentMaps l,
           m_ui := (m_ui s)
             \<lparr>animationFrame := animationFrame (m_ui (snd (resolveEffectiveFrameIndex w s))),
              resetRtxdiContext := False,
              environmentMapIndex := environmentMapIndex (m_ui l)\<rparr>,
           m_View := v,
           m_ViewPrevious := (if m_FrameIndex s = 0 then v else m_ViewPrevious s)\<rparr>)"

text \<open>The resampling context and the anti-aliasing pass that the passes of a full frame
  see: the ones RenderScene starts with, unless a reset, a resize or a shader reload has
  released them; then the context is built from the parameters of the user interface with
  the size of the framebuffer, and the anti-aliasing pass starts its jitter sequence.\<close>

definition contextOfFrame :: "framebuffer_info \<Rightarrow> 'm SceneRenderer \<Rightarrow> ContextParameters" where
  "contextOfFrame fb s =
     (case (if resetRtxdiContext (m_ui s) then None else m_RtxdiContext s) of
        Some c \<Rightarrow> c
      | None \<Rightarrow> (rtxdiContextParams (m_ui s))
                  \<lparr>RenderWidth := fb_width fb, RenderHeight := fb_height fb\<rparr>)"

definition jitterPassOfFrame :: "'m SceneRenderer \<Rightarrow> TemporalAntiAliasingPass" where
  "jitterPassOfFrame s =
     (case (if reloadShaders (m_ui s) then None else m_TemporalAntiAliasingPass s) of
        Some t \<Rightarrow> t
      | None \<Rightarrow> \<lparr>taa_frameIndex = 0\<rparr>)"

text \<open>The state a full frame leaves, read off the state \<open>s\<close> in which RenderScene starts,
  the state \<open>l\<close> that the reload of the environment map leaves, and the environment map
  \<open>src\<close> of size \<open>sz\<close> that is selected then.\<close>

definition fullFrameResult ::
  "framebuffer_info \<Rightarrow> 'm world \<Rightarrow> 'm SceneRenderer \<Rightarrow> 'm SceneRenderer \<Rightarrow>
   env_texture \<Rightarrow> texture_desc \<Rightarrow> 'm SceneRenderer" where
  "fullFrameResult fb w s l src sz =
     renderPassesResult w (fst (resolveEffectiveFrameIndex w s)) (m_ToneMappingPass s = None)
       (contextOfFrame fb s) (jitterPassOfFrame s)
       (resourceSetupResult fb src sz (beforeResourceSetup fb w s l))"

text \<open>Line 758 in terms of the state in which RenderScene starts: the camera of the frame
  (after a camera-path override) is compared with the previous view, which SetupView has
  overwritten with the current one when the frame index is 0.\<close>

definition frameIsStatic :: "'m world \<Rightarrow> 'm SceneRenderer \<Rightarrow> bool" where
  "frameIsStatic w s =
     (let cam = m_Camera (snd (resolveEffectiveFrameIndex w s)) in
      m_PreviousViewValid s \<and>
      viewMatrixEq w cam (if m_FrameIndex s = 0 then cam else viewMatrix (m_ViewPrevious s)))"

text \<open>The selected environment map can be used: the procedural sky is selected, or a
  reload is pending and the selected index is within the list of environment maps, or the
  selected file is loaded.\<close>

definition environmentMapReady :: "'m SceneRenderer \<Rightarrow> bool" where
  "environmentMapReady s =
     (if environmentMapIndex (m_ui s) > 0
      then (if environmentMapDirty (m_ui s) = 2
            then nat (environmentMapIndex (m_ui s)) < length (environmentMaps s)
            else m_EnvironmentMap s \<noteq> None)
      else True)"

text \<open>The scene has its sun light and its environment light, and the frame-rate limiter
  of the frame that starts in \<open>s\<close> does not divide by zero.\<close>

definition sceneReady :: "'m SceneRenderer \<Rightarrow> bool" where
  "sceneReady s =
     (m_SunLight s \<noteq> None \<and> m_EnvironmentLight s \<noteq> None \<and>
      \<not> (enableFpsLimit (m_ui s) \<and> m_FrameIndex s > 0 \<and> fpsLimit (m_ui s) = 0))"

text \<open>The render targets, the resampling context and the Ray-Tracing Resource Bundle are
  there and have the size of the framebuffer \<open>fb\<close>.\<close>

definition bundlesSizedTo :: "framebuffer_info \<Rightarrow> 'm SceneRenderer \<Rightarrow> bool" where
  "bundlesSizedTo fb s =
     (case (m_RenderTargets s, m_RtxdiContext s, m_RtxdiResources s) of
        (Some rt, Some ctx, Some r) \<Rightarrow>
          Size rt = (fb_width fb, fb_height fb) \<and>
          RenderWidth ctx = fb_width fb \<and> RenderHeight ctx = fb_height fb \<and>
          res_context r = ctx
      | _ \<Rightarrow> False)"

text \<open>The binding sets of the passes refer to the bundles that are there now.\<close>

definition passesBound :: "'m SceneRenderer \<Rightarrow> bool" where
  "passesBound s =
     (case (m_RenderTargets s, m_RtxdiResources s) of
        (Some rt, Some r) \<Rightarrow>
          passBindings s = Some rt \<and> prepareLightsBinding s = Some r \<and>
          lightingBinding s = Some (rt, r)
      | _ \<Rightarrow> False)"

text \<open>The Ray-Tracing Resource Bundle is built anew in the frame that starts in \<open>s\<close> with an
  environment map of size \<open>sz\<close>: a reset of the context is requested, or the bundle is
  not there, or the test at lines 512 to 517 releases it.\<close>

definition bundleRebuilt :: "texture_desc \<Rightarrow> 'm SceneRenderer \<Rightarrow> bool" where
  "bundleRebuilt sz s =
     (resetRtxdiContext (m_ui s) \<or>
      (case m_RtxdiResources s of
         None \<Rightarrow> True
       | Some r \<Rightarrow> width sz \<noteq> width (EnvironmentPdfTexture r) \<and>
                  height sz \<noteq> height (EnvironmentPdfTexture r)))"

text \<open>Lines 761 to 764: the step of the accumulated-frame counter in a static frame with
  accumulation enabled and no reset requested, for the cap \<open>cap\<close>.\<close>

definition accumulate :: "32 word \<Rightarrow> 32 word \<Rightarrow> 32 word" where
  "accumulate cap n = (if cap > 0 then min (n + 1) cap else n + 1)"

text \<open>A session in which accumulation goes on: no frame stepping and no camera-path
  playback, accumulation enabled with the cap \<open>cap\<close> and no reset requested, the camera
  where the last completed frame saw it, the selected environment map usable, the two
  lights of the scene there, and no frame-rate limit of zero.\<close>

definition steadyAccumulation :: "'m world \<Rightarrow> 32 word \<Rightarrow> 'm SceneRenderer \<Rightarrow> bool" where
  "steadyAccumulation w cap s =
     (m_FrameStepMode s = Disabled \<and> animationFrame (m_ui s) = None \<and>
      enableAccumulation (m_ui s) \<and> \<not> resetAccumulation (m_ui s) \<and>
      framesToAccumulate (m_ui s) = cap \<and>
      m_PreviousViewValid s \<and> viewMatrix (m_ViewPrevious s) = m_Camera s \<and>
      viewMatrixEq w (m_Camera s) (m_Camera s) \<and>
      environmentMapReady s \<and>
      m_SunLight s \<noteq> None \<and> m_EnvironmentLight s \<noteq> None \<and>
      \<not> (enableFpsLimit (m_ui s) \<and> fpsLimit (m_ui s) = 0))"

text \<open>The state with every member blanked that SetupRenderPasses may write: two states
  with the same image differ in those members only.\<close>

definition outsideResourceSetup :: "'m SceneRenderer \<Rightarrow> 'm SceneRenderer" where
  "outsideResourceSetup s =
     s\<lparr>m_RenderTargets := None,
       m_RtxdiContext := None,
       m_RtxdiResources := None,
       m_TemporalAntiAliasingPass := None,
       m_ToneMappingPass := None,
       m_RenderEnvironmentMapPass := None,
       m_EnvironmentMapPdfMipmapPass := None,
       m_LocalLightPdfMipmapPass := None,
       passBindings := None,
       prepareLightsBinding := None,
       lightingBinding := None,
       m_ui := (m_ui s)
         \<lparr>environmentMapDirty := 0,
          reloadShaders := False,
          rtxdiContextParams := (rtxdiContextParams (m_ui s))\<lparr>RenderWidth := 0, RenderHeight := 0\<rparr>\<rparr>\<rparr>"

text \<open>The same for the whole preparation of a frame (lines 675 to 739), which also writes
  the frame-step mode, the camera and the animation frame (camera path), the reset flag of
  the context, the environment map with its list and index, and the two views (blanked
  with the view \<open>blank\<close>).\<close>

definition outsidePrepareFrame :: "'m PlanarView \<Rightarrow> 'm SceneRenderer \<Rightarrow> 'm SceneRenderer" where
  "outsidePrepareFrame blank s =
     (let s1 = outsideResourceSetup s in
      s1\<lparr>m_FrameStepMode := Disabled,
         m_Camera := viewMatrix blank,
         m_View := blank,
         m_ViewPrevious := blank,
         m_EnvironmentMap := None,
         environmentMaps := [],
         m_ui := (m_ui s1)\<lparr>animationFrame := None, resetRtxdiContext := False,
                            environmentMapIndex := 0\<rparr>\<rparr>)"

subsection \<open>A concrete session\<close>

text \<open>
  A renderer with accumulation and tone mapping switched on and a cap of four accumulated
  frames, a scene with three environment maps of which the last is missing on disk, and a
  window of 1920 by 1080 pixels. View matrices are numbered; equal numbers are equal
  matrices.
\<close>

definition exampleUI :: UIData where
  "exampleUI =
     \<lparr>reloadShaders = False, resetAccumulation = False, resetRtxdiContext = False,
      environmentMapDirty = 0, environmentMapIndex = 0, environmentMapImportanceSampling = True,
      enableToneMapping = True, enableAccumulation = True, enableTAA = False,
      enablePixelJitter = True, enableDenoiser = False,
      enableLocalLightImportanceSampling = True, enableTransparentGeometry = True,
      enableMaterialReadback = False, rasterizeGBuffer = False, animateMeshes = False,
      freezeRandom = False, enableFpsLimit = True, fpsLimit = 60, animationFrame = None,
      numAccumulatedFrames = 1,
      framesToAccumulate = 4, taaClampingFactor = 1,
      renderingMode = ReStirDirectBrdfIndirect,
      rtxdiContextParams =
        \<lparr>RenderWidth = 0, RenderHeight = 0, CheckerboardSamplingMode = Black\<rparr>\<rparr>"

definition exampleWorld :: "nat world" where
  "exampleWorld =
     \<lparr>loadTexture =
        (\<lambda>p. if p = ''studio.exr'' then Some \<lparr>width = 4096, height = 2048\<rparr>
             else if p = ''street.exr'' then Some \<lparr>width = 4096, height = 1024\<rparr>
             else None),
      skyTexture = \<lparr>width = 2048, height = 1024\<rparr>,
      interpolateCameraPath = (\<lambda>_. None),
      viewMatrixEq = (=)\<rparr>"

definition exampleFramebuffer :: framebuffer_info where
  "exampleFramebuffer = \<lparr>fb_width = 1920, fb_height = 1080\<rparr>"

definition exampleStart :: "nat SceneRenderer" where
  "exampleStart =
     SceneLoaded 7 [''procedural'', ''studio.exr'', ''street.exr'', ''missing.exr''] True 3 100 5
       (constructed exampleUI 0)"

text \<open>The same renderer with a scene that has no directional light and one environment
  map, which is missing on disk.\<close>

definition exampleSunless :: "nat SceneRenderer" where
  "exampleSunless =
     SceneLoaded 7 [''procedural'', ''missing.exr''] False 3 100 5 (constructed exampleUI 0)"

text \<open>The user picks environment map \<open>i\<close>: the index is set and a full reload requested.\<close>

definition selectEnvironment :: "int \<Rightarrow> 'm SceneRenderer \<Rightarrow> 'm SceneRenderer" where
  "selectEnvironment i s =
     s\<lparr>m_ui := (m_ui s)\<lparr>environmentMapIndex := i, environmentMapDirty := 2\<rparr>\<rparr>"

section \<open>Evaluation of the model\<close>

lemma andThen_Inr [simp]: "andThen (Inr x) f = f x"
  by (simp add: andThen_def)

lemma andThen_Inl [simp]: "andThen (Inl e) f = Inl e"
  by (simp add: andThen_def)

lemma andThen_weak_cong [cong]: "r = r' \<Longrightarrow> andThen r f = andThen r' f"
  by simp

lemma deref_Some [simp]: "deref (Some x) = Inr x"
  by (simp add: deref_def)

lemma deref_None [simp]: "deref None = Inl NullDereference"
  by (simp add: deref_def)

lemmas stage_defs =
  newRenderTargets_def newRtxdiResources_def
  LoadEnvironmentMap_def SetupView_def resolveFullReload_def reloadShadersIfRequested_def
  ensureRenderEnvironmentMapPass_def activeEnvironmentMap_def invalidateRtxdiResources_def
  ensureRenderTargets_def ensureRtxdiContext_def ensureRtxdiResources_def ensurePdfMipmapPasses_def
  bindLightingPasses_def ensureTemporalAntiAliasingPass_def ensureToneMappingPass_def
  selectEnvironmentMap_def createResourceBundles_def createPasses_def
  SetupRenderPasses_def emit_def blitTexture_def waitImage_def RenderSceneWait_def leaveStepMode_def
  resolveEffectiveFrameIndex_def limitFrameRate_def resetRtxdiContextIfRequested_def
  reloadEnvironmentMapIfDirty_def
  NextFrame_def skipJitterAdvance_def advanceJitter_def cameraIsStatic_def updateAccumulation_def
  accumulationWeight_def countDownMaterialReadback_def updateEnvironmentLight_def beginFrame_def
  recordEnvironmentMap_def recordGBuffer_def recordPrepareLights_def lightingPasses_def
  recordLighting_def recordCompositing_def recordResolve_def recordOutput_def commitFrame_def
  renderPasses_def prepareFrame_def RenderScene_def

section \<open>The parts of SetupRenderPasses\<close>

lemma resolveFullReload_eval:
  "resolveFullReload s =
     s\<lparr>m_EnvironmentMapPdfMipmapPass :=
         (if environmentMapDirty (m_ui s) = 2 then None else m_EnvironmentMapPdfMipmapPass s),
       m_ui := (m_ui s)\<lparr>environmentMapDirty :=
         (if environmentMapDirty (m_ui s) = 2 then 1 else environmentMapDirty (m_ui s))\<rparr>\<rparr>"
  by (cases s) (simp add: resolveFullReload_def)

lemma reloadShadersIfRequested_eval:
  "reloadShadersIfRequested s =
     s\<lparr>m_TemporalAntiAliasingPass :=
         (if reloadShaders (m_ui s) then None else m_TemporalAntiAliasingPass s),
       m_RenderEnvironmentMapPass :=
         (if reloadShaders (m_ui s) then None else m_RenderEnvironmentMapPass s),
       m_EnvironmentMapPdfMipmapPass :=
         (if reloadShaders (m_ui s) then None else m_EnvironmentMapPdfMipmapPass s),
       m_LocalLightPdfMipmapPass :=
         (if reloadShaders (m_ui s) then None else m_LocalLightPdfMipmapPass s),
       m_ui := (m_ui s)\<lparr>environmentMapDirty :=
         (if reloadShaders (m_ui s) then 1 else environmentMapDirty (m_ui s))\<rparr>\<rparr>"
  by (cases s) (simp add: reloadShadersIfRequested_def)

lemma ensureRenderEnvironmentMapPass_eval:
  "ensureRenderEnvironmentMapPass s = s\<lparr>m_RenderEnvironmentMapPass := Some ()\<rparr>"
  by (cases s) (auto simp add: ensureRenderEnvironmentMapPass_def)

lemma activeEnvironmentMap_eval:
  "m_RenderEnvironmentMapPass s = Some u \<Longrightarrow>
   activeEnvironmentMap w s =
     (if environmentMapIndex (m_ui s) > 0
      then (case m_EnvironmentMap s of
              Some t \<Rightarrow> Inr (FileTexture (path t), texture t)
            | None \<Rightarrow> Inl NullDereference)
      else Inr (ProceduralSky, skyTexture w))"
  by (simp add: activeEnvironmentMap_def split: option.splits)

lemma invalidateRtxdiResources_eval:
  "invalidateRtxdiResources sz s =
     s\<lparr>m_RtxdiResources :=
         (case m_RtxdiResources s of
            Some r \<Rightarrow>
              if width sz \<noteq> width (EnvironmentPdfTexture r) \<and>
                 height sz \<noteq> height (EnvironmentPdfTexture r)
              then None else Some r
          | None \<Rightarrow> None)\<rparr>"
  by (cases s) (simp add: invalidateRtxdiResources_def split: option.splits)

lemma ensureRenderTargets_eval:
  "ensureRenderTargets fb s =
     (m_RenderTargets s = None,
      s\<lparr>m_RenderTargets :=
           Some (case m_RenderTargets s of Some rt \<Rightarrow> rt
                 | None \<Rightarrow> newRenderTargets (fb_width fb, fb_height fb)),
         passBindings :=
           (if m_RenderTargets s = None then Some (newRenderTargets (fb_width fb, fb_height fb))
            else passBindings s)\<rparr>)"
  by (cases s) (auto simp add: ensureRenderTargets_def Let_def)

lemma ensureRtxdiContext_eval:
  "ensureRtxdiContext fb s =
     s\<lparr>m_ui := (m_ui s)\<lparr>rtxdiContextParams :=
           (if m_RtxdiContext s = None
            then (rtxdiContextParams (m_ui s))\<lparr>RenderWidth := fb_width fb, RenderHeight := fb_height fb\<rparr>
            else rtxdiContextParams (m_ui s))\<rparr>,
       m_RtxdiContext :=
         Some (case m_RtxdiContext s of Some c \<Rightarrow> c
               | None \<Rightarrow> (rtxdiContextParams (m_ui s))
                           \<lparr>RenderWidth := fb_width fb, RenderHeight := fb_height fb\<rparr>)\<rparr>"
  by (cases s) (auto simp add: ensureRtxdiContext_def Let_def)

lemma ensureRtxdiResources_eval:
  "m_RtxdiContext s = Some ctx \<Longrightarrow>
   ensureRtxdiResources sz s =
     Inr (m_RtxdiResources s = None,
          s\<lparr>m_RtxdiResources :=
               Some (case m_RtxdiResources s of Some r \<Rightarrow> r
                     | None \<Rightarrow> newRtxdiResources ctx (m_SceneEmissiveMeshes s)
                                 (m_SceneEmissiveTriangles s) (m_ScenePrimitiveLights s)
                                 (width sz) (height sz)),
             prepareLightsBinding :=
               (if m_RtxdiResources s = None
                then Some (newRtxdiResources ctx (m_SceneEmissiveMeshes s)
                             (m_SceneEmissiveTriangles s) (m_ScenePrimitiveLights s)
                             (width sz) (height sz))
                else prepareLightsBinding s),
             m_ui := (m_ui s)\<lparr>environmentMapDirty :=
               (if m_RtxdiResources s = None then 1 else environmentMapDirty (m_ui s))\<rparr>\<rparr>)"
  by (cases s) (auto simp add: ensureRtxdiResources_def Let_def)

lemma ensurePdfMipmapPasses_eval:
  "m_RtxdiResources s = Some r \<Longrightarrow>
   ensurePdfMipmapPasses src created s =
     Inr (s\<lparr>m_EnvironmentMapPdfMipmapPass :=
              (if m_EnvironmentMapPdfMipmapPass s = None \<or> created
               then Some \<lparr>sourceTexture = src, targetTexture = EnvironmentPdfTexture r\<rparr>
               else m_EnvironmentMapPdfMipmapPass s),
            m_LocalLightPdfMipmapPass := Some ()\<rparr>)"
  by (cases s) (auto simp add: ensurePdfMipmapPasses_def)

lemma bindLightingPasses_eval:
  "m_RenderTargets s = Some rt \<Longrightarrow> m_RtxdiResources s = Some r \<Longrightarrow>
   bindLightingPasses a b s =
     Inr (s\<lparr>lightingBinding := (if a \<or> b then Some (rt, r) else lightingBinding s),
            m_ui := (m_ui s)\<lparr>reloadShaders := False\<rparr>\<rparr>)"
  by (cases s) (auto simp add: bindLightingPasses_def)

lemma ensureTemporalAntiAliasingPass_eval:
  "m_RenderTargets s = Some rt \<Longrightarrow>
   ensureTemporalAntiAliasingPass s =
     Inr (s\<lparr>m_TemporalAntiAliasingPass :=
              Some (case m_TemporalAntiAliasingPass s of Some t \<Rightarrow> t | None \<Rightarrow> \<lparr>taa_frameIndex = 0\<rparr>)\<rparr>)"
  by (cases s) (auto simp add: ensureTemporalAntiAliasingPass_def)

lemma ensureToneMappingPass_eval:
  "m_RenderTargets s = Some rt \<Longrightarrow>
   ensureToneMappingPass s = Inr (m_ToneMappingPass s = None, s\<lparr>m_ToneMappingPass := Some ()\<rparr>)"
  by (cases s) (auto simp add: ensureToneMappingPass_def)

lemmas setup_stage_evals = resolveFullReload_eval reloadShadersIfRequested_eval
  ensureRenderEnvironmentMapPass_eval activeEnvironmentMap_eval invalidateRtxdiResources_eval
  ensureRenderTargets_eval ensureRtxdiContext_eval ensureRtxdiResources_eval
  ensurePdfMipmapPasses_eval bindLightingPasses_eval ensureTemporalAntiAliasingPass_eval
  ensureToneMappingPass_eval



lemma selectEnvironmentMap_eval:
  "selectEnvironmentMap w s =
     (case selectedEnvironment w s of
        None \<Rightarrow> Inl NullDereference
      | Some (src, sz) \<Rightarrow>
          Inr (src, sz,
               s\<lparr>m_TemporalAntiAliasingPass :=
                    (if reloadShaders (m_ui s) then None else m_TemporalAntiAliasingPass s),
                  m_RenderEnvironmentMapPass := Some (),
                  m_EnvironmentMapPdfMipmapPass :=
                    (if reloadShaders (m_ui s) \<or> environmentMapDirty (m_ui s) = 2 then None
                     else m_EnvironmentMapPdfMipmapPass s),
                  m_LocalLightPdfMipmapPass :=
                    (if reloadShaders (m_ui s) then None else m_LocalLightPdfMipmapPass s),
                  m_ui := (m_ui s)\<lparr>environmentMapDirty :=
                    (if reloadShaders (m_ui s) \<or> environmentMapDirty (m_ui s) = 2 then 1
                     else environmentMapDirty (m_ui s))\<rparr>\<rparr>))"
proof (cases "selectedEnvironment w s")
  case None
  then have "environmentMapIndex (m_ui s) > 0" "m_EnvironmentMap s = None"
    by (auto simp add: selectedEnvironment_def split: if_splits)
  then show ?thesis
    using None
    by (simp add: selectEnvironmentMap_def setup_stage_evals Let_def
        split del: if_split cong: if_cong option.case_cong)
next
  case (Some p)
  obtain src sz where p: "p = (src, sz)" by (cases p)
  show ?thesis
  proof (cases "environmentMapIndex (m_ui s) > 0")
    case True
    with Some p obtain t where "m_EnvironmentMap s = Some t" "src = FileTexture (path t)" "sz = texture t"
      by (auto simp add: selectedEnvironment_def)
    with True Some p show ?thesis
      apply (simp add: selectEnvironmentMap_def setup_stage_evals Let_def
          split del: if_split cong: if_cong option.case_cong)
      apply (cases "reloadShaders (m_ui s)"; cases "environmentMapDirty (m_ui s) = 2"; simp)
      done
  next
    case False
    with Some p have "src = ProceduralSky" "sz = skyTexture w"
      by (auto simp add: selectedEnvironment_def)
    with False Some p show ?thesis
      apply (simp add: selectEnvironmentMap_def setup_stage_evals Let_def
          split del: if_split cong: if_cong option.case_cong)
      apply (cases "reloadShaders (m_ui s)"; cases "environmentMapDirty (m_ui s) = 2"; simp)
      done
  qed
qed

lemma createResourceBundles_eval:
  "createResourceBundles fb sz s =
     (let res1 = (case m_RtxdiResources s of
                    Some r \<Rightarrow>
                      if width sz \<noteq> width (EnvironmentPdfTexture r) \<and>
                         height sz \<noteq> height (EnvironmentPdfTexture r)
                      then None else Some r
                  | None \<Rightarrow> None);
          rt = (case m_RenderTargets s of Some rt \<Rightarrow> rt
                | None \<Rightarrow> newRenderTargets (fb_width fb, fb_height fb));
          params = (rtxdiContextParams (m_ui s))
                     \<lparr>RenderWidth := fb_width fb, RenderHeight := fb_height fb\<rparr>;
          ctx = (case m_RtxdiContext s of Some c \<Rightarrow> c | None \<Rightarrow> params);
          r = (case res1 of Some r \<Rightarrow> r
               | None \<Rightarrow> newRtxdiResources ctx (m_SceneEmissiveMeshes s)
                           (m_SceneEmissiveTriangles s) (m_ScenePrimitiveLights s)
                           (width sz) (height sz))
      in Inr (m_RenderTargets s = None, res1 = None,
              s\<lparr>m_RenderTargets := Some rt,
                passBindings := (if m_RenderTargets s = None then Some rt else passBindings s),
                m_RtxdiContext := Some ctx,
                m_RtxdiResources := Some r,
                prepareLightsBinding := (if res1 = None then Some r else prepareLightsBinding s),
                m_ui := (m_ui s)
                  \<lparr>rtxdiContextParams :=
                     (if m_RtxdiContext s = None then params else rtxdiContextParams (m_ui s)),
                   environmentMapDirty :=
                     (if res1 = None then 1 else environmentMapDirty (m_ui s))\<rparr>\<rparr>))"
  by (simp add: createResourceBundles_def setup_stage_evals Let_def split del: if_split cong: if_cong option.case_cong)


lemma createPasses_eval:
  "m_RenderTargets s = Some rt \<Longrightarrow> m_RtxdiResources s = Some r \<Longrightarrow>
   createPasses src rtc rc s =
     Inr (m_ToneMappingPass s = None,
          s\<lparr>m_EnvironmentMapPdfMipmapPass :=
               (if m_EnvironmentMapPdfMipmapPass s = None \<or> rc
                then Some \<lparr>sourceTexture = src, targetTexture = EnvironmentPdfTexture r\<rparr>
                else m_EnvironmentMapPdfMipmapPass s),
             m_LocalLightPdfMipmapPass := Some (),
             lightingBinding := (if rtc \<or> rc then Some (rt, r) else lightingBinding s),
             m_ui := (m_ui s)\<lparr>reloadShaders := False\<rparr>,
             m_TemporalAntiAliasingPass :=
               Some (case m_TemporalAntiAliasingPass s of Some t \<Rightarrow> t
                     | None \<Rightarrow> \<lparr>taa_frameIndex = 0\<rparr>),
             m_ToneMappingPass := Some ()\<rparr>)"
  by (simp add: createPasses_def setup_stage_evals split del: if_split cong: if_cong option.case_cong)




lemma SetupRenderPasses_eval:
  assumes sel: "selectedEnvironment w s = Some (src, sz)"
  shows "SetupRenderPasses fb w s =
           Inr (m_ToneMappingPass s = None, resourceSetupResult fb src sz s)"
  using sel
  apply (simp add: SetupRenderPasses_def selectEnvironmentMap_eval createResourceBundles_eval
      createPasses_eval resourceSetupResult_def Let_def
      split del: if_split cong: if_cong option.case_cong)
  apply (cases "reloadShaders (m_ui s)"; cases "environmentMapDirty (m_ui s) = 2";
      simp split del: if_split cong: if_cong option.case_cong)
  done

section \<open>The stages of renderPasses\<close>

lemma NextFrame_eval:
  "m_RenderTargets s = Some rt \<Longrightarrow> NextFrame s = Inr (s\<lparr>passFrames := Suc (passFrames s)\<rparr>)"
  by (simp add: NextFrame_def)

lemma advanceJitter_eval:
  "m_RtxdiContext s = Some ctx \<Longrightarrow> m_TemporalAntiAliasingPass s = Some taa \<Longrightarrow>
   advanceJitter s =
     Inr (s\<lparr>m_TemporalAntiAliasingPass :=
            Some \<lparr>taa_frameIndex =
              (if enableAccumulation (m_ui s) \<and> CheckerboardSamplingMode ctx \<noteq> Off \<and>
                  (m_FrameIndex s AND 1) \<noteq> 0
               then taa_frameIndex taa else Suc (taa_frameIndex taa))\<rparr>\<rparr>)"
  by (cases s) (simp add: advanceJitter_def skipJitterAdvance_def)

lemma updateEnvironmentLight_eval:
  "m_RenderEnvironmentMapPass s = Some u \<Longrightarrow> m_SunLight s = Some sun \<Longrightarrow>
   m_EnvironmentLight s = Some env \<Longrightarrow>
   updateEnvironmentLight s =
     Inr (s\<lparr>envLightTexture :=
              (if environmentMapIndex (m_ui s) \<ge> 0
               then Some (case m_EnvironmentMap s of Some t \<Rightarrow> FileTexture (path t) | None \<Rightarrow> ProceduralSky)
               else None),
            sunIrradiance := (if environmentMapIndex (m_ui s) = 0 then 1 else 0),
            m_ui := (m_ui s)\<lparr>enableDenoiser := False\<rparr>\<rparr>)"
  by (cases s) (auto simp add: updateEnvironmentLight_def split: option.splits)

lemma beginFrame_eval:
  "m_RtxdiResources s = Some r \<Longrightarrow> m_RtxdiContext s = Some ctx \<Longrightarrow>
   beginFrame s =
     Inr (s\<lparr>m_CommandList := (if m_FramesSinceAnimation s < 2 then [BuildTopLevelAccelStruct] else [])\<rparr>)"
  by (cases s) (simp add: beginFrame_def emit_def)

lemma recordEnvironmentMap_eval:
  "m_RenderEnvironmentMapPass s = Some u \<Longrightarrow> m_EnvironmentMapPdfMipmapPass s = Some p \<Longrightarrow>
   m_SunLight s = Some sun \<Longrightarrow>
   recordEnvironmentMap s =
     Inr (s\<lparr>m_CommandList := m_CommandList s @
              (if environmentMapDirty (m_ui s) \<noteq> 0
               then (if environmentMapIndex (m_ui s) = 0 then [RenderEnvironmentMap] else []) @
                    [EnvironmentMapPdfMipmap]
               else []),
            m_ui := (m_ui s)\<lparr>environmentMapDirty := 0\<rparr>\<rparr>)"
  by (cases s) (simp add: recordEnvironmentMap_def emit_def)

lemma recordGBuffer_eval:
  "m_RenderTargets s = Some rt \<Longrightarrow>
   recordGBuffer s =
     Inr (s\<lparr>m_CommandList := m_CommandList s @
              [ClearColorAttachment,
               if rasterizeGBuffer (m_ui s) then RasterizedGBuffer else RaytracedGBuffer]\<rparr>)"
  by (cases s) (simp add: recordGBuffer_def emit_def)

lemma recordPrepareLights_eval:
  "m_RtxdiContext s = Some ctx \<Longrightarrow> m_LocalLightPdfMipmapPass s = Some u \<Longrightarrow>
   recordPrepareLights s =
     Inr (s\<lparr>m_CommandList := m_CommandList s @
              PrepareLights (m_EnvironmentMapPdfMipmapPass s \<noteq> None \<and>
                             environmentMapImportanceSampling (m_ui s)) #
              (if enableLocalLightImportanceSampling (m_ui s) then [LocalLightPdfMipmap] else [])\<rparr>)"
  by (cases s) (simp add: recordPrepareLights_def emit_def)

lemma recordLighting_eval:
  "m_RtxdiContext s = Some ctx \<Longrightarrow> m_EnvironmentLight s = Some env \<Longrightarrow>
   recordLighting eff s =
     Inr (s\<lparr>m_CommandList := m_CommandList s @ lightingPasses (renderingMode (m_ui s)) eff\<rparr>)"
  by (cases s) (simp add: recordLighting_def Let_def)

lemma recordCompositing_eval:
  "m_EnvironmentLight s = Some env \<Longrightarrow>
   recordCompositing s =
     Inr (s\<lparr>m_CommandList := m_CommandList s @
            Compositing # (if enableTransparentGeometry (m_ui s) then [Glass] else [])\<rparr>)"
  by (cases s) (simp add: recordCompositing_def emit_def)

lemma recordResolve_eval:
  "m_RenderTargets s = Some rt \<Longrightarrow> m_TemporalAntiAliasingPass s = Some taa \<Longrightarrow>
   recordResolve static aw s =
     Inr (if enableAccumulation (m_ui s) then AccumulatedColor
          else if enableTAA (m_ui s) then ResolvedColor else HdrColor,
          s\<lparr>m_CommandList := m_CommandList s @
               (if enableAccumulation (m_ui s) then [Accumulation aw]
                else if enableTAA (m_ui s)
                then [TemporalResolve (if static then 2 else 3 / 2) (m_PreviousViewValid s)]
                else []),
             m_ui := (m_ui s)\<lparr>taaClampingFactor :=
               (if \<not> enableAccumulation (m_ui s) \<and> enableTAA (m_ui s)
                then (if static then 2 else 3 / 2) else taaClampingFactor (m_ui s))\<rparr>\<rparr>)"
  by (cases s) (simp add: recordResolve_def emit_def Let_def)

lemma recordOutput_eval:
  "m_ToneMappingPass s = Some u \<Longrightarrow>
   recordOutput ex img s =
     Inr (s\<lparr>m_CommandList := m_CommandList s @
              (if enableToneMapping (m_ui s) then [ToneMapping ex img, BlitTexture LdrColor]
               else [BlitTexture img]),
            blitBindingCache :=
              List.insert (if enableToneMapping (m_ui s) then LdrColor else img) (blitBindingCache s)\<rparr>)"
  by (cases s) (simp add: recordOutput_def blitTexture_def emit_def)

lemma commitFrame_eval:
  "commitFrame s =
     s\<lparr>m_ui := (m_ui s)\<lparr>enableMaterialReadback := False\<rparr>,
       m_MaterialReadbackCountdown :=
         (if enableMaterialReadback (m_ui s) then 2 else m_MaterialReadbackCountdown s),
       m_FramesSinceAnimation :=
         (if animateMeshes (m_ui s) then 0 else m_FramesSinceAnimation s + 1),
       m_FrameIndex := m_FrameIndex s + 1,
       m_ViewPrevious := m_View s,
       m_PreviousViewValid := True\<rparr>"
  by (cases s) (simp add: commitFrame_def Let_def)

lemma countDownMaterialReadback_eval:
  "countDownMaterialReadback s =
     s\<lparr>m_MaterialReadbackCountdown :=
         (if m_MaterialReadbackCountdown s > 0 then m_MaterialReadbackCountdown s - 1
          else m_MaterialReadbackCountdown s)\<rparr>"
  by (cases s) (simp add: countDownMaterialReadback_def)

lemmas renderPasses_stage_evals = NextFrame_eval advanceJitter_eval updateEnvironmentLight_eval
  beginFrame_eval recordEnvironmentMap_eval recordGBuffer_eval recordPrepareLights_eval
  recordLighting_eval recordCompositing_eval recordResolve_eval recordOutput_eval commitFrame_eval
  countDownMaterialReadback_eval

lemma renderPasses_eval:
  assumes "m_RenderTargets s = Some rt" "m_RtxdiContext s = Some ctx" "m_RtxdiResources s = Some r"
    "m_TemporalAntiAliasingPass s = Some taa" "m_ToneMappingPass s = Some u1"
    "m_RenderEnvironmentMapPass s = Some u2" "m_EnvironmentMapPdfMipmapPass s = Some p"
    "m_LocalLightPdfMipmapPass s = Some u3" "m_SunLight s = Some sun"
    "m_EnvironmentLight s = Some env"
  shows "renderPasses w eff ex s = Inr (renderPassesResult w eff ex ctx taa s)"
  using assms
  by (cases s) (simp add: renderPasses_def Let_def renderPasses_stage_evals updateAccumulation_def
      frameCommands_def cameraIsStatic_def renderPassesResult_def)

section \<open>The preparation of a frame\<close>

lemma andThen_eq_Inr: "andThen r f = Inr y \<longleftrightarrow> (\<exists>x. r = Inr x \<and> f x = Inr y)"
  by (cases r) simp_all

lemma leaveStepMode_eval:
  "leaveStepMode s =
     s\<lparr>m_FrameStepMode := (if m_FrameStepMode s = Step then Wait else m_FrameStepMode s)\<rparr>"
  by (cases s) (simp add: leaveStepMode_def)

lemma resolveEffectiveFrameIndex_shape:
  "resolveEffectiveFrameIndex w s =
     (fst (resolveEffectiveFrameIndex w s),
      s\<lparr>m_Camera := m_Camera (snd (resolveEffectiveFrameIndex w s)),
        m_ui := (m_ui s)\<lparr>animationFrame :=
          animationFrame (m_ui (snd (resolveEffectiveFrameIndex w s)))\<rparr>\<rparr>)"
  by (cases s) (simp add: resolveEffectiveFrameIndex_def Let_def split: option.splits)

lemma resolveEffectiveFrameIndex_leaveStepMode:
  "fst (resolveEffectiveFrameIndex w (leaveStepMode s)) = fst (resolveEffectiveFrameIndex w s)"
  "m_Camera (snd (resolveEffectiveFrameIndex w (leaveStepMode s))) =
     m_Camera (snd (resolveEffectiveFrameIndex w s))"
  "animationFrame (m_ui (snd (resolveEffectiveFrameIndex w (leaveStepMode s)))) =
     animationFrame (m_ui (snd (resolveEffectiveFrameIndex w s)))"
  by (simp_all add: resolveEffectiveFrameIndex_def leaveStepMode_def Let_def split: option.splits)

lemma resetRtxdiContextIfRequested_eval:
  "resetRtxdiContextIfRequested s =
     s\<lparr>m_RtxdiContext := (if resetRtxdiContext (m_ui s) then None else m_RtxdiContext s),
       m_RtxdiResources := (if resetRtxdiContext (m_ui s) then None else m_RtxdiResources s),
       m_ui := (m_ui s)\<lparr>resetRtxdiContext := False\<rparr>\<rparr>"
  by (cases s) (simp add: resetRtxdiContextIfRequested_def)

lemma reloadEnvironmentMapIfDirty_shape:
  "reloadEnvironmentMapIfDirty w s = Inr s' \<Longrightarrow>
   s' = s\<lparr>m_EnvironmentMap := m_EnvironmentMap s',
          environmentMaps := environmentMaps s',
          m_ui := (m_ui s)\<lparr>environmentMapIndex := environmentMapIndex (m_ui s')\<rparr>\<rparr>"
  by (cases s)
     (auto simp add: reloadEnvironmentMapIfDirty_def LoadEnvironmentMap_def Let_def
        split: if_splits option.splits)

lemma SetupView_eval:
  "SetupView fb eff s =
     (let v = \<lparr>viewMatrix = m_Camera s,
                viewport = (fb_width fb, fb_height fb),
                pixelOffset =
                  (case m_TemporalAntiAliasingPass s of
                     Some taa \<Rightarrow> if enablePixelJitter (m_ui s) then Some (taa_frameIndex taa) else None
                   | None \<Rightarrow> None)\<rparr>
      in s\<lparr>m_View := v, m_ViewPrevious := (if m_FrameIndex s = 0 then v else m_ViewPrevious s)\<rparr>)"
  by (cases s) (simp add: SetupView_def Let_def cong: option.case_cong if_cong)

lemma selectedEnvironment_SetupView [simp]:
  "selectedEnvironment w (SetupView fb eff s) = selectedEnvironment w s"
  by (simp add: selectedEnvironment_def SetupView_eval Let_def)

lemma SetupRenderPasses_fault:
  "selectedEnvironment w s = None \<Longrightarrow> SetupRenderPasses fb w s = Inl NullDereference"
  by (simp add: SetupRenderPasses_def selectEnvironmentMap_eval)

lemma limitFrameRate_prepared:
  "limitFrameRate (snd (resolveEffectiveFrameIndex w (leaveStepMode s))) = limitFrameRate s"
  by (simp add: limitFrameRate_def resolveEffectiveFrameIndex_def leaveStepMode_def Let_def
      split: option.splits)

lemma limitFrameRate_iff:
  "limitFrameRate s = Inr u \<longleftrightarrow>
     \<not> (enableFpsLimit (m_ui s) \<and> m_FrameIndex s > 0 \<and> fpsLimit (m_ui s) = 0)"
  by (auto simp add: limitFrameRate_def)

lemma sceneReady_limiter: "sceneReady s \<Longrightarrow> limitFrameRate s = Inr ()"
  by (simp add: sceneReady_def limitFrameRate_iff)

lemma prepareFrame_Inr:
  assumes "prepareFrame fb w s = Inr (eff, ex, s3)"
  shows "\<exists>s2 src sz.
      limitFrameRate s = Inr () \<and>
      reloadEnvironmentMapIfDirty w
        (resetRtxdiContextIfRequested (snd (resolveEffectiveFrameIndex w (leaveStepMode s)))) = Inr s2 \<and>
      selectedEnvironment w s2 = Some (src, sz) \<and>
      eff = fst (resolveEffectiveFrameIndex w s) \<and>
      SetupRenderPasses fb w (SetupView fb eff s2) = Inr (ex, s3)"
proof -
  obtain e s1 where r: "resolveEffectiveFrameIndex w (leaveStepMode s) = (e, s1)"
    by (cases "resolveEffectiveFrameIndex w (leaveStepMode s)")
  from assms r obtain s2 where
    lim1: "limitFrameRate s1 = Inr ()" and
    l: "reloadEnvironmentMapIfDirty w (resetRtxdiContextIfRequested s1) = Inr s2" and
    su: "andThen (SetupRenderPasses fb w (SetupView fb e s2))
           (\<lambda>(exposureResetRequired, s3). Inr (e, exposureResetRequired, s3)) = Inr (eff, ex, s3)"
    by (auto simp add: prepareFrame_def andThen_eq_Inr)
  from lim1 r limitFrameRate_prepared[of w s] have lim: "limitFrameRate s = Inr ()"
    by simp
  from su obtain x where x: "SetupRenderPasses fb w (SetupView fb e s2) = Inr x"
    and y: "(case x of (exposureResetRequired, s3) \<Rightarrow> Inr (e, exposureResetRequired, s3)) =
            (Inr (eff, ex, s3) :: fault + _)"
    by (auto simp add: andThen_eq_Inr)
  from y have e: "e = eff" and x': "x = (ex, s3)" by (cases x; simp)+
  have sel: "selectedEnvironment w s2 \<noteq> None"
  proof
    assume "selectedEnvironment w s2 = None"
    then have "SetupRenderPasses fb w (SetupView fb e s2) = Inl NullDereference"
      by (simp add: SetupRenderPasses_fault)
    with x show False by simp
  qed
  then obtain src sz where "selectedEnvironment w s2 = Some (src, sz)" by auto
  moreover have "e = fst (resolveEffectiveFrameIndex w s)"
    using r resolveEffectiveFrameIndex_leaveStepMode(1)[of w s] by simp
  ultimately show ?thesis using lim l x x' e r by auto
qed

lemma reloadEnvironmentMapIfDirty_cong:
  assumes "reloadEnvironmentMapIfDirty w a = Inr a'"
    and "m_EnvironmentMap a = m_EnvironmentMap b" "environmentMaps a = environmentMaps b"
    and "environmentMapIndex (m_ui a) = environmentMapIndex (m_ui b)"
    and "environmentMapDirty (m_ui a) = environmentMapDirty (m_ui b)"
  shows "\<exists>b'. reloadEnvironmentMapIfDirty w b = Inr b' \<and>
           m_EnvironmentMap b' = m_EnvironmentMap a' \<and> environmentMaps b' = environmentMaps a' \<and>
           environmentMapIndex (m_ui b') = environmentMapIndex (m_ui a')"
  using assms
  by (auto simp add: reloadEnvironmentMapIfDirty_def LoadEnvironmentMap_def Let_def
      split: if_splits option.splits)

lemma prepareFrame_facts:
  assumes pf: "prepareFrame fb w s = Inr (eff, ex, s3)"
  shows "\<exists>l. reloadEnvironmentMapIfDirty w s = Inr l \<and>
           m_EnvironmentMap s3 = m_EnvironmentMap l \<and> environmentMaps s3 = environmentMaps l \<and>
           environmentMapIndex (m_ui s3) = environmentMapIndex (m_ui l)"
    and "eff = fst (resolveEffectiveFrameIndex w s)"
    and "ex = (m_ToneMappingPass s = None)"
    and "m_RenderTargets s3 =
           Some (case m_RenderTargets s of Some rt \<Rightarrow> rt
                 | None \<Rightarrow> newRenderTargets (fb_width fb, fb_height fb))"
    and "m_RtxdiContext s3 =
           Some (case (if resetRtxdiContext (m_ui s) then None else m_RtxdiContext s) of
                   Some c \<Rightarrow> c
                 | None \<Rightarrow> (rtxdiContextParams (m_ui s))
                             \<lparr>RenderWidth := fb_width fb, RenderHeight := fb_height fb\<rparr>)"
    and "m_RtxdiResources s3 \<noteq> None"
    and "m_TemporalAntiAliasingPass s3 =
           Some (case (if reloadShaders (m_ui s) then None else m_TemporalAntiAliasingPass s) of
                   Some t \<Rightarrow> t | None \<Rightarrow> \<lparr>taa_frameIndex = 0\<rparr>)"
    and "m_ToneMappingPass s3 = Some ()"
    and "m_RenderEnvironmentMapPass s3 = Some ()"
    and "m_LocalLightPdfMipmapPass s3 = Some ()"
    and "m_EnvironmentMapPdfMipmapPass s3 \<noteq> None"
    and "m_Camera s3 = m_Camera (snd (resolveEffectiveFrameIndex w s))"
    and "m_View s3 =
           \<lparr>viewMatrix = m_Camera (snd (resolveEffectiveFrameIndex w s)),
            viewport = (fb_width fb, fb_height fb),
            pixelOffset =
              (case m_TemporalAntiAliasingPass s of
                 Some taa \<Rightarrow> if enablePixelJitter (m_ui s) then Some (taa_frameIndex taa) else None
               | None \<Rightarrow> None)\<rparr>"
    and "m_ViewPrevious s3 = (if m_FrameIndex s = 0 then m_View s3 else m_ViewPrevious s)"
    and "m_FrameStepMode s3 = (if m_FrameStepMode s = Step then Wait else m_FrameStepMode s)"
    and "outsidePrepareFrame blank s3 = outsidePrepareFrame blank s"
    and "m_SunLight s3 = m_SunLight s"
    and "m_EnvironmentLight s3 = m_EnvironmentLight s"
    and "limitFrameRate s = Inr ()"
proof -
  define s0 where "s0 = leaveStepMode s"
  define cam where "cam = m_Camera (snd (resolveEffectiveFrameIndex w s))"
  define af where "af = animationFrame (m_ui (snd (resolveEffectiveFrameIndex w s)))"
  define s1 where "s1 = resetRtxdiContextIfRequested (snd (resolveEffectiveFrameIndex w s0))"
  from prepareFrame_Inr[OF pf] obtain s2 src sz where
    lim: "limitFrameRate s = Inr ()" and
    l: "reloadEnvironmentMapIfDirty w s1 = Inr s2" and
    sel: "selectedEnvironment w s2 = Some (src, sz)" and
    eff: "eff = fst (resolveEffectiveFrameIndex w s)" and
    su: "SetupRenderPasses fb w (SetupView fb eff s2) = Inr (ex, s3)"
    by (auto simp add: s1_def s0_def)
  have r: "snd (resolveEffectiveFrameIndex w s0) =
             s0\<lparr>m_Camera := cam, m_ui := (m_ui s0)\<lparr>animationFrame := af\<rparr>\<rparr>"
    using resolveEffectiveFrameIndex_shape[of w s0]
    by (metis cam_def af_def s0_def resolveEffectiveFrameIndex_leaveStepMode(2,3) snd_conv)
  have s1: "s1 = s\<lparr>m_FrameStepMode := (if m_FrameStepMode s = Step then Wait else m_FrameStepMode s),
                   m_Camera := cam,
                   m_RtxdiContext := (if resetRtxdiContext (m_ui s) then None else m_RtxdiContext s),
                   m_RtxdiResources := (if resetRtxdiContext (m_ui s) then None else m_RtxdiResources s),
                   m_ui := (m_ui s)\<lparr>animationFrame := af, resetRtxdiContext := False\<rparr>\<rparr>"
    unfolding s1_def r
    by (simp add: resetRtxdiContextIfRequested_eval s0_def leaveStepMode_eval
        split del: if_split cong: if_cong)
  define em where "em = m_EnvironmentMap s2"
  define maps where "maps = environmentMaps s2"
  define idx where "idx = environmentMapIndex (m_ui s2)"
  have s2: "s2 = s1\<lparr>m_EnvironmentMap := em, environmentMaps := maps,
                    m_ui := (m_ui s1)\<lparr>environmentMapIndex := idx\<rparr>\<rparr>"
    using reloadEnvironmentMapIfDirty_shape[OF l] by (simp add: em_def maps_def idx_def)
  define sv where "sv = SetupView fb eff s2"
  have sv: "sv = s\<lparr>m_FrameStepMode := (if m_FrameStepMode s = Step then Wait else m_FrameStepMode s),
                   m_Camera := cam,
                   m_RtxdiContext := (if resetRtxdiContext (m_ui s) then None else m_RtxdiContext s),
                   m_RtxdiResources := (if resetRtxdiContext (m_ui s) then None else m_RtxdiResources s),
                   m_EnvironmentMap := em, environmentMaps := maps,
                   m_ui := (m_ui s)\<lparr>animationFrame := af, resetRtxdiContext := False,
                                     environmentMapIndex := idx\<rparr>,
                   m_View := \<lparr>viewMatrix = cam, viewport = (fb_width fb, fb_height fb),
                              pixelOffset =
                                (case m_TemporalAntiAliasingPass s of
                                   Some taa \<Rightarrow>
                                     if enablePixelJitter (m_ui s) then Some (taa_frameIndex taa) else None
                                 | None \<Rightarrow> None)\<rparr>,
                   m_ViewPrevious :=
                     (if m_FrameIndex s = 0
                      then \<lparr>viewMatrix = cam, viewport = (fb_width fb, fb_height fb),
                            pixelOffset =
                              (case m_TemporalAntiAliasingPass s of
                                 Some taa \<Rightarrow>
                                   if enablePixelJitter (m_ui s) then Some (taa_frameIndex taa) else None
                               | None \<Rightarrow> None)\<rparr>
                      else m_ViewPrevious s)\<rparr>"
    by (simp add: sv_def SetupView_eval Let_def s2 s1 split del: if_split cong: if_cong option.case_cong)
  have "selectedEnvironment w sv = Some (src, sz)" by (simp add: sv_def sel)
  from SetupRenderPasses_eval[OF this, of fb] su
  have ex: "ex = (m_ToneMappingPass sv = None)" and s3: "s3 = resourceSetupResult fb src sz sv"
    by (simp_all add: sv_def)
  note ev = s3 resourceSetupResult_def Let_def sv
  show "\<exists>l. reloadEnvironmentMapIfDirty w s = Inr l \<and>
           m_EnvironmentMap s3 = m_EnvironmentMap l \<and> environmentMaps s3 = environmentMaps l \<and>
           environmentMapIndex (m_ui s3) = environmentMapIndex (m_ui l)"
  proof -
    from reloadEnvironmentMapIfDirty_cong[OF l, of s]
    obtain b' where "reloadEnvironmentMapIfDirty w s = Inr b'"
      "m_EnvironmentMap b' = em" "environmentMaps b' = maps" "environmentMapIndex (m_ui b') = idx"
      by (auto simp add: s1 em_def maps_def idx_def)
    moreover have "m_EnvironmentMap s3 = em" "environmentMaps s3 = maps"
      "environmentMapIndex (m_ui s3) = idx"
      by (simp_all add: ev split del: if_split cong: if_cong option.case_cong)
    ultimately show ?thesis by auto
  qed
  show "eff = fst (resolveEffectiveFrameIndex w s)" by (rule eff)
  show "ex = (m_ToneMappingPass s = None)"
    by (simp add: ex sv split del: if_split cong: if_cong option.case_cong)
  show "m_RenderTargets s3 =
           Some (case m_RenderTargets s of Some rt \<Rightarrow> rt
                 | None \<Rightarrow> newRenderTargets (fb_width fb, fb_height fb))"
    by (simp add: ev split del: if_split cong: if_cong option.case_cong)
  show "m_RtxdiContext s3 =
           Some (case (if resetRtxdiContext (m_ui s) then None else m_RtxdiContext s) of
                   Some c \<Rightarrow> c
                 | None \<Rightarrow> (rtxdiContextParams (m_ui s))
                             \<lparr>RenderWidth := fb_width fb, RenderHeight := fb_height fb\<rparr>)"
    by (simp add: ev split del: if_split cong: if_cong option.case_cong)
  show "m_RtxdiResources s3 \<noteq> None"
    by (simp add: ev split del: if_split cong: if_cong option.case_cong)
  show "m_TemporalAntiAliasingPass s3 =
           Some (case (if reloadShaders (m_ui s) then None else m_TemporalAntiAliasingPass s) of
                   Some t \<Rightarrow> t | None \<Rightarrow> \<lparr>taa_frameIndex = 0\<rparr>)"
    by (simp add: ev split del: if_split cong: if_cong option.case_cong)
  show "m_ToneMappingPass s3 = Some ()" "m_RenderEnvironmentMapPass s3 = Some ()"
    "m_LocalLightPdfMipmapPass s3 = Some ()"
    by (simp_all add: ev split del: if_split cong: if_cong option.case_cong)
  show "m_EnvironmentMapPdfMipmapPass s3 \<noteq> None"
    by (simp add: ev cong: if_cong option.case_cong)
  show "m_Camera s3 = m_Camera (snd (resolveEffectiveFrameIndex w s))"
    by (simp add: ev cam_def split del: if_split cong: if_cong option.case_cong)
  show v: "m_View s3 =
           \<lparr>viewMatrix = m_Camera (snd (resolveEffectiveFrameIndex w s)),
            viewport = (fb_width fb, fb_height fb),
            pixelOffset =
              (case m_TemporalAntiAliasingPass s of
                 Some taa \<Rightarrow> if enablePixelJitter (m_ui s) then Some (taa_frameIndex taa) else None
               | None \<Rightarrow> None)\<rparr>"
    by (simp add: ev cam_def split del: if_split cong: if_cong option.case_cong)
  show "m_ViewPrevious s3 = (if m_FrameIndex s = 0 then m_View s3 else m_ViewPrevious s)"
    unfolding v
    by (simp add: ev cam_def split del: if_split cong: if_cong option.case_cong)
  show "m_FrameStepMode s3 = (if m_FrameStepMode s = Step then Wait else m_FrameStepMode s)"
    by (simp add: ev split del: if_split cong: if_cong option.case_cong)
  show "outsidePrepareFrame blank s3 = outsidePrepareFrame blank s"
    apply (simp add: ev outsidePrepareFrame_def outsideResourceSetup_def
        split del: if_split cong: if_cong option.case_cong)
    apply (cases "resetRtxdiContext (m_ui s)"; cases "m_RtxdiContext s"; simp)
    done
  show "m_SunLight s3 = m_SunLight s" "m_EnvironmentLight s3 = m_EnvironmentLight s"
    by (simp_all add: ev split del: if_split cong: if_cong option.case_cong)
  show "limitFrameRate s = Inr ()" by (rule lim)
qed

lemma outsidePrepareFrame_fields:
  assumes "outsidePrepareFrame blank s' = outsidePrepareFrame blank s"
  shows "m_FrameIndex s' = m_FrameIndex s"
    and "m_FramesSinceAnimation s' = m_FramesSinceAnimation s"
    and "m_PreviousViewValid s' = m_PreviousViewValid s"
    and "m_MaterialReadbackCountdown s' = m_MaterialReadbackCountdown s"
    and "m_SceneEmissiveMeshes s' = m_SceneEmissiveMeshes s"
    and "m_SceneEmissiveTriangles s' = m_SceneEmissiveTriangles s"
    and "m_ScenePrimitiveLights s' = m_ScenePrimitiveLights s"
    and "blitBindingCache s' = blitBindingCache s"
    and "passFrames s' = passFrames s"
    and "resetAccumulation (m_ui s') = resetAccumulation (m_ui s)"
    and "environmentMapImportanceSampling (m_ui s') = environmentMapImportanceSampling (m_ui s)"
    and "enableToneMapping (m_ui s') = enableToneMapping (m_ui s)"
    and "enableAccumulation (m_ui s') = enableAccumulation (m_ui s)"
    and "enableTAA (m_ui s') = enableTAA (m_ui s)"
    and "enablePixelJitter (m_ui s') = enablePixelJitter (m_ui s)"
    and "enableLocalLightImportanceSampling (m_ui s') = enableLocalLightImportanceSampling (m_ui s)"
    and "enableTransparentGeometry (m_ui s') = enableTransparentGeometry (m_ui s)"
    and "enableMaterialReadback (m_ui s') = enableMaterialReadback (m_ui s)"
    and "rasterizeGBuffer (m_ui s') = rasterizeGBuffer (m_ui s)"
    and "animateMeshes (m_ui s') = animateMeshes (m_ui s)"
    and "freezeRandom (m_ui s') = freezeRandom (m_ui s)"
    and "numAccumulatedFrames (m_ui s') = numAccumulatedFrames (m_ui s)"
    and "framesToAccumulate (m_ui s') = framesToAccumulate (m_ui s)"
    and "renderingMode (m_ui s') = renderingMode (m_ui s)"
proof -
  from assms have e: "f (outsidePrepareFrame blank s') = f (outsidePrepareFrame blank s)" for f :: "'a SceneRenderer \<Rightarrow> 'b"
    by simp
  from e[of m_FrameIndex] show "m_FrameIndex s' = m_FrameIndex s"
    by (simp add: outsidePrepareFrame_def outsideResourceSetup_def Let_def)
  from e[of m_FramesSinceAnimation] show "m_FramesSinceAnimation s' = m_FramesSinceAnimation s"
    by (simp add: outsidePrepareFrame_def outsideResourceSetup_def Let_def)
  from e[of m_PreviousViewValid] show "m_PreviousViewValid s' = m_PreviousViewValid s"
    by (simp add: outsidePrepareFrame_def outsideResourceSetup_def Let_def)
  from e[of m_MaterialReadbackCountdown] show "m_MaterialReadbackCountdown s' = m_MaterialReadbackCountdown s"
    by (simp add: outsidePrepareFrame_def outsideResourceSetup_def Let_def)
  from e[of m_SceneEmissiveMeshes] show "m_SceneEmissiveMeshes s' = m_SceneEmissiveMeshes s"
    by (simp add: outsidePrepareFrame_def outsideResourceSetup_def Let_def)
  from e[of m_SceneEmissiveTriangles] show "m_SceneEmissiveTriangles s' = m_SceneEmissiveTriangles s"
    by (simp add: outsidePrepareFrame_def outsideResourceSetup_def Let_def)
  from e[of m_ScenePrimitiveLights] show "m_ScenePrimitiveLights s' = m_ScenePrimitiveLights s"
    by (simp add: outsidePrepareFrame_def outsideResourceSetup_def Let_def)
  from e[of blitBindingCache] show "blitBindingCache s' = blitBindingCache s"
    by (simp add: outsidePrepareFrame_def outsideResourceSetup_def Let_def)
  from e[of passFrames] show "passFrames s' = passFrames s"
    by (simp add: outsidePrepareFrame_def outsideResourceSetup_def Let_def)
  from e[of "\<lambda>x. resetAccumulation (m_ui x)"] show "resetAccumulation (m_ui s') = resetAccumulation (m_ui s)"
    by (simp add: outsidePrepareFrame_def outsideResourceSetup_def Let_def)
  from e[of "\<lambda>x. environmentMapImportanceSampling (m_ui x)"] show "environmentMapImportanceSampling (m_ui s') = environmentMapImportanceSampling (m_ui s)"
    by (simp add: outsidePrepareFrame_def outsideResourceSetup_def Let_def)
  from e[of "\<lambda>x. enableToneMapping (m_ui x)"] show "enableToneMapping (m_ui s') = enableToneMapping (m_ui s)"
    by (simp add: outsidePrepareFrame_def outsideResourceSetup_def Let_def)
  from e[of "\<lambda>x. enableAccumulation (m_ui x)"] show "enableAccumulation (m_ui s') = enableAccumulation (m_ui s)"
    by (simp add: outsidePrepareFrame_def outsideResourceSetup_def Let_def)
  from e[of "\<lambda>x. enableTAA (m_ui x)"] show "enableTAA (m_ui s') = enableTAA (m_ui s)"
    by (simp add: outsidePrepareFrame_def outsideResourceSetup_def Let_def)
  from e[of "\<lambda>x. enablePixelJitter (m_ui x)"] show "enablePixelJitter (m_ui s') = enablePixelJitter (m_ui s)"
    by (simp add: outsidePrepareFrame_def outsideResourceSetup_def Let_def)
  from e[of "\<lambda>x. enableLocalLightImportanceSampling (m_ui x)"] show "enableLocalLightImportanceSampling (m_ui s') = enableLocalLightImportanceSampling (m_ui s)"
    by (simp add: outsidePrepareFrame_def outsideResourceSetup_def Let_def)
  from e[of "\<lambda>x. enableTransparentGeometry (m_ui x)"] show "enableTransparentGeometry (m_ui s') = enableTransparentGeometry (m_ui s)"
    by (simp add: outsidePrepareFrame_def outsideResourceSetup_def Let_def)
  from e[of "\<lambda>x. enableMaterialReadback (m_ui x)"] show "enableMaterialReadback (m_ui s') = enableMaterialReadback (m_ui s)"
    by (simp add: outsidePrepareFrame_def outsideResourceSetup_def Let_def)
  from e[of "\<lambda>x. rasterizeGBuffer (m_ui x)"] show "rasterizeGBuffer (m_ui s') = rasterizeGBuffer (m_ui s)"
    by (simp add: outsidePrepareFrame_def outsideResourceSetup_def Let_def)
  from e[of "\<lambda>x. animateMeshes (m_ui x)"] show "animateMeshes (m_ui s') = animateMeshes (m_ui s)"
    by (simp add: outsidePrepareFrame_def outsideResourceSetup_def Let_def)
  from e[of "\<lambda>x. freezeRandom (m_ui x)"] show "freezeRandom (m_ui s') = freezeRandom (m_ui s)"
    by (simp add: outsidePrepareFrame_def outsideResourceSetup_def Let_def)
  from e[of "\<lambda>x. numAccumulatedFrames (m_ui x)"] show "numAccumulatedFrames (m_ui s') = numAccumulatedFrames (m_ui s)"
    by (simp add: outsidePrepareFrame_def outsideResourceSetup_def Let_def)
  from e[of "\<lambda>x. framesToAccumulate (m_ui x)"] show "framesToAccumulate (m_ui s') = framesToAccumulate (m_ui s)"
    by (simp add: outsidePrepareFrame_def outsideResourceSetup_def Let_def)
  from e[of "\<lambda>x. renderingMode (m_ui x)"] show "renderingMode (m_ui s') = renderingMode (m_ui s)"
    by (simp add: outsidePrepareFrame_def outsideResourceSetup_def Let_def)
qed

lemma RenderScene_full_frame:
  assumes "m_FrameStepMode s \<noteq> Wait" "RenderScene fb w s = Inr s'"
  obtains eff ex s3 where "prepareFrame fb w s = Inr (eff, ex, s3)" "renderPasses w eff ex s3 = Inr s'"
  using assms by (auto simp add: RenderScene_def andThen_eq_Inr)

lemma RenderScene_wait:
  assumes "m_FrameStepMode s = Wait" "m_RenderTargets s = Some rt"
  shows "RenderScene fb w s =
           Inr (s\<lparr>m_CommandList := [BlitTexture (waitImage (m_ui s))],
                  blitBindingCache := List.insert (waitImage (m_ui s)) (blitBindingCache s)\<rparr>)"
  using assms by (cases s) (simp add: RenderScene_def RenderSceneWait_def blitTexture_def emit_def)


lemma updateEnvironmentLight_fault:
  "m_SunLight s = None \<or> m_EnvironmentLight s = None \<Longrightarrow>
   updateEnvironmentLight s = Inl NullDereference"
  by (cases "m_EnvironmentLight s"; cases "m_SunLight s"; cases "m_EnvironmentMap s";
      cases "m_RenderEnvironmentMapPass s")
     (simp_all add: updateEnvironmentLight_def)

lemma NextFrame_lights:
  "NextFrame s = Inr s1 \<Longrightarrow>
   m_SunLight s1 = m_SunLight s \<and> m_EnvironmentLight s1 = m_EnvironmentLight s"
  by (auto simp add: NextFrame_def andThen_eq_Inr)

lemma advanceJitter_lights:
  "advanceJitter s = Inr s1 \<Longrightarrow>
   m_SunLight s1 = m_SunLight s \<and> m_EnvironmentLight s1 = m_EnvironmentLight s"
  by (auto simp add: advanceJitter_def andThen_eq_Inr split: if_splits)

lemma renderPasses_lights:
  assumes run: "renderPasses w eff ex s = Inr s'"
  shows "m_SunLight s \<noteq> None \<and> m_EnvironmentLight s \<noteq> None"
proof -
  from run obtain s1 s2 s4 where n: "NextFrame s = Inr s1" and a: "advanceJitter s1 = Inr s2"
    and u: "updateEnvironmentLight
              (countDownMaterialReadback (updateAccumulation (cameraIsStatic w s2) s2)) = Inr s4"
    unfolding renderPasses_def Let_def andThen_eq_Inr by blast
  have "m_SunLight (countDownMaterialReadback (updateAccumulation (cameraIsStatic w s2) s2)) =
          m_SunLight s"
    "m_EnvironmentLight (countDownMaterialReadback (updateAccumulation (cameraIsStatic w s2) s2)) =
          m_EnvironmentLight s"
    using NextFrame_lights[OF n] advanceJitter_lights[OF a]
    by (simp_all add: countDownMaterialReadback_eval updateAccumulation_def Let_def)
  with u updateEnvironmentLight_fault show ?thesis
    by (metis Inl_Inr_False)
qed

lemma full_frame:
  assumes "m_FrameStepMode s \<noteq> Wait" "RenderScene fb w s = Inr s'"
  obtains eff ex s3 ctx taa where
    "prepareFrame fb w s = Inr (eff, ex, s3)"
    "m_RtxdiContext s3 = Some ctx" "m_TemporalAntiAliasingPass s3 = Some taa"
    "s' = renderPassesResult w eff ex ctx taa s3"
proof -
  from RenderScene_full_frame[OF assms] obtain eff ex s3 where
    pf: "prepareFrame fb w s = Inr (eff, ex, s3)" and rp: "renderPasses w eff ex s3 = Inr s'"
    by blast
  note F = prepareFrame_facts[OF pf]
  from F(6) F(11) obtain r p where
    h: "m_RtxdiResources s3 = Some r" "m_EnvironmentMapPdfMipmapPass s3 = Some p"
    by auto
  from renderPasses_lights[OF rp] obtain sun env where
    g: "m_SunLight s3 = Some sun" "m_EnvironmentLight s3 = Some env"
    by auto
  from renderPasses_eval[OF F(4) F(5) h(1) F(7) F(8) F(9) h(2) F(10) g, of w eff ex] rp
  have "s' = renderPassesResult w eff ex
               (case (if resetRtxdiContext (m_ui s) then None else m_RtxdiContext s) of
                  Some c \<Rightarrow> c
                | None \<Rightarrow> (rtxdiContextParams (m_ui s))
                            \<lparr>RenderWidth := fb_width fb, RenderHeight := fb_height fb\<rparr>)
               (case (if reloadShaders (m_ui s) then None else m_TemporalAntiAliasingPass s) of
                  Some t \<Rightarrow> t | None \<Rightarrow> \<lparr>taa_frameIndex = 0\<rparr>) s3"
    by simp
  with pf F(5) F(7) show ?thesis by (rule that)
qed


lemma reloadEnvironmentMapIfDirty_transfer:
  assumes "reloadEnvironmentMapIfDirty w b = Inr l"
    and "m_EnvironmentMap a = m_EnvironmentMap b" "environmentMaps a = environmentMaps b"
    and "environmentMapIndex (m_ui a) = environmentMapIndex (m_ui b)"
    and "environmentMapDirty (m_ui a) = environmentMapDirty (m_ui b)"
  shows "reloadEnvironmentMapIfDirty w a =
           Inr (a\<lparr>m_EnvironmentMap := m_EnvironmentMap l, environmentMaps := environmentMaps l,
                  m_ui := (m_ui a)\<lparr>environmentMapIndex := environmentMapIndex (m_ui l)\<rparr>\<rparr>)"
proof -
  from reloadEnvironmentMapIfDirty_cong[OF assms(1), of a] assms(2-5)
  obtain a' where a': "reloadEnvironmentMapIfDirty w a = Inr a'"
    "m_EnvironmentMap a' = m_EnvironmentMap l" "environmentMaps a' = environmentMaps l"
    "environmentMapIndex (m_ui a') = environmentMapIndex (m_ui l)"
    by auto
  from reloadEnvironmentMapIfDirty_shape[OF a'(1)] a'(2-4) a'(1) show ?thesis by simp
qed

lemma selectedEnvironment_cong:
  "m_EnvironmentMap a = m_EnvironmentMap b \<Longrightarrow>
   environmentMapIndex (m_ui a) = environmentMapIndex (m_ui b) \<Longrightarrow>
   selectedEnvironment w a = selectedEnvironment w b"
  by (simp add: selectedEnvironment_def)

lemma prepareFrame_eval:
  assumes lim: "limitFrameRate s = Inr ()"
    and l: "reloadEnvironmentMapIfDirty w s = Inr l"
    and sel: "selectedEnvironment w l = Some (src, sz)"
  shows "prepareFrame fb w s =
           Inr (fst (resolveEffectiveFrameIndex w s), m_ToneMappingPass s = None,
                resourceSetupResult fb src sz (beforeResourceSetup fb w s l))"
proof -
  define s0 where "s0 = leaveStepMode s"
  define cam where "cam = m_Camera (snd (resolveEffectiveFrameIndex w s))"
  define af where "af = animationFrame (m_ui (snd (resolveEffectiveFrameIndex w s)))"
  define eff where "eff = fst (resolveEffectiveFrameIndex w s)"
  define s1 where "s1 = resetRtxdiContextIfRequested (snd (resolveEffectiveFrameIndex w s0))"
  have r: "resolveEffectiveFrameIndex w s0 =
             (eff, s0\<lparr>m_Camera := cam, m_ui := (m_ui s0)\<lparr>animationFrame := af\<rparr>\<rparr>)"
    using resolveEffectiveFrameIndex_shape[of w s0]
    by (simp add: cam_def af_def eff_def s0_def resolveEffectiveFrameIndex_leaveStepMode)
  have s1: "s1 = s\<lparr>m_FrameStepMode := (if m_FrameStepMode s = Step then Wait else m_FrameStepMode s),
                   m_Camera := cam,
                   m_RtxdiContext := (if resetRtxdiContext (m_ui s) then None else m_RtxdiContext s),
                   m_RtxdiResources := (if resetRtxdiContext (m_ui s) then None else m_RtxdiResources s),
                   m_ui := (m_ui s)\<lparr>animationFrame := af, resetRtxdiContext := False\<rparr>\<rparr>"
    unfolding s1_def r
    by (simp add: resetRtxdiContextIfRequested_eval s0_def leaveStepMode_eval
        split del: if_split cong: if_cong)
  define s2 where "s2 = s1\<lparr>m_EnvironmentMap := m_EnvironmentMap l,
                           environmentMaps := environmentMaps l,
                           m_ui := (m_ui s1)\<lparr>environmentMapIndex := environmentMapIndex (m_ui l)\<rparr>\<rparr>"
  have l1: "reloadEnvironmentMapIfDirty w s1 = Inr s2"
    unfolding s2_def by (rule reloadEnvironmentMapIfDirty_transfer[OF l]) (simp_all add: s1)
  have sv: "SetupView fb eff s2 = beforeResourceSetup fb w s l"
    by (simp add: SetupView_eval beforeResourceSetup_def Let_def s2_def s1 cam_def af_def
        split del: if_split cong: if_cong option.case_cong)
  have "selectedEnvironment w (beforeResourceSetup fb w s l) = selectedEnvironment w l"
    by (rule selectedEnvironment_cong) (simp_all add: beforeResourceSetup_def Let_def)
  with sel have sel': "selectedEnvironment w (beforeResourceSetup fb w s l) = Some (src, sz)"
    by simp
  have tm: "m_ToneMappingPass (beforeResourceSetup fb w s l) = m_ToneMappingPass s"
    by (simp add: beforeResourceSetup_def Let_def)
  have s1': "resetRtxdiContextIfRequested
               (s0\<lparr>m_Camera := cam, m_ui := (m_ui s0)\<lparr>animationFrame := af\<rparr>\<rparr>) = s1"
    by (simp add: s1_def r)
  have lim': "limitFrameRate (s0\<lparr>m_Camera := cam, m_ui := (m_ui s0)\<lparr>animationFrame := af\<rparr>\<rparr>) =
      Inr ()"
    using lim limitFrameRate_prepared[of w s] r by (simp add: s0_def)
  show ?thesis
    unfolding prepareFrame_def s0_def[symmetric] r
    by (simp add: lim' s1' l1 sv SetupRenderPasses_eval[OF sel'] tm eff_def[symmetric])
qed

lemma prepareFrame_iff:
  "prepareFrame fb w s = Inr (eff, ex, s3) \<longleftrightarrow>
     (\<exists>l src sz. limitFrameRate s = Inr () \<and> reloadEnvironmentMapIfDirty w s = Inr l \<and>
        selectedEnvironment w l = Some (src, sz) \<and>
        eff = fst (resolveEffectiveFrameIndex w s) \<and>
        ex = (m_ToneMappingPass s = None) \<and>
        s3 = resourceSetupResult fb src sz (beforeResourceSetup fb w s l))"
proof
  assume pf: "prepareFrame fb w s = Inr (eff, ex, s3)"
  note F = prepareFrame_facts[OF pf]
  from F(1) obtain l where l: "reloadEnvironmentMapIfDirty w s = Inr l"
    and e: "m_EnvironmentMap s3 = m_EnvironmentMap l"
       "environmentMapIndex (m_ui s3) = environmentMapIndex (m_ui l)"
    by auto
  from prepareFrame_Inr[OF pf] obtain s2 src sz where
    sel2: "selectedEnvironment w s2 = Some (src, sz)" and
    su: "SetupRenderPasses fb w (SetupView fb eff s2) = Inr (ex, s3)"
    by auto
  from sel2 have sel3: "selectedEnvironment w (SetupView fb eff s2) = Some (src, sz)"
    by simp
  from SetupRenderPasses_eval[OF sel3, of fb] su
  have s3: "s3 = resourceSetupResult fb src sz (SetupView fb eff s2)"
    by simp
  have "selectedEnvironment w s3 = selectedEnvironment w (SetupView fb eff s2)"
    unfolding s3 by (rule selectedEnvironment_cong) (simp_all add: resourceSetupResult_def Let_def)
  with sel3 selectedEnvironment_cong[OF e, of w] have sel: "selectedEnvironment w l = Some (src, sz)"
    by simp
  from prepareFrame_eval[OF F(19) l sel, of fb] pf l sel F(19) show
    "\<exists>l src sz. limitFrameRate s = Inr () \<and> reloadEnvironmentMapIfDirty w s = Inr l \<and>
        selectedEnvironment w l = Some (src, sz) \<and>
        eff = fst (resolveEffectiveFrameIndex w s) \<and>
        ex = (m_ToneMappingPass s = None) \<and>
        s3 = resourceSetupResult fb src sz (beforeResourceSetup fb w s l)"
    by auto
next
  assume "\<exists>l src sz. limitFrameRate s = Inr () \<and> reloadEnvironmentMapIfDirty w s = Inr l \<and>
        selectedEnvironment w l = Some (src, sz) \<and>
        eff = fst (resolveEffectiveFrameIndex w s) \<and>
        ex = (m_ToneMappingPass s = None) \<and>
        s3 = resourceSetupResult fb src sz (beforeResourceSetup fb w s l)"
  then show "prepareFrame fb w s = Inr (eff, ex, s3)"
    by (auto simp add: prepareFrame_eval)
qed

lemma reloadEnvironmentMapIfDirty_ready:
  assumes "environmentMapReady s"
  shows "\<exists>l src sz. reloadEnvironmentMapIfDirty w s = Inr l \<and> selectedEnvironment w l = Some (src, sz)"
  using assms
  by (cases "m_EnvironmentMap s")
     (auto simp add: environmentMapReady_def reloadEnvironmentMapIfDirty_def LoadEnvironmentMap_def
        selectedEnvironment_def Let_def split: if_splits option.splits)

lemma RenderScene_eval:
  assumes mode: "m_FrameStepMode s \<noteq> Wait"
    and ready: "sceneReady s"
    and l: "reloadEnvironmentMapIfDirty w s = Inr l"
    and sel: "selectedEnvironment w l = Some (src, sz)"
  shows "RenderScene fb w s = Inr (fullFrameResult fb w s l src sz)"
proof -
  let ?s3 = "resourceSetupResult fb src sz (beforeResourceSetup fb w s l)"
  note pf = prepareFrame_eval[OF sceneReady_limiter[OF ready] l sel, of fb]
  note F = prepareFrame_facts[OF pf]
  from F(6) F(11) obtain r p where
    h: "m_RtxdiResources ?s3 = Some r" "m_EnvironmentMapPdfMipmapPass ?s3 = Some p"
    by auto
  from ready F(17) F(18) obtain sun env where
    g: "m_SunLight ?s3 = Some sun" "m_EnvironmentLight ?s3 = Some env"
    by (auto simp add: sceneReady_def)
  from renderPasses_eval[OF F(4) F(5) h(1) F(7) F(8) F(9) h(2) F(10) g]
  have "renderPasses w (fst (resolveEffectiveFrameIndex w s)) (m_ToneMappingPass s = None) ?s3 =
          Inr (fullFrameResult fb w s l src sz)"
    by (simp add: fullFrameResult_def contextOfFrame_def jitterPassOfFrame_def)
  with mode pf show ?thesis
    by (simp add: RenderScene_def)
qed

lemma RenderScene_ready:
  assumes mode: "m_FrameStepMode s \<noteq> Wait" and run: "RenderScene fb w s = Inr s'"
  shows "sceneReady s"
proof -
  from RenderScene_full_frame[OF mode run] obtain eff ex s3 where
    pf: "prepareFrame fb w s = Inr (eff, ex, s3)" and rp: "renderPasses w eff ex s3 = Inr s'"
    by blast
  note F = prepareFrame_facts[OF pf]
  from renderPasses_lights[OF rp] F(17) F(18) F(19) show ?thesis
    by (simp add: sceneReady_def limitFrameRate_iff)
qed

lemma RenderScene_iff:
  assumes mode: "m_FrameStepMode s \<noteq> Wait"
  shows "RenderScene fb w s = Inr s' \<longleftrightarrow>
     (sceneReady s \<and>
      (\<exists>l src sz. reloadEnvironmentMapIfDirty w s = Inr l \<and>
        selectedEnvironment w l = Some (src, sz) \<and> s' = fullFrameResult fb w s l src sz))"
proof
  assume run: "RenderScene fb w s = Inr s'"
  note ready = RenderScene_ready[OF mode run]
  from mode run obtain eff ex s3 where
    pf: "prepareFrame fb w s = Inr (eff, ex, s3)"
    by (auto simp add: RenderScene_def andThen_eq_Inr)
  then obtain l src sz where "reloadEnvironmentMapIfDirty w s = Inr l"
    "selectedEnvironment w l = Some (src, sz)"
    unfolding prepareFrame_iff by auto
  with RenderScene_eval[OF mode ready this, of fb] run ready
  show "sceneReady s \<and>
      (\<exists>l src sz. reloadEnvironmentMapIfDirty w s = Inr l \<and>
        selectedEnvironment w l = Some (src, sz) \<and> s' = fullFrameResult fb w s l src sz)"
    by auto
next
  assume "sceneReady s \<and>
      (\<exists>l src sz. reloadEnvironmentMapIfDirty w s = Inr l \<and>
        selectedEnvironment w l = Some (src, sz) \<and> s' = fullFrameResult fb w s l src sz)"
  with RenderScene_eval[OF mode] show "RenderScene fb w s = Inr s'"
    by auto
qed

lemma RenderScene_returns:
  assumes "m_FrameStepMode s \<noteq> Wait" "environmentMapReady s" "sceneReady s"
  shows "\<exists>s'. RenderScene fb w s = Inr s'"
  using reloadEnvironmentMapIfDirty_ready[OF assms(2), of w]
    RenderScene_eval[OF assms(1) assms(3), of w _ _ _ fb]
  by auto

lemma cameraIsStatic_frame:
  "cameraIsStatic w (resourceSetupResult fb src sz (beforeResourceSetup fb w s l)) = frameIsStatic w s"
  by (simp add: cameraIsStatic_def frameIsStatic_def resourceSetupResult_def beforeResourceSetup_def
      Let_def split del: if_split cong: if_cong option.case_cong)
     (simp)

lemmas frame_result_defs = fullFrameResult_def renderPassesResult_def resourceSetupResult_def
  beforeResourceSetup_def contextOfFrame_def jitterPassOfFrame_def Let_def

lemma fullFrameResult_bundles:
  "m_RenderTargets (fullFrameResult fb w s l src sz) =
     Some (case m_RenderTargets s of Some rt \<Rightarrow> rt
           | None \<Rightarrow> newRenderTargets (fb_width fb, fb_height fb))"
  "m_RtxdiContext (fullFrameResult fb w s l src sz) = Some (contextOfFrame fb s)"
  "rtxdiContextParams (m_ui (fullFrameResult fb w s l src sz)) =
     (if (if resetRtxdiContext (m_ui s) then None else m_RtxdiContext s) = None
      then contextOfFrame fb s else rtxdiContextParams (m_ui s))"
  by (simp_all add: frame_result_defs split del: if_split cong: if_cong option.case_cong)

lemma fullFrameResult_bindings:
  assumes "m_RenderTargets s = None" "m_RtxdiResources s = None"
  shows "\<exists>r. m_RtxdiResources (fullFrameResult fb w s l src sz) = Some r \<and>
           res_context r = contextOfFrame fb s \<and>
           EnvironmentPdfTexture r = sz \<and>
           prepareLightsBinding (fullFrameResult fb w s l src sz) = Some r \<and>
           lightingBinding (fullFrameResult fb w s l src sz) =
             Some (newRenderTargets (fb_width fb, fb_height fb), r) \<and>
           map_option targetTexture (m_EnvironmentMapPdfMipmapPass (fullFrameResult fb w s l src sz)) =
             Some sz"
    and "passBindings (fullFrameResult fb w s l src sz) =
           Some (newRenderTargets (fb_width fb, fb_height fb))"
  using assms
  by (simp_all add: frame_result_defs newRtxdiResources_def
      split del: if_split cong: if_cong option.case_cong)

lemmas example_defs = exampleStart_def exampleSunless_def exampleUI_def exampleWorld_def
  exampleFramebuffer_def
  SceneLoaded_def constructed_def selectEnvironment_def KeyboardUpdate_F1_def KeyboardUpdate_F2_def
  BackBufferResizing_def

lemma isLightingPass_simps [simp]:
  "isLightingPass (LightingRender a)" "isLightingPass (RenderBrdfRays b)"
  "\<not> isLightingPass BuildTopLevelAccelStruct" "\<not> isLightingPass RenderEnvironmentMap"
  "\<not> isLightingPass EnvironmentMapPdfMipmap" "\<not> isLightingPass ClearColorAttachment"
  "\<not> isLightingPass RasterizedGBuffer" "\<not> isLightingPass RaytracedGBuffer"
  "\<not> isLightingPass (PrepareLights e)" "\<not> isLightingPass LocalLightPdfMipmap"
  "\<not> isLightingPass Compositing" "\<not> isLightingPass Glass"
  "\<not> isLightingPass (Accumulation aw)" "\<not> isLightingPass (TemporalResolve c v)"
  "\<not> isLightingPass (ToneMapping x img)" "\<not> isLightingPass (BlitTexture img)"
  by (simp_all add: isLightingPass_def)

lemma filter_isLightingPass_lightingPasses:
  "filter isLightingPass (lightingPasses m i) = lightingPasses m i"
  by (cases m) (simp_all add: lightingPasses_def)

lemma filter_isLightingPass_frameCommands:
  "filter isLightingPass (frameCommands w eff ex s) = lightingPasses (renderingMode (m_ui s)) eff"
  by (simp add: frameCommands_def Let_def filter_isLightingPass_lightingPasses
      if_distrib[where f = "filter isLightingPass"] if_distrib[where f = isLightingPass]
      split del: if_split cong: if_cong)

lemma m_CommandList_renderPassesResult:
  "m_CommandList (renderPassesResult w eff ex ctx taa s) = frameCommands w eff ex s"
  by (simp add: renderPassesResult_def)

lemma full_frame_lighting:
  assumes mode: "m_FrameStepMode s \<noteq> Wait" and run: "RenderScene fb w s = Inr s'"
  shows "filter isLightingPass (m_CommandList s') =
      lightingPasses (renderingMode (m_ui s)) (fst (resolveEffectiveFrameIndex w s))"
proof (rule full_frame[OF mode run])
  fix eff ex s3 ctx taa
  assume pf: "prepareFrame fb w s = Inr (eff, ex, s3)"
    and s': "s' = renderPassesResult w eff ex ctx taa s3"
  note F = prepareFrame_facts[OF pf]
  have "renderingMode (m_ui s3) = renderingMode (m_ui s)"
    using outsidePrepareFrame_fields[OF F(16)] by simp
  then show ?thesis
    by (simp add: s' m_CommandList_renderPassesResult filter_isLightingPass_frameCommands F(2))
qed

lemma BackBufferResizing_ready [simp]:
  "environmentMapReady (BackBufferResizing s) = environmentMapReady s"
  "m_FrameStepMode (BackBufferResizing s) = m_FrameStepMode s"
  by (simp_all add: environmentMapReady_def BackBufferResizing_def)

lemma resized_setup:
  assumes "prepareFrame fb w (BackBufferResizing s) = Inr (eff, ex, s3)"
  shows "bundlesSizedTo fb s3 \<and> passesBound s3"
proof -
  from assms obtain l src sz where
    s3: "s3 = resourceSetupResult fb src sz (beforeResourceSetup fb w (BackBufferResizing s) l)"
    unfolding prepareFrame_iff by auto
  show ?thesis
    unfolding s3
    by (simp add: bundlesSizedTo_def passesBound_def BackBufferResizing_def resourceSetupResult_def
        beforeResourceSetup_def Let_def newRtxdiResources_def newRenderTargets_def
        split del: if_split cong: if_cong option.case_cong)
qed

lemma resized_frame:
  assumes "m_FrameStepMode s \<noteq> Wait" "RenderScene fb w (BackBufferResizing s) = Inr s'"
  shows "bundlesSizedTo fb s' \<and> passesBound s'"
proof -
  from assms obtain l src sz where
    s': "s' = fullFrameResult fb w (BackBufferResizing s) l src sz"
    by (auto simp add: RenderScene_iff)
  show ?thesis
    unfolding s'
    by (simp add: bundlesSizedTo_def passesBound_def BackBufferResizing_def frame_result_defs
        newRtxdiResources_def newRenderTargets_def
        split del: if_split cong: if_cong option.case_cong)
qed

lemma RenderScene_wait_again:
  assumes "m_FrameStepMode s = Wait" "m_RenderTargets s = Some rt" "RenderScene fb w s = Inr s'"
  shows "RenderScene fb' w' s' = Inr s'"
proof -
  from RenderScene_wait[OF assms(1,2), of fb w] assms(3)
  have s': "s' = s\<lparr>m_CommandList := [BlitTexture (waitImage (m_ui s))],
                   blitBindingCache := List.insert (waitImage (m_ui s)) (blitBindingCache s)\<rparr>"
    by simp
  have "m_FrameStepMode s' = Wait" "m_RenderTargets s' = Some rt" "m_ui s' = m_ui s"
    using assms(1,2) by (simp_all add: s')
  from RenderScene_wait[OF this(1,2), of fb' w'] this(3) show ?thesis
    by (simp add: s')
qed

lemma fullFrameResult_environment:
  "environmentMapDirty (m_ui (fullFrameResult fb w s l src sz)) = 0"
  "m_EnvironmentMap (fullFrameResult fb w s l src sz) = m_EnvironmentMap l"
  "environmentMaps (fullFrameResult fb w s l src sz) = environmentMaps l"
  "environmentMapIndex (m_ui (fullFrameResult fb w s l src sz)) = environmentMapIndex (m_ui l)"
  "envLightTexture (fullFrameResult fb w s l src sz) =
     (if environmentMapIndex (m_ui l) \<ge> 0
      then Some (case m_EnvironmentMap l of Some t \<Rightarrow> FileTexture (path t) | None \<Rightarrow> ProceduralSky)
      else None)"
  by (simp_all add: frame_result_defs split del: if_split cong: if_cong option.case_cong)

lemma fullFrameResult_counters:
  "m_FrameIndex (fullFrameResult fb w s l src sz) = m_FrameIndex s + 1"
  "numAccumulatedFrames (m_ui (fullFrameResult fb w s l src sz)) =
     (if frameIsStatic w s \<and> enableAccumulation (m_ui s) \<and> \<not> resetAccumulation (m_ui s)
      then (if framesToAccumulate (m_ui s) > 0
            then min (numAccumulatedFrames (m_ui s) + 1) (framesToAccumulate (m_ui s))
            else numAccumulatedFrames (m_ui s) + 1)
      else 1)"
  "framesToAccumulate (m_ui (fullFrameResult fb w s l src sz)) = framesToAccumulate (m_ui s)"
  "enableAccumulation (m_ui (fullFrameResult fb w s l src sz)) = enableAccumulation (m_ui s)"
  "resetAccumulation (m_ui (fullFrameResult fb w s l src sz)) = False"
  "m_TemporalAntiAliasingPass (fullFrameResult fb w s l src sz) =
     Some \<lparr>taa_frameIndex =
       (if enableAccumulation (m_ui s) \<and> CheckerboardSamplingMode (contextOfFrame fb s) \<noteq> Off \<and>
           (m_FrameIndex s AND 1) \<noteq> 0
        then taa_frameIndex (jitterPassOfFrame s) else Suc (taa_frameIndex (jitterPassOfFrame s)))\<rparr>"
  by (simp_all add: fullFrameResult_def renderPassesResult_def cameraIsStatic_frame updateAccumulation_def Let_def
        split del: if_split cong: if_cong option.case_cong)
     (simp_all add: resourceSetupResult_def beforeResourceSetup_def Let_def
        split del: if_split cong: if_cong option.case_cong)

lemma fullFrameResult_views:
  "m_PreviousViewValid (fullFrameResult fb w s l src sz)"
  "m_ViewPrevious (fullFrameResult fb w s l src sz) = m_View (fullFrameResult fb w s l src sz)"
  "viewMatrix (m_View (fullFrameResult fb w s l src sz)) = m_Camera (snd (resolveEffectiveFrameIndex w s))"
  "m_Camera (fullFrameResult fb w s l src sz) = m_Camera (snd (resolveEffectiveFrameIndex w s))"
  "m_FrameStepMode (fullFrameResult fb w s l src sz) =
     (if m_FrameStepMode s = Step then Wait else m_FrameStepMode s)"
  by (simp_all add: frame_result_defs split del: if_split cong: if_cong option.case_cong)

lemma fullFrameResult_commands:
  "m_CommandList (fullFrameResult fb w s l src sz) =
     frameCommands w (fst (resolveEffectiveFrameIndex w s)) (m_ToneMappingPass s = None)
       (resourceSetupResult fb src sz (beforeResourceSetup fb w s l))"
  by (simp add: fullFrameResult_def m_CommandList_renderPassesResult)

lemma frameCommands_members:
  "EnvironmentMapPdfMipmap \<in> set (frameCommands w eff ex s) \<longleftrightarrow> environmentMapDirty (m_ui s) \<noteq> 0"
  "RenderEnvironmentMap \<in> set (frameCommands w eff ex s) \<longleftrightarrow>
     environmentMapDirty (m_ui s) \<noteq> 0 \<and> environmentMapIndex (m_ui s) = 0"
  "Accumulation wt \<in> set (frameCommands w eff ex s) \<longleftrightarrow>
     enableAccumulation (m_ui s) \<and>
     wt = accumulationWeight (numAccumulatedFrames (m_ui (updateAccumulation (cameraIsStatic w s) s)))"
  "last (frameCommands w eff ex s) =
     BlitTexture (if enableToneMapping (m_ui s) then LdrColor
                  else if enableAccumulation (m_ui s) then AccumulatedColor
                  else if enableTAA (m_ui s) then ResolvedColor else HdrColor)"
  by (auto simp add: frameCommands_def lightingPasses_def Let_def)

lemma resourceSetupResult_environment:
  "environmentMapIndex (m_ui (resourceSetupResult fb src sz (beforeResourceSetup fb w s l))) =
     environmentMapIndex (m_ui l)"
  "environmentMapDirty (m_ui (resourceSetupResult fb src sz (beforeResourceSetup fb w s l))) =
     (if bundleRebuilt sz s \<or> reloadShaders (m_ui s) \<or> environmentMapDirty (m_ui s) = 2 then 1
      else environmentMapDirty (m_ui s))"
   apply (simp_all add: resourceSetupResult_def beforeResourceSetup_def bundleRebuilt_def Let_def
        split del: if_split cong: if_cong option.case_cong)
  apply (cases "resetRtxdiContext (m_ui s)"; cases "m_RtxdiResources s"; simp)
  done

lemma selectedEnvironment_fullFrameResult:
  "selectedEnvironment w (fullFrameResult fb w s l src sz) = selectedEnvironment w l"
  by (simp add: selectedEnvironment_def fullFrameResult_environment)


lemma reloadEnvironmentMapIfDirty_cases:
  "reloadEnvironmentMapIfDirty w s = Inr l \<longleftrightarrow>
     (if environmentMapDirty (m_ui s) = 2 then LoadEnvironmentMap w s = Inr l else l = s)"
  by (auto simp add: reloadEnvironmentMapIfDirty_def)

lemma resourceSetupResult_views:
  "m_PreviousViewValid (resourceSetupResult fb src sz (beforeResourceSetup fb w s l)) =
     m_PreviousViewValid s"
  "m_Camera (resourceSetupResult fb src sz (beforeResourceSetup fb w s l)) =
     m_Camera (snd (resolveEffectiveFrameIndex w s))"
  "viewMatrix (m_View (resourceSetupResult fb src sz (beforeResourceSetup fb w s l))) =
     m_Camera (snd (resolveEffectiveFrameIndex w s))"
  "m_ViewPrevious (resourceSetupResult fb src sz (beforeResourceSetup fb w s l)) =
     (if m_FrameIndex s = 0
      then m_View (resourceSetupResult fb src sz (beforeResourceSetup fb w s l))
      else m_ViewPrevious s)"
  by (simp_all add: resourceSetupResult_def beforeResourceSetup_def Let_def
        split del: if_split cong: if_cong option.case_cong)

lemma fullFrameResult_accumulated:
  "numAccumulatedFrames (m_ui (fullFrameResult fb w s l src sz)) =
     numAccumulatedFrames (m_ui (updateAccumulation
       (cameraIsStatic w (resourceSetupResult fb src sz (beforeResourceSetup fb w s l)))
       (resourceSetupResult fb src sz (beforeResourceSetup fb w s l))))"
  by (simp add: fullFrameResult_def renderPassesResult_def)

lemma fullFrameResult_animationFrame:
  "animationFrame (m_ui (fullFrameResult fb w s l src sz)) =
     animationFrame (m_ui (snd (resolveEffectiveFrameIndex w s)))"
  by (simp add: frame_result_defs split del: if_split cong: if_cong option.case_cong)

lemma fullFrameResult_scene:
  "m_SunLight (fullFrameResult fb w s l src sz) = m_SunLight s"
  "m_EnvironmentLight (fullFrameResult fb w s l src sz) = m_EnvironmentLight s"
  "enableFpsLimit (m_ui (fullFrameResult fb w s l src sz)) = enableFpsLimit (m_ui s)"
  "fpsLimit (m_ui (fullFrameResult fb w s l src sz)) = fpsLimit (m_ui s)"
  by (simp_all add: frame_result_defs split del: if_split cong: if_cong option.case_cong)

lemma steady_frame:
  assumes st: "steadyAccumulation w cap s"
  shows "\<exists>s'. RenderScene fb w s = Inr s' \<and> steadyAccumulation w cap s' \<and>
           numAccumulatedFrames (m_ui s') = accumulate cap (numAccumulatedFrames (m_ui s)) \<and>
           m_FrameIndex s' = m_FrameIndex s + 1 \<and> m_Camera s' = m_Camera s"
proof -
  from st have mode: "m_FrameStepMode s \<noteq> Wait" and ready: "environmentMapReady s"
    and anim: "animationFrame (m_ui s) = None" and scene: "sceneReady s"
    by (auto simp add: steadyAccumulation_def sceneReady_def)
  from reloadEnvironmentMapIfDirty_ready[OF ready, of w] obtain l src sz where
    l: "reloadEnvironmentMapIfDirty w s = Inr l" and sel: "selectedEnvironment w l = Some (src, sz)"
    by blast
  let ?s' = "fullFrameResult fb w s l src sz"
  note run = RenderScene_eval[OF mode scene l sel, of fb]
  from anim have r: "snd (resolveEffectiveFrameIndex w s) = s"
    by (simp add: resolveEffectiveFrameIndex_def Let_def)
  from st have static: "frameIsStatic w s"
    by (simp add: frameIsStatic_def r steadyAccumulation_def)
  from sel have ready': "environmentMapReady ?s'"
    by (auto simp add: environmentMapReady_def fullFrameResult_environment selectedEnvironment_def
        split: if_splits)
  from st have "steadyAccumulation w cap ?s'"
    unfolding steadyAccumulation_def
    by (simp add: fullFrameResult_views fullFrameResult_counters fullFrameResult_animationFrame r
        fullFrameResult_scene ready' del: fullFrameResult_counters(2))
  moreover from st static have "numAccumulatedFrames (m_ui ?s') =
      accumulate cap (numAccumulatedFrames (m_ui s))"
    by (simp add: fullFrameResult_counters accumulate_def steadyAccumulation_def)
  moreover have "m_FrameIndex ?s' = m_FrameIndex s + 1" "m_Camera ?s' = m_Camera s"
    by (simp_all add: fullFrameResult_counters fullFrameResult_views r)
  ultimately show ?thesis using run by blast
qed

lemma steady_frames:
  "steadyAccumulation w cap s \<Longrightarrow>
   \<exists>ss. renderFrames k fb w s = Inr ss \<and> length ss = k \<and>
        (\<forall>j<k. steadyAccumulation w cap (ss ! j) \<and>
                numAccumulatedFrames (m_ui (ss ! j)) =
                  (accumulate cap ^^ Suc j) (numAccumulatedFrames (m_ui s)) \<and>
                m_FrameIndex (ss ! j) = m_FrameIndex s + of_nat (Suc j) \<and>
                m_Camera (ss ! j) = m_Camera s)"
proof (induction k arbitrary: s)
  case 0
  then show ?case by simp
next
  case (Suc k)
  from steady_frame[OF Suc.prems, of fb] obtain s1 where
    run: "RenderScene fb w s = Inr s1" and st: "steadyAccumulation w cap s1"
    and n1: "numAccumulatedFrames (m_ui s1) = accumulate cap (numAccumulatedFrames (m_ui s))"
    and i1: "m_FrameIndex s1 = m_FrameIndex s + 1" and c1: "m_Camera s1 = m_Camera s"
    by blast
  from Suc.IH[OF st] obtain rest where
    rest: "renderFrames k fb w s1 = Inr rest" "length rest = k"
      "\<forall>j<k. steadyAccumulation w cap (rest ! j) \<and>
              numAccumulatedFrames (m_ui (rest ! j)) =
                 (accumulate cap ^^ Suc j) (numAccumulatedFrames (m_ui s1)) \<and>
              m_FrameIndex (rest ! j) = m_FrameIndex s1 + of_nat (Suc j) \<and>
              m_Camera (rest ! j) = m_Camera s1"
    by blast
  have "\<forall>j<Suc k. steadyAccumulation w cap ((s1 # rest) ! j) \<and>
          numAccumulatedFrames (m_ui ((s1 # rest) ! j)) =
                 (accumulate cap ^^ Suc j) (numAccumulatedFrames (m_ui s)) \<and>
          m_FrameIndex ((s1 # rest) ! j) = m_FrameIndex s + of_nat (Suc j) \<and>
          m_Camera ((s1 # rest) ! j) = m_Camera s"
  proof (intro allI impI)
    fix j assume j: "j < Suc k"
    show "steadyAccumulation w cap ((s1 # rest) ! j) \<and>
          numAccumulatedFrames (m_ui ((s1 # rest) ! j)) =
                 (accumulate cap ^^ Suc j) (numAccumulatedFrames (m_ui s)) \<and>
          m_FrameIndex ((s1 # rest) ! j) = m_FrameIndex s + of_nat (Suc j) \<and>
          m_Camera ((s1 # rest) ! j) = m_Camera s"
    proof (cases j)
      case 0
      then show ?thesis by (simp add: n1 st i1 c1)
    next
      case (Suc j')
      with j rest(3) have "steadyAccumulation w cap (rest ! j')"
        "numAccumulatedFrames (m_ui (rest ! j')) =
          (accumulate cap ^^ Suc j') (accumulate cap (numAccumulatedFrames (m_ui s)))"
        "m_FrameIndex (rest ! j') = m_FrameIndex s + 1 + of_nat (Suc j')"
        "m_Camera (rest ! j') = m_Camera s"
        by (simp_all add: n1 i1 c1)
      then show ?thesis
        by (simp add: Suc funpow_swap1)
    qed
  qed
  with run rest(1,2) show ?case by simp
qed

lemma seeded_frame:
  assumes st: "steadyAccumulation w cap t" and idx: "m_FrameIndex t = 0"
    and refl: "viewMatrixEq w c c"
  shows "\<exists>s'. RenderScene fb w (t\<lparr>m_Camera := c\<rparr>) = Inr s' \<and>
           numAccumulatedFrames (m_ui s') = accumulate cap (numAccumulatedFrames (m_ui t))"
proof -
  let ?u = "t\<lparr>m_Camera := c\<rparr>"
  from st have mode: "m_FrameStepMode ?u \<noteq> Wait" and ready: "environmentMapReady ?u"
    and anim: "animationFrame (m_ui ?u) = None" and scene: "sceneReady ?u"
    by (auto simp add: steadyAccumulation_def sceneReady_def environmentMapReady_def)
  from reloadEnvironmentMapIfDirty_ready[OF ready, of w] obtain l src sz where
    l: "reloadEnvironmentMapIfDirty w ?u = Inr l" and sel: "selectedEnvironment w l = Some (src, sz)"
    by blast
  note run = RenderScene_eval[OF mode scene l sel, of fb]
  from anim have r: "snd (resolveEffectiveFrameIndex w ?u) = ?u"
    by (simp add: resolveEffectiveFrameIndex_def Let_def)
  from st idx refl have static: "frameIsStatic w ?u"
    by (simp add: frameIsStatic_def r steadyAccumulation_def)
  from st static have "numAccumulatedFrames (m_ui (fullFrameResult fb w ?u l src sz)) =
      accumulate cap (numAccumulatedFrames (m_ui t))"
    by (simp add: fullFrameResult_counters accumulate_def steadyAccumulation_def)
  with run show ?thesis by blast
qed

lemma accumulate_uncapped: "(accumulate 0 ^^ m) n = n + of_nat m"
  by (induction m) (simp_all add: accumulate_def)

lemma accumulate_capped: "cap > 0 \<Longrightarrow> (accumulate cap ^^ Suc m) n \<le> cap"
  by (simp add: accumulate_def)

lemma accumulate_four:
  "accumulate 4 1 = 2" "accumulate 4 2 = 3" "accumulate 4 3 = 4" "accumulate 4 4 = 4"
  by (simp_all add: accumulate_def)

lemma accumulate_four_stays: "(accumulate 4 ^^ m) 4 = 4"
  by (induction m) (simp_all add: accumulate_four)

lemma steady_counts:
  assumes "steadyAccumulation w cap s"
  shows "\<exists>ss. renderFrames k fb w s = Inr ss \<and> length ss = k \<and>
     (\<forall>j<k. (cap = 0 \<longrightarrow> numAccumulatedFrames (m_ui (ss ! j)) =
                              numAccumulatedFrames (m_ui s) + of_nat (Suc j)) \<and>
             (cap > 0 \<longrightarrow> numAccumulatedFrames (m_ui (ss ! j)) \<le> cap))"
proof -
  from steady_frames[OF assms, of k fb] obtain ss where
    ss: "renderFrames k fb w s = Inr ss" "length ss = k"
      "\<forall>j<k. numAccumulatedFrames (m_ui (ss ! j)) =
                 (accumulate cap ^^ Suc j) (numAccumulatedFrames (m_ui s))"
    by blast
  have "\<forall>j<k. (cap = 0 \<longrightarrow> numAccumulatedFrames (m_ui (ss ! j)) =
                              numAccumulatedFrames (m_ui s) + of_nat (Suc j)) \<and>
             (cap > 0 \<longrightarrow> numAccumulatedFrames (m_ui (ss ! j)) \<le> cap)"
    using ss(3) accumulate_uncapped accumulate_capped by metis
  with ss(1,2) show ?thesis by blast
qed

lemma first_frame_flags:
  "\<exists>s1. RenderScene exampleFramebuffer exampleWorld
           (exampleStart\<lparr>m_ui := (m_ui exampleStart)\<lparr>framesToAccumulate := cap\<rparr>\<rparr>) = Inr s1 \<and>
      numAccumulatedFrames (m_ui s1) = 1 \<and> m_FrameStepMode s1 = Disabled \<and>
      animationFrame (m_ui s1) = None \<and>
      enableAccumulation (m_ui s1) \<and> \<not> resetAccumulation (m_ui s1) \<and>
      m_FrameIndex s1 = 1 \<and> m_Camera s1 = 7"
  by (simp add: example_defs stage_defs Let_def)

lemma first_frame_views:
  "\<exists>s1. RenderScene exampleFramebuffer exampleWorld
           (exampleStart\<lparr>m_ui := (m_ui exampleStart)\<lparr>framesToAccumulate := cap\<rparr>\<rparr>) = Inr s1 \<and>
      framesToAccumulate (m_ui s1) = cap \<and>
      m_PreviousViewValid s1 \<and> viewMatrix (m_ViewPrevious s1) = m_Camera s1 \<and>
      viewMatrixEq exampleWorld (m_Camera s1) (m_Camera s1) \<and>
      environmentMapReady s1 \<and>
      m_SunLight s1 \<noteq> None \<and> m_EnvironmentLight s1 \<noteq> None \<and>
      \<not> (enableFpsLimit (m_ui s1) \<and> fpsLimit (m_ui s1) = 0)"
  by (simp add: example_defs stage_defs Let_def environmentMapReady_def)

lemma first_frame_steady:
  "\<exists>s1. RenderScene exampleFramebuffer exampleWorld
           (exampleStart\<lparr>m_ui := (m_ui exampleStart)\<lparr>framesToAccumulate := cap\<rparr>\<rparr>) = Inr s1 \<and>
         numAccumulatedFrames (m_ui s1) = 1 \<and> m_FrameIndex s1 = 1 \<and> m_Camera s1 = 7 \<and>
         steadyAccumulation exampleWorld cap s1"
  using first_frame_flags[of cap] first_frame_views[of cap]
  unfolding steadyAccumulation_def by force

lemma exampleStart_cap: "exampleStart\<lparr>m_ui := (m_ui exampleStart)\<lparr>framesToAccumulate := 4\<rparr>\<rparr> = exampleStart"
  by (simp add: example_defs)

lemma five_frames:
  "\<exists>ss. renderFrames 5 exampleFramebuffer exampleWorld exampleStart = Inr ss \<and>
        map (\<lambda>x. numAccumulatedFrames (m_ui x)) ss = [1, 2, 3, 4, 4]"
proof -
  from first_frame_steady[of 4] obtain s1 where
    run: "RenderScene exampleFramebuffer exampleWorld exampleStart = Inr s1"
    and n1: "numAccumulatedFrames (m_ui s1) = 1"
    and st: "steadyAccumulation exampleWorld 4 s1"
    unfolding exampleStart_cap by blast
  from steady_frames[OF st, of "Suc (Suc (Suc (Suc 0)))" exampleFramebuffer] obtain ss where
    ss: "renderFrames (Suc (Suc (Suc (Suc 0)))) exampleFramebuffer exampleWorld s1 = Inr ss"
      "length ss = Suc (Suc (Suc (Suc 0)))"
      "\<forall>j<Suc (Suc (Suc (Suc 0))). numAccumulatedFrames (m_ui (ss ! j)) = (accumulate 4 ^^ Suc j) 1"
    unfolding n1 by blast
  have five: "(5::nat) = Suc (Suc (Suc (Suc (Suc 0))))" by simp
  from ss(2) obtain a b c d where abcd: "ss = [a, b, c, d]"
    by (auto simp add: length_Suc_conv)
  from ss(3)[rule_format, of 0] ss(3)[rule_format, of "Suc 0"]
    ss(3)[rule_format, of "Suc (Suc 0)"] ss(3)[rule_format, of "Suc (Suc (Suc 0))"]
  have "map (\<lambda>x. numAccumulatedFrames (m_ui x)) ss = [2, 3, 4, 4]"
    by (simp add: abcd accumulate_four)
  with run ss(1) n1 show ?thesis
    unfolding five by simp
qed

lemma sceneReady_BackBufferResizing [simp]:
  "sceneReady (BackBufferResizing s) = sceneReady s"
  by (simp add: sceneReady_def BackBufferResizing_def)

lemma RenderScene_wait_released:
  "m_FrameStepMode s = Wait \<Longrightarrow> RenderScene fb w (BackBufferResizing s) = Inl NullDereference"
  by (simp add: RenderScene_def RenderSceneWait_def BackBufferResizing_def)



section \<open>The claims\<close>

text \<open>
  C1. The Ray-Tracing Resource Bundle is to be released and rebuilt in the resource setup
  of a frame whenever the size of the active environment map differs from the size its
  environment PDF texture was built for, in width, in height, or in both. The test at
  lines 512 to 517 joins the two comparisons with \<^verbatim>\<open>&&\<close>, so the bundle is released only
  when both the width and the height differ. In the session below the first frame builds
  the bundle for the procedural sky of 2048 by 1024; then ``street.exr'' of 4096 by 1024
  is selected (another width, the same height): the frame completes with the bundle of the
  first frame, the PDF mipmap pass is built over the PDF texture of 2048 by 1024 with the
  new map as its source, and it is run. When ``studio.exr'' of 4096 by 2048 is selected
  instead (both differ), the bundle is rebuilt for that size.
\<close>

theorem C1_width_change_keeps_stale_bundle:
  "\<exists>s1 s2 s3. RenderScene exampleFramebuffer exampleWorld exampleStart = Inr s1 \<and>
      map_option EnvironmentPdfTexture (m_RtxdiResources s1) = Some \<lparr>width = 2048, height = 1024\<rparr> \<and>
      RenderScene exampleFramebuffer exampleWorld (selectEnvironment 2 s1) = Inr s2 \<and>
      map_option texture (m_EnvironmentMap s2) = Some \<lparr>width = 4096, height = 1024\<rparr> \<and>
      m_RtxdiResources s2 = m_RtxdiResources s1 \<and>
      m_EnvironmentMapPdfMipmapPass s2 =
        Some \<lparr>sourceTexture = FileTexture ''street.exr'',
              targetTexture = \<lparr>width = 2048, height = 1024\<rparr>\<rparr> \<and>
      EnvironmentMapPdfMipmap \<in> set (m_CommandList s2) \<and>
      RenderScene exampleFramebuffer exampleWorld (selectEnvironment 1 s1) = Inr s3 \<and>
      map_option texture (m_EnvironmentMap s3) = Some \<lparr>width = 4096, height = 2048\<rparr> \<and>
      map_option EnvironmentPdfTexture (m_RtxdiResources s3) = Some \<lparr>width = 4096, height = 2048\<rparr>"
  by (simp add: example_defs stage_defs Let_def)

text \<open>
  C2. The resize handler releases the render targets, the resampling context, the
  Ray-Tracing Resource Bundle and the cache of blit binding sets. When the next call of
  RenderScene is a full frame, its resource setup, which ends before the first pass runs,
  leaves render targets and a context of exactly the width and height of the framebuffer
  it is given, a Ray-Tracing Resource Bundle built for that context, and the pass binding
  sets built over these new bundles; the same holds when the frame has completed, and the
  frame does complete when the selected environment map can be used, the scene has its
  lights and the frame-rate limiter does not divide by zero. In frame-step mode Wait the
  next call runs no resource setup: it reads the image to blit from the render targets
  that the handler has released, and dereferences the empty handle.
\<close>

theorem C2_resize_and_next_frame:
  "m_RenderTargets (BackBufferResizing s) = None \<and>
   m_RtxdiContext (BackBufferResizing s) = None \<and>
   m_RtxdiResources (BackBufferResizing s) = None \<and>
   blitBindingCache (BackBufferResizing s) = [] \<and>
   (\<forall>eff ex s3. prepareFrame fb w (BackBufferResizing s) = Inr (eff, ex, s3) \<longrightarrow>
      bundlesSizedTo fb s3 \<and> passesBound s3) \<and>
   (m_FrameStepMode s \<noteq> Wait \<longrightarrow>
      (\<forall>s'. RenderScene fb w (BackBufferResizing s) = Inr s' \<longrightarrow>
         bundlesSizedTo fb s' \<and> passesBound s')) \<and>
   (m_FrameStepMode s \<noteq> Wait \<and> environmentMapReady s \<and> sceneReady s \<longrightarrow>
      (\<exists>s'. RenderScene fb w (BackBufferResizing s) = Inr s')) \<and>
   (m_FrameStepMode s = Wait \<longrightarrow>
      RenderScene fb w (BackBufferResizing s) = Inl NullDereference)"
proof (intro conjI allI impI)
  show "m_RenderTargets (BackBufferResizing s) = None" "m_RtxdiContext (BackBufferResizing s) = None"
    "m_RtxdiResources (BackBufferResizing s) = None" "blitBindingCache (BackBufferResizing s) = []"
    by (simp_all add: BackBufferResizing_def)
next
  fix eff ex s3
  assume "prepareFrame fb w (BackBufferResizing s) = Inr (eff, ex, s3)"
  from resized_setup[OF this] show "bundlesSizedTo fb s3" "passesBound s3" by simp_all
next
  fix s'
  assume "m_FrameStepMode s \<noteq> Wait" "RenderScene fb w (BackBufferResizing s) = Inr s'"
  from resized_frame[OF this] show "bundlesSizedTo fb s'" "passesBound s'" by simp_all
next
  assume "m_FrameStepMode s \<noteq> Wait \<and> environmentMapReady s \<and> sceneReady s"
  then show "\<exists>s'. RenderScene fb w (BackBufferResizing s) = Inr s'"
    by (simp add: RenderScene_returns)
next
  assume "m_FrameStepMode s = Wait"
  then show "RenderScene fb w (BackBufferResizing s) = Inl NullDereference"
    by (rule RenderScene_wait_released)
qed

theorem C2_witness:
  "\<exists>s1. RenderScene exampleFramebuffer exampleWorld exampleStart = Inr s1 \<and>
      bundlesSizedTo exampleFramebuffer s1 \<and>
      m_FrameStepMode s1 \<noteq> Wait \<and> environmentMapReady s1 \<and> sceneReady s1 \<and>
      (\<exists>eff ex s3. prepareFrame \<lparr>fb_width = 2560, fb_height = 1440\<rparr> exampleWorld
                      (BackBufferResizing s1) = Inr (eff, ex, s3) \<and>
                    bundlesSizedTo \<lparr>fb_width = 2560, fb_height = 1440\<rparr> s3) \<and>
      (\<exists>s'. RenderScene \<lparr>fb_width = 2560, fb_height = 1440\<rparr> exampleWorld
               (BackBufferResizing s1) = Inr s' \<and>
             bundlesSizedTo \<lparr>fb_width = 2560, fb_height = 1440\<rparr> s' \<and> passesBound s' \<and>
             map_option Size (m_RenderTargets s') = Some (2560, 1440)) \<and>
      m_FrameStepMode (KeyboardUpdate_F1 s1) = Wait \<and>
      RenderScene \<lparr>fb_width = 2560, fb_height = 1440\<rparr> exampleWorld
        (BackBufferResizing (KeyboardUpdate_F1 s1)) = Inl NullDereference"
proof -
  let ?fb = "\<lparr>fb_width = 2560, fb_height = 1440\<rparr>"
  have "\<exists>s1. RenderScene exampleFramebuffer exampleWorld exampleStart = Inr s1 \<and>
      bundlesSizedTo exampleFramebuffer s1 \<and> m_FrameStepMode s1 \<noteq> Wait \<and>
      environmentMapReady s1 \<and> sceneReady s1 \<and> m_FrameStepMode (KeyboardUpdate_F1 s1) = Wait"
    by (simp add: example_defs stage_defs Let_def bundlesSizedTo_def environmentMapReady_def
        sceneReady_def)
  then obtain s1 where
    run: "RenderScene exampleFramebuffer exampleWorld exampleStart = Inr s1" and
    sized: "bundlesSizedTo exampleFramebuffer s1" and
    mode: "m_FrameStepMode s1 \<noteq> Wait" and ready: "environmentMapReady s1" "sceneReady s1" and
    wait: "m_FrameStepMode (KeyboardUpdate_F1 s1) = Wait"
    by auto
  note c = C2_resize_and_next_frame[of s1 ?fb exampleWorld]
  from c mode ready obtain s' where
    run': "RenderScene ?fb exampleWorld (BackBufferResizing s1) = Inr s'"
    by auto
  with c mode have post: "bundlesSizedTo ?fb s'" "passesBound s'" by auto
  from post(1) have "map_option Size (m_RenderTargets s') = Some (2560, 1440)"
    by (auto simp add: bundlesSizedTo_def split: option.splits)
  moreover from run' mode obtain eff ex s3 where
    pf: "prepareFrame ?fb exampleWorld (BackBufferResizing s1) = Inr (eff, ex, s3)"
    by (auto simp add: RenderScene_def andThen_eq_Inr)
  moreover from c pf have "bundlesSizedTo ?fb s3" by auto
  moreover from C2_resize_and_next_frame[of "KeyboardUpdate_F1 s1" ?fb exampleWorld] wait
  have "RenderScene ?fb exampleWorld (BackBufferResizing (KeyboardUpdate_F1 s1)) =
      Inl NullDereference"
    by simp
  ultimately show ?thesis using run sized mode ready run' post wait by blast
qed

text \<open>
  C3, as stated, does not hold in its last part: with cap 0 the counter is said to grow
  without bound while the camera stays static. The counter is a 32-bit unsigned integer.
  In the session below the cap is 0 and the camera never moves: the first frame sets the
  counter to 1, and of the 4294967295 frames that follow, the one before the last leaves
  the counter at 4294967295 and the last one at 0, for which the accumulation weight, one
  divided by the counter, is infinite.
\<close>

theorem C3_uncapped_counter_wraps:
  "\<exists>s1 ss. RenderScene exampleFramebuffer exampleWorld
              (exampleStart\<lparr>m_ui := (m_ui exampleStart)\<lparr>framesToAccumulate := 0\<rparr>\<rparr>) = Inr s1 \<and>
     numAccumulatedFrames (m_ui s1) = 1 \<and>
     renderFrames 4294967295 exampleFramebuffer exampleWorld s1 = Inr ss \<and>
     length ss = 4294967295 \<and>
     numAccumulatedFrames (m_ui (ss ! 4294967293)) = 4294967295 \<and>
     numAccumulatedFrames (m_ui (ss ! 4294967294)) = 0 \<and>
     accumulationWeight (numAccumulatedFrames (m_ui (ss ! 4294967294))) = PlusInfinity"
proof -
  from first_frame_steady[of 0] obtain s1 where
    run: "RenderScene exampleFramebuffer exampleWorld
              (exampleStart\<lparr>m_ui := (m_ui exampleStart)\<lparr>framesToAccumulate := 0\<rparr>\<rparr>) = Inr s1"
    and n1: "numAccumulatedFrames (m_ui s1) = 1"
    and st: "steadyAccumulation exampleWorld 0 s1"
    by blast
  from steady_counts[OF st, of 4294967295 exampleFramebuffer] obtain ss where
    ss: "renderFrames 4294967295 exampleFramebuffer exampleWorld s1 = Inr ss"
      "length ss = 4294967295"
      "\<forall>j<4294967295. numAccumulatedFrames (m_ui (ss ! j)) = 1 + of_nat (Suc j)"
    unfolding n1 by auto
  from ss(3) have "numAccumulatedFrames (m_ui (ss ! 4294967293)) = 1 + of_nat (Suc 4294967293)"
    "numAccumulatedFrames (m_ui (ss ! 4294967294)) = 1 + of_nat (Suc 4294967294)"
    by simp_all
  then have "numAccumulatedFrames (m_ui (ss ! 4294967293)) = 4294967295"
    "numAccumulatedFrames (m_ui (ss ! 4294967294)) = 0"
    by simp_all
  with run n1 ss(1,2) show ?thesis
    by (auto simp add: accumulationWeight_def)
qed
text \<open>
  C3, amended. In every completed full frame: if the camera is static (line 758, on the
  state the resource setup leaves), accumulation is enabled and no reset of the
  accumulation was requested, the counter is incremented modulo \<open>2\<^sup>3\<^sup>2\<close> and then, when
  the cap is not zero, limited to the cap; in every other case the counter is 1. The
  accumulation pass runs if and only if accumulation is enabled, and its weight is one
  divided by the new counter (infinite when the counter is 0). In a session in which
  accumulation goes on, any number of frames complete; with cap 0 the counter after
  frame \<open>j + 1\<close> is the counter at the start plus \<open>j + 1\<close> modulo \<open>2\<^sup>3\<^sup>2\<close>, and with a
  cap other than 0 the counter never exceeds the cap. Starting from the first frame of the
  session, with cap 4, the counters of five frames are 1, 2, 3, 4, 4.
\<close>

theorem C3_accumulated_frame_counter:
  "(m_FrameStepMode s \<noteq> Wait \<and> RenderScene fb w s = Inr s' \<longrightarrow>
      (\<exists>eff ex s3. prepareFrame fb w s = Inr (eff, ex, s3) \<and>
         numAccumulatedFrames (m_ui s') =
           (if cameraIsStatic w s3 \<and> enableAccumulation (m_ui s) \<and> \<not> resetAccumulation (m_ui s)
            then (if framesToAccumulate (m_ui s) > 0
                  then min (numAccumulatedFrames (m_ui s) + 1) (framesToAccumulate (m_ui s))
                  else numAccumulatedFrames (m_ui s) + 1)
            else 1)) \<and>
      (\<forall>wt. Accumulation wt \<in> set (m_CommandList s') \<longleftrightarrow>
         enableAccumulation (m_ui s) \<and>
         wt = accumulationWeight (numAccumulatedFrames (m_ui s')))) \<and>
   accumulationWeight n = (if n = 0 then PlusInfinity else Finite (1 / real (unat n))) \<and>
   (steadyAccumulation w cap s \<longrightarrow>
      (\<exists>ss. renderFrames k fb w s = Inr ss \<and> length ss = k \<and>
         (\<forall>j<k. (cap = 0 \<longrightarrow> numAccumulatedFrames (m_ui (ss ! j)) =
                                  numAccumulatedFrames (m_ui s) + of_nat (Suc j)) \<and>
                 (cap > 0 \<longrightarrow> numAccumulatedFrames (m_ui (ss ! j)) \<le> cap)))) \<and>
   (\<exists>ss. renderFrames 5 exampleFramebuffer exampleWorld exampleStart = Inr ss \<and>
         map (\<lambda>x. numAccumulatedFrames (m_ui x)) ss = [1, 2, 3, 4, 4])"
proof (intro conjI impI)
  assume "m_FrameStepMode s \<noteq> Wait \<and> RenderScene fb w s = Inr s'"
  then obtain l src sz where ready: "sceneReady s"
    and l: "reloadEnvironmentMapIfDirty w s = Inr l"
    and sel: "selectedEnvironment w l = Some (src, sz)"
    and s': "s' = fullFrameResult fb w s l src sz"
    by (auto simp add: RenderScene_iff)
  let ?s3 = "resourceSetupResult fb src sz (beforeResourceSetup fb w s l)"
  have "numAccumulatedFrames (m_ui s') =
           (if cameraIsStatic w ?s3 \<and> enableAccumulation (m_ui s) \<and> \<not> resetAccumulation (m_ui s)
            then (if framesToAccumulate (m_ui s) > 0
                  then min (numAccumulatedFrames (m_ui s) + 1) (framesToAccumulate (m_ui s))
                  else numAccumulatedFrames (m_ui s) + 1)
            else 1)"
    by (simp only: s' fullFrameResult_counters cameraIsStatic_frame)
  with prepareFrame_eval[OF sceneReady_limiter[OF ready] l sel, of fb]
  show "\<exists>eff ex s3. prepareFrame fb w s = Inr (eff, ex, s3) \<and>
         numAccumulatedFrames (m_ui s') =
           (if cameraIsStatic w s3 \<and> enableAccumulation (m_ui s) \<and> \<not> resetAccumulation (m_ui s)
            then (if framesToAccumulate (m_ui s) > 0
                  then min (numAccumulatedFrames (m_ui s) + 1) (framesToAccumulate (m_ui s))
                  else numAccumulatedFrames (m_ui s) + 1)
            else 1)"
    by blast
  have ui: "enableAccumulation (m_ui ?s3) = enableAccumulation (m_ui s)"
    by (simp add: resourceSetupResult_def beforeResourceSetup_def Let_def
        split del: if_split cong: if_cong option.case_cong)
  show "\<forall>wt. Accumulation wt \<in> set (m_CommandList s') \<longleftrightarrow>
         enableAccumulation (m_ui s) \<and>
         wt = accumulationWeight (numAccumulatedFrames (m_ui s'))"
    by (simp only: s' fullFrameResult_commands frameCommands_members fullFrameResult_accumulated ui)
       simp
next
  show "accumulationWeight n = (if n = 0 then PlusInfinity else Finite (1 / real (unat n)))"
    by (simp add: accumulationWeight_def)
next
  assume "steadyAccumulation w cap s"
  from steady_counts[OF this]
  show "\<exists>ss. renderFrames k fb w s = Inr ss \<and> length ss = k \<and>
         (\<forall>j<k. (cap = 0 \<longrightarrow> numAccumulatedFrames (m_ui (ss ! j)) =
                                  numAccumulatedFrames (m_ui s) + of_nat (Suc j)) \<and>
                 (cap > 0 \<longrightarrow> numAccumulatedFrames (m_ui (ss ! j)) \<le> cap))" .
next
  show "\<exists>ss. renderFrames 5 exampleFramebuffer exampleWorld exampleStart = Inr ss \<and>
         map (\<lambda>x. numAccumulatedFrames (m_ui x)) ss = [1, 2, 3, 4, 4]"
    by (rule five_frames)
qed

theorem C3_witness:
  "\<exists>s1 s2. RenderScene exampleFramebuffer exampleWorld exampleStart = Inr s1 \<and>
     numAccumulatedFrames (m_ui s1) = 1 \<and>
     m_FrameStepMode s1 \<noteq> Wait \<and> steadyAccumulation exampleWorld 4 s1 \<and>
     RenderScene exampleFramebuffer exampleWorld s1 = Inr s2 \<and>
     numAccumulatedFrames (m_ui s2) = 2 \<and>
     Accumulation (Finite (1 / 2)) \<in> set (m_CommandList s2) \<and>
     (\<exists>ss. renderFrames 3 exampleFramebuffer exampleWorld s1 = Inr ss \<and> length ss = 3 \<and>
           numAccumulatedFrames (m_ui (ss ! 2)) \<le> 4)"
proof -
  from first_frame_steady[of 4] obtain s1 where
    run: "RenderScene exampleFramebuffer exampleWorld exampleStart = Inr s1"
    and n1: "numAccumulatedFrames (m_ui s1) = 1"
    and st: "steadyAccumulation exampleWorld 4 s1"
    unfolding exampleStart_cap by blast
  from st have mode: "m_FrameStepMode s1 \<noteq> Wait" and acc: "enableAccumulation (m_ui s1)"
    by (simp_all add: steadyAccumulation_def)
  from steady_frame[OF st, of exampleFramebuffer] n1 obtain s2 where
    run2: "RenderScene exampleFramebuffer exampleWorld s1 = Inr s2"
    and n2: "numAccumulatedFrames (m_ui s2) = 2"
    by (auto simp add: accumulate_four)
  note c = C3_accumulated_frame_counter[of s1 exampleFramebuffer exampleWorld s2 2 4 3]
  from c mode run2 acc n2 have "Accumulation (Finite (1 / 2)) \<in> set (m_CommandList s2)"
    by simp
  moreover from c st obtain ss where
    "renderFrames 3 exampleFramebuffer exampleWorld s1 = Inr ss" "length ss = 3"
    "numAccumulatedFrames (m_ui (ss ! 2)) \<le> 4"
    by auto
  ultimately show ?thesis using run n1 mode st run2 n2 by blast
qed

text \<open>
  C4. The rendering mode selects the lighting passes. The resampling family
  (\<open>LightingRender\<close>) runs exactly in the three ReStirDirect modes and the BRDF-ray family
  (\<open>RenderBrdfRays\<close>) exactly in BrdfDirectOnly and the two combined modes. Denoiser-input
  packing is on for the BRDF family in every mode, and for the resampling family in the
  plain and the MIS mode but not in the indirect-combined mode. Additive blend and specular
  MIS of the BRDF family are on exactly in the two combined modes, and indirect estimation
  only in the indirect-combined mode. In every full frame that completes, the lighting
  commands of the command list are exactly the ones selected for the mode of that frame.
\<close>

theorem C4_mode_selects_lighting_passes:
  "lightingPasses ReStirDirectOnly i =
     [LightingRender \<lparr>rs_enableDenoiserInputPacking = True, rs_enableSpecularMis = False,
                      rs_frameIndex = i\<rparr>] \<and>
   lightingPasses ReStirDirectBrdfMIS i =
     [LightingRender \<lparr>rs_enableDenoiserInputPacking = True, rs_enableSpecularMis = True,
                      rs_frameIndex = i\<rparr>,
      RenderBrdfRays \<lparr>br_enableDenoiserInputPacking = True, br_enableIndirect = False,
                      br_enableAdditiveBlend = True, br_enableSpecularMis = True,
                      br_frameIndex = i\<rparr>] \<and>
   lightingPasses ReStirDirectBrdfIndirect i =
     [LightingRender \<lparr>rs_enableDenoiserInputPacking = False, rs_enableSpecularMis = True,
                      rs_frameIndex = i\<rparr>,
      RenderBrdfRays \<lparr>br_enableDenoiserInputPacking = True, br_enableIndirect = True,
                      br_enableAdditiveBlend = True, br_enableSpecularMis = True,
                      br_frameIndex = i\<rparr>] \<and>
   lightingPasses BrdfDirectOnly i =
     [RenderBrdfRays \<lparr>br_enableDenoiserInputPacking = True, br_enableIndirect = False,
                      br_enableAdditiveBlend = False, br_enableSpecularMis = False,
                      br_frameIndex = i\<rparr>] \<and>
   (\<forall>fb (w :: 'm world) s s'.
      m_FrameStepMode s \<noteq> Wait \<and> RenderScene fb w s = Inr s' \<longrightarrow>
      filter isLightingPass (m_CommandList s') =
        lightingPasses (renderingMode (m_ui s)) (fst (resolveEffectiveFrameIndex w s)))"
proof (intro conjI allI impI)
  fix fb and w :: "'m world" and s s'
  assume "m_FrameStepMode s \<noteq> Wait \<and> RenderScene fb w s = Inr s'"
  then show "filter isLightingPass (m_CommandList s') =
        lightingPasses (renderingMode (m_ui s)) (fst (resolveEffectiveFrameIndex w s))"
    using full_frame_lighting by blast
qed (simp_all add: lightingPasses_def)

theorem C4_witness:
  "m_FrameStepMode exampleStart \<noteq> Wait \<and>
   (\<exists>s'. RenderScene exampleFramebuffer exampleWorld exampleStart = Inr s' \<and>
      filter isLightingPass (m_CommandList s') =
        [LightingRender \<lparr>rs_enableDenoiserInputPacking = False, rs_enableSpecularMis = True,
                         rs_frameIndex = 0\<rparr>,
         RenderBrdfRays \<lparr>br_enableDenoiserInputPacking = True, br_enableIndirect = True,
                         br_enableAdditiveBlend = True, br_enableSpecularMis = True,
                         br_frameIndex = 0\<rparr>])"
proof -
  have mode: "m_FrameStepMode exampleStart \<noteq> Wait"
    by (simp add: example_defs)
  have "\<exists>s'. RenderScene exampleFramebuffer exampleWorld exampleStart = Inr s'"
    by (simp add: example_defs stage_defs Let_def)
  then obtain s' where run: "RenderScene exampleFramebuffer exampleWorld exampleStart = Inr s'" ..
  have "filter isLightingPass (m_CommandList s') =
          lightingPasses (renderingMode (m_ui exampleStart))
            (fst (resolveEffectiveFrameIndex exampleWorld exampleStart))"
    using C4_mode_selects_lighting_passes[where ?'m = nat and i = 0] mode run by blast
  also have "\<dots> = [LightingRender \<lparr>rs_enableDenoiserInputPacking = False, rs_enableSpecularMis = True,
                         rs_frameIndex = 0\<rparr>,
         RenderBrdfRays \<lparr>br_enableDenoiserInputPacking = True, br_enableIndirect = True,
                         br_enableAdditiveBlend = True, br_enableSpecularMis = True,
                         br_frameIndex = 0\<rparr>]"
    by (simp add: example_defs lightingPasses_def resolveEffectiveFrameIndex_def)
  finally show ?thesis using mode run by simp
qed

text \<open>
  C5, as stated, does not hold: the skip is said to depend on the parity of the effective
  frame index. With random numbers frozen the effective frame index is 0 in every frame,
  yet the second frame of the session (frame counter 1, accumulation enabled,
  checkerboard mode Black) leaves the jitter where the first frame put it.
\<close>

theorem C5_frozen_random_skips_on_odd_counter:
  "\<exists>s1 s2.
     RenderScene exampleFramebuffer exampleWorld
       (exampleStart\<lparr>m_ui := (m_ui exampleStart)\<lparr>freezeRandom := True\<rparr>\<rparr>) = Inr s1 \<and>
     m_FrameIndex s1 = 1 \<and>
     fst (resolveEffectiveFrameIndex exampleWorld s1) = 0 \<and>
     enableAccumulation (m_ui s1) \<and>
     map_option CheckerboardSamplingMode (m_RtxdiContext s1) = Some Black \<and>
     RenderScene exampleFramebuffer exampleWorld s1 = Inr s2 \<and>
     m_TemporalAntiAliasingPass s1 = Some \<lparr>taa_frameIndex = 1\<rparr> \<and>
     m_TemporalAntiAliasingPass s2 = Some \<lparr>taa_frameIndex = 1\<rparr>"
  by (simp add: example_defs stage_defs Let_def)
text \<open>
  C5, amended. In every completed full frame, the jitter advance is skipped if and only if
  accumulation is enabled, the checkerboard mode of the resampling context of that frame is
  not Off, and the frame counter \<^verbatim>\<open>m_FrameIndex\<close> (not the effective frame index) is odd;
  in every other case the jitter advances by one step. The context of the frame is the one
  the frame starts with, or a new one after a reset or a resize; the jitter sequence starts
  anew after a shader reload.
\<close>

theorem C5_jitter_skips_on_odd_frame_counter:
  "m_FrameStepMode s \<noteq> Wait \<and> RenderScene fb w s = Inr s' \<longrightarrow>
     m_TemporalAntiAliasingPass s' =
       Some \<lparr>taa_frameIndex =
         (if enableAccumulation (m_ui s) \<and>
             CheckerboardSamplingMode (contextOfFrame fb s) \<noteq> Off \<and>
             (m_FrameIndex s AND 1) \<noteq> 0
          then taa_frameIndex (jitterPassOfFrame s)
          else Suc (taa_frameIndex (jitterPassOfFrame s)))\<rparr> \<and>
     m_RtxdiContext s' = Some (contextOfFrame fb s) \<and>
     ((m_FrameIndex s AND 1) \<noteq> 0 \<longleftrightarrow> odd (unat (m_FrameIndex s)))"
proof (intro impI)
  assume "m_FrameStepMode s \<noteq> Wait \<and> RenderScene fb w s = Inr s'"
  then obtain l src sz where s': "s' = fullFrameResult fb w s l src sz"
    by (auto simp add: RenderScene_iff)
  have "(m_FrameIndex s AND 1) \<noteq> 0 \<longleftrightarrow> odd (unat (m_FrameIndex s))"
    by (simp add: and_one_eq)
       (metis even_of_nat odd_iff_mod_2_eq_one of_nat_unat ucast_id)
  then show "m_TemporalAntiAliasingPass s' =
       Some \<lparr>taa_frameIndex =
         (if enableAccumulation (m_ui s) \<and>
             CheckerboardSamplingMode (contextOfFrame fb s) \<noteq> Off \<and>
             (m_FrameIndex s AND 1) \<noteq> 0
          then taa_frameIndex (jitterPassOfFrame s)
          else Suc (taa_frameIndex (jitterPassOfFrame s)))\<rparr> \<and>
     m_RtxdiContext s' = Some (contextOfFrame fb s) \<and>
     ((m_FrameIndex s AND 1) \<noteq> 0 \<longleftrightarrow> odd (unat (m_FrameIndex s)))"
    by (simp only: s' fullFrameResult_counters fullFrameResult_bundles)
qed

theorem C5_witness:
  "\<exists>s1. RenderScene exampleFramebuffer exampleWorld exampleStart = Inr s1 \<and>
     m_FrameStepMode s1 \<noteq> Wait \<and> m_FrameIndex s1 = 1 \<and>
     m_TemporalAntiAliasingPass s1 = Some \<lparr>taa_frameIndex = 1\<rparr> \<and>
     (\<exists>s2. RenderScene exampleFramebuffer exampleWorld s1 = Inr s2 \<and>
        m_TemporalAntiAliasingPass s2 = Some \<lparr>taa_frameIndex = 1\<rparr> \<and>
        (\<exists>s3. RenderScene exampleFramebuffer exampleWorld s2 = Inr s3 \<and>
           m_TemporalAntiAliasingPass s3 = Some \<lparr>taa_frameIndex = 2\<rparr>))"
proof -
  have "\<exists>s1 s2 s3. RenderScene exampleFramebuffer exampleWorld exampleStart = Inr s1 \<and>
     m_FrameStepMode s1 \<noteq> Wait \<and> m_FrameIndex s1 = 1 \<and>
     m_TemporalAntiAliasingPass s1 = Some \<lparr>taa_frameIndex = 1\<rparr> \<and>
     enableAccumulation (m_ui s1) \<and> \<not> reloadShaders (m_ui s1) \<and> \<not> resetRtxdiContext (m_ui s1) \<and>
     map_option CheckerboardSamplingMode (m_RtxdiContext s1) = Some Black \<and>
     RenderScene exampleFramebuffer exampleWorld s1 = Inr s2 \<and>
     m_FrameStepMode s2 \<noteq> Wait \<and> m_FrameIndex s2 = 2 \<and>
     \<not> reloadShaders (m_ui s2) \<and>
     RenderScene exampleFramebuffer exampleWorld s2 = Inr s3"
    by (simp add: example_defs stage_defs Let_def)
  then obtain s1 s2 s3 where run1: "RenderScene exampleFramebuffer exampleWorld exampleStart = Inr s1"
    and s1: "m_FrameStepMode s1 \<noteq> Wait" "m_FrameIndex s1 = 1"
      "m_TemporalAntiAliasingPass s1 = Some \<lparr>taa_frameIndex = 1\<rparr>"
      "enableAccumulation (m_ui s1)" "\<not> reloadShaders (m_ui s1)" "\<not> resetRtxdiContext (m_ui s1)"
      "map_option CheckerboardSamplingMode (m_RtxdiContext s1) = Some Black"
    and run2: "RenderScene exampleFramebuffer exampleWorld s1 = Inr s2"
    and s2: "m_FrameStepMode s2 \<noteq> Wait" "m_FrameIndex s2 = 2" "\<not> reloadShaders (m_ui s2)"
    and run3: "RenderScene exampleFramebuffer exampleWorld s2 = Inr s3"
    by blast
  from C5_jitter_skips_on_odd_frame_counter[of s1 exampleFramebuffer exampleWorld s2] s1 run2
  have t2: "m_TemporalAntiAliasingPass s2 = Some \<lparr>taa_frameIndex = 1\<rparr>"
    by (auto simp add: contextOfFrame_def jitterPassOfFrame_def)
  from C5_jitter_skips_on_odd_frame_counter[of s2 exampleFramebuffer exampleWorld s3] s2 run3 t2
  have "m_TemporalAntiAliasingPass s3 = Some \<lparr>taa_frameIndex = 2\<rparr>"
    by (simp add: jitterPassOfFrame_def)
  with run1 s1 run2 t2 run3 show ?thesis by blast
qed

text \<open>
  C6, as stated, does not hold in its last part: any change of the view matrix is said to
  make detection false and to reset the accumulated-frame counter to 1. SetupView seeds the
  previous view with the current one whenever the 32-bit frame counter is 0, which it is
  again after \<open>2\<^sup>3\<^sup>2\<close> frames. In the session below the camera rests at view matrix 7
  for the first frame and for the 4294967295 frames after it; the last of them leaves the
  frame counter at 0 and the accumulated-frame counter at the cap 4. Then the camera moves
  to view matrix 8: the frame compares the current view with itself, takes the camera to
  be static, and leaves the counter at 4.
\<close>

theorem C6_moved_camera_static_after_wrap:
  "\<exists>s1 ss s'. RenderScene exampleFramebuffer exampleWorld exampleStart = Inr s1 \<and>
     renderFrames 4294967295 exampleFramebuffer exampleWorld s1 = Inr ss \<and>
     length ss = 4294967295 \<and>
     m_FrameIndex (ss ! 4294967294) = 0 \<and>
     m_PreviousViewValid (ss ! 4294967294) \<and>
     viewMatrix (m_ViewPrevious (ss ! 4294967294)) = 7 \<and>
     numAccumulatedFrames (m_ui (ss ! 4294967294)) = 4 \<and>
     RenderScene exampleFramebuffer exampleWorld ((ss ! 4294967294)\<lparr>m_Camera := 8\<rparr>) = Inr s' \<and>
     numAccumulatedFrames (m_ui s') = 4"
proof -
  from first_frame_steady[of 4] obtain s1 where
    run: "RenderScene exampleFramebuffer exampleWorld exampleStart = Inr s1"
    and n1: "numAccumulatedFrames (m_ui s1) = 1" and i1: "m_FrameIndex s1 = 1"
    and c1: "m_Camera s1 = 7"
    and st: "steadyAccumulation exampleWorld 4 s1"
    unfolding exampleStart_cap by blast
  from steady_frames[OF st, of 4294967295 exampleFramebuffer] obtain ss where
    ss: "renderFrames 4294967295 exampleFramebuffer exampleWorld s1 = Inr ss"
      "length ss = 4294967295"
      "\<forall>j<4294967295. steadyAccumulation exampleWorld 4 (ss ! j) \<and>
          numAccumulatedFrames (m_ui (ss ! j)) = (accumulate 4 ^^ Suc j) 1 \<and>
          m_FrameIndex (ss ! j) = 1 + of_nat (Suc j) \<and> m_Camera (ss ! j) = 7"
    unfolding n1 i1 c1 by blast
  let ?t = "ss ! 4294967294"
  have lt: "(4294967294::nat) < 4294967295" by simp
  from ss(3)[rule_format, OF lt] have t: "steadyAccumulation exampleWorld 4 ?t"
    "numAccumulatedFrames (m_ui ?t) = (accumulate 4 ^^ Suc 4294967294) 1"
    "m_FrameIndex ?t = 1 + of_nat (Suc 4294967294)" "m_Camera ?t = 7"
    by blast+
  have "Suc 4294967294 = 4294967292 + Suc (Suc (Suc 0))" by simp
  then have "(accumulate 4 ^^ Suc 4294967294) 1 =
      (accumulate 4 ^^ 4294967292) ((accumulate 4 ^^ Suc (Suc (Suc 0))) 1)"
    by (simp only: funpow_add o_apply)
  also have "\<dots> = 4"
    by (simp add: accumulate_four accumulate_four_stays)
  finally have n: "numAccumulatedFrames (m_ui ?t) = 4" using t(2) by simp
  from t(3) have idx: "m_FrameIndex ?t = 0" by simp
  from t(1,4) have views: "m_PreviousViewValid ?t" "viewMatrix (m_ViewPrevious ?t) = 7"
    by (simp_all add: steadyAccumulation_def)
  have "viewMatrixEq exampleWorld 8 8" by (simp add: exampleWorld_def)
  from seeded_frame[OF t(1) idx this, of exampleFramebuffer] n obtain s' where
    "RenderScene exampleFramebuffer exampleWorld (?t\<lparr>m_Camera := 8\<rparr>) = Inr s'"
    "numAccumulatedFrames (m_ui s') = 4"
    by (auto simp add: accumulate_four)
  with run ss(1,2) idx views n show ?thesis by blast
qed
text \<open>
  C6, amended. Camera-static detection (line 758) is evaluated on the state that the
  resource setup leaves. It is true if and only if a previous view is valid and the
  comparison of the matrix type (\<^verbatim>\<open>operator==\<close>, to which main.cpp adds no tolerance)
  holds of the view matrix of the current view, which is the camera's, and that of the
  previous view. A previous view is not valid in a new renderer and is valid after every
  completed full frame, which stores the current view as the previous one. The previous
  view that is compared is the one the last completed frame stored, unless the frame
  counter is 0: then SetupView has overwritten it with the current view, and the current
  matrix is compared with itself. Whenever detection is false, the accumulated-frame
  counter is 1 after the frame; this is so in every frame with a frame counter other than
  0 in which the comparison fails of the camera and the stored previous view, and so,
  when the comparison holds of equal matrices only, in every such frame in which the two
  matrices differ.
\<close>

theorem C6_camera_static_detection:
  "\<not> m_PreviousViewValid (constructed ui identity) \<and>
   (prepareFrame fb w s = Inr (eff, ex, s3) \<longrightarrow>
      (cameraIsStatic w s3 \<longleftrightarrow>
         m_PreviousViewValid s \<and>
         viewMatrixEq w (viewMatrix (m_View s3)) (viewMatrix (m_ViewPrevious s3))) \<and>
      viewMatrix (m_View s3) = m_Camera s3 \<and>
      m_Camera s3 = m_Camera (snd (resolveEffectiveFrameIndex w s)) \<and>
      m_ViewPrevious s3 = (if m_FrameIndex s = 0 then m_View s3 else m_ViewPrevious s)) \<and>
   (m_FrameStepMode s \<noteq> Wait \<and> RenderScene fb w s = Inr s' \<longrightarrow>
      (\<exists>eff ex s3. prepareFrame fb w s = Inr (eff, ex, s3) \<and>
         numAccumulatedFrames (m_ui s') =
           numAccumulatedFrames (m_ui (updateAccumulation (cameraIsStatic w s3) s3)) \<and>
         (\<not> cameraIsStatic w s3 \<longrightarrow> numAccumulatedFrames (m_ui s') = 1) \<and>
         (m_FrameIndex s \<noteq> 0 \<and>
          \<not> viewMatrixEq w (m_Camera s3) (viewMatrix (m_ViewPrevious s)) \<longrightarrow>
            \<not> cameraIsStatic w s3 \<and> numAccumulatedFrames (m_ui s') = 1) \<and>
         ((\<forall>a b. viewMatrixEq w a b \<longrightarrow> a = b) \<and> m_FrameIndex s \<noteq> 0 \<and>
          m_Camera s3 \<noteq> viewMatrix (m_ViewPrevious s) \<longrightarrow>
            \<not> cameraIsStatic w s3 \<and> numAccumulatedFrames (m_ui s') = 1) \<and>
         (m_FrameIndex s = 0 \<longrightarrow>
            (cameraIsStatic w s3 \<longleftrightarrow>
               m_PreviousViewValid s \<and> viewMatrixEq w (m_Camera s3) (m_Camera s3)))) \<and>
      m_PreviousViewValid s' \<and> m_ViewPrevious s' = m_View s')"
proof (intro conjI impI)
  show "\<not> m_PreviousViewValid (constructed ui identity)"
    by (simp add: constructed_def)
next
  assume "prepareFrame fb w s = Inr (eff, ex, s3)"
  then obtain l src sz where
    s3: "s3 = resourceSetupResult fb src sz (beforeResourceSetup fb w s l)"
    unfolding prepareFrame_iff by auto
  show "cameraIsStatic w s3 \<longleftrightarrow>
         m_PreviousViewValid s \<and>
         viewMatrixEq w (viewMatrix (m_View s3)) (viewMatrix (m_ViewPrevious s3))"
    by (simp add: cameraIsStatic_def s3 resourceSetupResult_views(1))
  show "viewMatrix (m_View s3) = m_Camera s3"
    "m_Camera s3 = m_Camera (snd (resolveEffectiveFrameIndex w s))"
    "m_ViewPrevious s3 = (if m_FrameIndex s = 0 then m_View s3 else m_ViewPrevious s)"
    by (simp_all only: s3 resourceSetupResult_views)
next
  assume a: "m_FrameStepMode s \<noteq> Wait \<and> RenderScene fb w s = Inr s'"
  then obtain l src sz where ready: "sceneReady s" and l: "reloadEnvironmentMapIfDirty w s = Inr l"
    and sel: "selectedEnvironment w l = Some (src, sz)"
    and s': "s' = fullFrameResult fb w s l src sz"
    by (auto simp add: RenderScene_iff)
  let ?s3 = "resourceSetupResult fb src sz (beforeResourceSetup fb w s l)"
  have acc: "numAccumulatedFrames (m_ui s') =
      numAccumulatedFrames (m_ui (updateAccumulation (cameraIsStatic w ?s3) ?s3))"
    by (simp only: s' fullFrameResult_accumulated)
  then have reset: "\<not> cameraIsStatic w ?s3 \<longrightarrow> numAccumulatedFrames (m_ui s') = 1"
    by (simp add: updateAccumulation_def)
  have static: "cameraIsStatic w ?s3 \<longleftrightarrow>
      m_PreviousViewValid s \<and>
      viewMatrixEq w (m_Camera ?s3)
        (if m_FrameIndex s = 0 then m_Camera ?s3 else viewMatrix (m_ViewPrevious s))"
    by (simp add: cameraIsStatic_def resourceSetupResult_views)
  from static reset have moved:
    "m_FrameIndex s \<noteq> 0 \<and> \<not> viewMatrixEq w (m_Camera ?s3) (viewMatrix (m_ViewPrevious s)) \<longrightarrow>
       \<not> cameraIsStatic w ?s3 \<and> numAccumulatedFrames (m_ui s') = 1"
    by simp
  then have exact: "(\<forall>a b. viewMatrixEq w a b \<longrightarrow> a = b) \<and> m_FrameIndex s \<noteq> 0 \<and>
          m_Camera ?s3 \<noteq> viewMatrix (m_ViewPrevious s) \<longrightarrow>
            \<not> cameraIsStatic w ?s3 \<and> numAccumulatedFrames (m_ui s') = 1"
    by blast
  from static have seeded: "m_FrameIndex s = 0 \<longrightarrow>
      (cameraIsStatic w ?s3 \<longleftrightarrow>
         m_PreviousViewValid s \<and> viewMatrixEq w (m_Camera ?s3) (m_Camera ?s3))"
    by simp
  from prepareFrame_eval[OF sceneReady_limiter[OF ready] l sel, of fb] acc reset moved exact seeded
  show "\<exists>eff ex s3. prepareFrame fb w s = Inr (eff, ex, s3) \<and>
         numAccumulatedFrames (m_ui s') =
           numAccumulatedFrames (m_ui (updateAccumulation (cameraIsStatic w s3) s3)) \<and>
         (\<not> cameraIsStatic w s3 \<longrightarrow> numAccumulatedFrames (m_ui s') = 1) \<and>
         (m_FrameIndex s \<noteq> 0 \<and>
          \<not> viewMatrixEq w (m_Camera s3) (viewMatrix (m_ViewPrevious s)) \<longrightarrow>
            \<not> cameraIsStatic w s3 \<and> numAccumulatedFrames (m_ui s') = 1) \<and>
         ((\<forall>a b. viewMatrixEq w a b \<longrightarrow> a = b) \<and> m_FrameIndex s \<noteq> 0 \<and>
          m_Camera s3 \<noteq> viewMatrix (m_ViewPrevious s) \<longrightarrow>
            \<not> cameraIsStatic w s3 \<and> numAccumulatedFrames (m_ui s') = 1) \<and>
         (m_FrameIndex s = 0 \<longrightarrow>
            (cameraIsStatic w s3 \<longleftrightarrow>
               m_PreviousViewValid s \<and> viewMatrixEq w (m_Camera s3) (m_Camera s3)))"
    by blast
  show "m_PreviousViewValid s'" "m_ViewPrevious s' = m_View s'"
    by (simp_all only: s' fullFrameResult_views)
qed

theorem C6_witness:
  "\<exists>s1 s2. RenderScene exampleFramebuffer exampleWorld exampleStart = Inr s1 \<and>
     numAccumulatedFrames (m_ui s1) = 1 \<and>
     RenderScene exampleFramebuffer exampleWorld s1 = Inr s2 \<and>
     numAccumulatedFrames (m_ui s2) = 2 \<and>
     viewMatrix (m_ViewPrevious s2) = 7 \<and> m_FrameIndex s2 = 2 \<and>
     m_FrameStepMode (s2\<lparr>m_Camera := 8\<rparr>) \<noteq> Wait \<and>
     (\<forall>a b. viewMatrixEq exampleWorld a b \<longrightarrow> a = b) \<and>
     (\<exists>s3. RenderScene exampleFramebuffer exampleWorld (s2\<lparr>m_Camera := 8\<rparr>) = Inr s3 \<and>
        numAccumulatedFrames (m_ui s3) = 1 \<and> m_PreviousViewValid s3 \<and>
        m_ViewPrevious s3 = m_View s3)"
proof -
  have "\<exists>s1 s2 s3. RenderScene exampleFramebuffer exampleWorld exampleStart = Inr s1 \<and>
     numAccumulatedFrames (m_ui s1) = 1 \<and>
     RenderScene exampleFramebuffer exampleWorld s1 = Inr s2 \<and>
     numAccumulatedFrames (m_ui s2) = 2 \<and>
     viewMatrix (m_ViewPrevious s2) = 7 \<and>
     m_FrameStepMode s2 \<noteq> Wait \<and> m_FrameIndex s2 = 2 \<and> animationFrame (m_ui s2) = None \<and>
     RenderScene exampleFramebuffer exampleWorld (s2\<lparr>m_Camera := 8\<rparr>) = Inr s3"
    by (simp add: example_defs stage_defs Let_def)
  then obtain s1 s2 s3 where run1: "RenderScene exampleFramebuffer exampleWorld exampleStart = Inr s1"
    and n1: "numAccumulatedFrames (m_ui s1) = 1"
    and run2: "RenderScene exampleFramebuffer exampleWorld s1 = Inr s2"
    and s2: "numAccumulatedFrames (m_ui s2) = 2" "viewMatrix (m_ViewPrevious s2) = 7"
      "m_FrameStepMode s2 \<noteq> Wait" "m_FrameIndex s2 = 2" "animationFrame (m_ui s2) = None"
    and run3: "RenderScene exampleFramebuffer exampleWorld (s2\<lparr>m_Camera := 8\<rparr>) = Inr s3"
    by blast
  let ?s = "s2\<lparr>m_Camera := 8\<rparr>"
  have mode: "m_FrameStepMode ?s \<noteq> Wait" using s2 by simp
  have exact: "\<forall>a b. viewMatrixEq exampleWorld a b \<longrightarrow> a = b"
    by (simp add: exampleWorld_def)
  note c = C6_camera_static_detection[where s = ?s and fb = exampleFramebuffer
      and w = exampleWorld and s' = s3 and ui = exampleUI and identity = "0::nat"]
  from c mode run3 obtain eff ex p where
    pf: "prepareFrame exampleFramebuffer exampleWorld ?s = Inr (eff, ex, p)"
    and moved: "(\<forall>a b. viewMatrixEq exampleWorld a b \<longrightarrow> a = b) \<and> m_FrameIndex ?s \<noteq> 0 \<and>
          m_Camera p \<noteq> viewMatrix (m_ViewPrevious ?s) \<longrightarrow> numAccumulatedFrames (m_ui s3) = 1"
    and valid: "m_PreviousViewValid s3" "m_ViewPrevious s3 = m_View s3"
    by blast
  from c[of eff ex p] pf s2 have "m_Camera p = 8"
    by (simp add: resolveEffectiveFrameIndex_def Let_def)
  with moved exact s2 have "numAccumulatedFrames (m_ui s3) = 1"
    by simp
  with valid exact run1 n1 run2 s2 mode run3 show ?thesis by blast
qed

text \<open>
  C7, as stated, does not hold: a frame that starts at level 2 is said to end at level 1.
  The frame below starts at level 2 with ``studio.exr'' selected: it reloads the texture,
  regenerates the PDF mipmap and ends at level 0. The next frame starts at level 0 with a
  shader reload requested: it regenerates the PDF mipmap as well.
\<close>

theorem C7_level_two_ends_at_zero:
  "environmentMapDirty (m_ui (selectEnvironment 1 exampleStart)) = 2 \<and>
   (\<exists>s1. RenderScene exampleFramebuffer exampleWorld (selectEnvironment 1 exampleStart) = Inr s1 \<and>
      map_option path (m_EnvironmentMap s1) = Some ''studio.exr'' \<and>
      EnvironmentMapPdfMipmap \<in> set (m_CommandList s1) \<and>
      environmentMapDirty (m_ui s1) = 0 \<and>
      (\<exists>s2. RenderScene exampleFramebuffer exampleWorld
               (s1\<lparr>m_ui := (m_ui s1)\<lparr>reloadShaders := True\<rparr>\<rparr>) = Inr s2 \<and>
            EnvironmentMapPdfMipmap \<in> set (m_CommandList s2) \<and>
            environmentMapDirty (m_ui s2) = 0))"
  by (simp add: example_defs stage_defs Let_def)
text \<open>
  C7, amended. Loading a scene sets the dirty level to 2. Every completed full frame ends
  at level 0. The texture is reloaded (LoadEnvironmentMap) in the frame if and only if the
  frame starts at level 2; otherwise the environment map, the list of maps and the selected
  index are unchanged. The PDF mipmap is regenerated in the frame if and only if the frame
  starts at a level other than 0, or a shader reload is requested, or the Ray-Tracing
  Resource Bundle is built anew in the frame.
\<close>

theorem C7_dirty_level_per_frame:
  "environmentMapDirty (m_ui (SceneLoaded pose maps directionalLight meshes triangles lights s0)) = 2 \<and>
   (m_FrameStepMode s \<noteq> Wait \<and> RenderScene fb w s = Inr s' \<longrightarrow>
      environmentMapDirty (m_ui s') = 0 \<and>
      (\<exists>l src sz.
         (if environmentMapDirty (m_ui s) = 2 then LoadEnvironmentMap w s = Inr l else l = s) \<and>
         m_EnvironmentMap s' = m_EnvironmentMap l \<and>
         environmentMaps s' = environmentMaps l \<and>
         environmentMapIndex (m_ui s') = environmentMapIndex (m_ui l) \<and>
         selectedEnvironment w s' = Some (src, sz) \<and>
         (EnvironmentMapPdfMipmap \<in> set (m_CommandList s') \<longleftrightarrow>
            environmentMapDirty (m_ui s) \<noteq> 0 \<or> reloadShaders (m_ui s) \<or> bundleRebuilt sz s)))"
proof (intro conjI impI)
  show "environmentMapDirty (m_ui (SceneLoaded pose maps directionalLight meshes triangles lights s0)) = 2"
    by (simp add: SceneLoaded_def)
next
  assume a: "m_FrameStepMode s \<noteq> Wait \<and> RenderScene fb w s = Inr s'"
  then obtain l src sz where l: "reloadEnvironmentMapIfDirty w s = Inr l"
    and sel: "selectedEnvironment w l = Some (src, sz)"
    and s': "s' = fullFrameResult fb w s l src sz"
    by (auto simp add: RenderScene_iff)
  show "environmentMapDirty (m_ui s') = 0"
    by (simp add: s' fullFrameResult_environment)
  have "EnvironmentMapPdfMipmap \<in> set (m_CommandList s') \<longleftrightarrow>
            environmentMapDirty (m_ui s) \<noteq> 0 \<or> reloadShaders (m_ui s) \<or> bundleRebuilt sz s"
    by (auto simp add: s' fullFrameResult_commands frameCommands_members
        resourceSetupResult_environment)
  with l sel show "\<exists>l src sz.
         (if environmentMapDirty (m_ui s) = 2 then LoadEnvironmentMap w s = Inr l else l = s) \<and>
         m_EnvironmentMap s' = m_EnvironmentMap l \<and>
         environmentMaps s' = environmentMaps l \<and>
         environmentMapIndex (m_ui s') = environmentMapIndex (m_ui l) \<and>
         selectedEnvironment w s' = Some (src, sz) \<and>
         (EnvironmentMapPdfMipmap \<in> set (m_CommandList s') \<longleftrightarrow>
            environmentMapDirty (m_ui s) \<noteq> 0 \<or> reloadShaders (m_ui s) \<or> bundleRebuilt sz s)"
    unfolding reloadEnvironmentMapIfDirty_cases
    by (intro exI[of _ l] exI[of _ src] exI[of _ sz])
       (simp add: s' fullFrameResult_environment selectedEnvironment_fullFrameResult)
qed

theorem C7_witness:
  "\<exists>s1. RenderScene exampleFramebuffer exampleWorld exampleStart = Inr s1 \<and>
     environmentMapDirty (m_ui s1) = 0 \<and> m_FrameStepMode s1 \<noteq> Wait \<and>
     \<not> reloadShaders (m_ui s1) \<and> \<not> bundleRebuilt \<lparr>width = 2048, height = 1024\<rparr> s1 \<and>
     (\<exists>s2. RenderScene exampleFramebuffer exampleWorld s1 = Inr s2 \<and>
        environmentMapDirty (m_ui s2) = 0 \<and> m_EnvironmentMap s2 = m_EnvironmentMap s1 \<and>
        EnvironmentMapPdfMipmap \<notin> set (m_CommandList s2))"
proof -
  have "\<exists>s1. RenderScene exampleFramebuffer exampleWorld exampleStart = Inr s1 \<and>
     environmentMapDirty (m_ui s1) = 0 \<and> m_FrameStepMode s1 \<noteq> Wait \<and>
     \<not> reloadShaders (m_ui s1) \<and> \<not> bundleRebuilt \<lparr>width = 2048, height = 1024\<rparr> s1 \<and>
     environmentMapReady s1 \<and> sceneReady s1 \<and> environmentMapIndex (m_ui s1) = 0"
    by (simp add: example_defs stage_defs Let_def bundleRebuilt_def environmentMapReady_def
        sceneReady_def)
  then obtain s1 where run: "RenderScene exampleFramebuffer exampleWorld exampleStart = Inr s1"
    and s1: "environmentMapDirty (m_ui s1) = 0" "m_FrameStepMode s1 \<noteq> Wait"
      "\<not> reloadShaders (m_ui s1)" "\<not> bundleRebuilt \<lparr>width = 2048, height = 1024\<rparr> s1"
    and ready: "environmentMapReady s1" "sceneReady s1"
    and idx: "environmentMapIndex (m_ui s1) = 0"
    by auto
  from RenderScene_returns[OF s1(2) ready] obtain s2 where
    run2: "RenderScene exampleFramebuffer exampleWorld s1 = Inr s2"
    by blast
  from C7_dirty_level_per_frame[of "7::nat" "[]" True 0 0 0 exampleStart s1 exampleFramebuffer
      exampleWorld s2] s1 run2
  obtain src sz where f: "environmentMapDirty (m_ui s2) = 0" "m_EnvironmentMap s2 = m_EnvironmentMap s1"
    "environmentMapIndex (m_ui s2) = environmentMapIndex (m_ui s1)"
    "selectedEnvironment exampleWorld s2 = Some (src, sz)"
    "EnvironmentMapPdfMipmap \<in> set (m_CommandList s2) \<longleftrightarrow> bundleRebuilt sz s1"
    by auto
  from f(3,4) idx have "sz = \<lparr>width = 2048, height = 1024\<rparr>"
    by (simp add: selectedEnvironment_def exampleWorld_def)
  with f s1 have "EnvironmentMapPdfMipmap \<notin> set (m_CommandList s2)"
    by simp
  with run run2 s1 f show ?thesis by blast
qed

text \<open>
  C8. A frame in frame-step mode Wait is to re-blit the chosen image of the last completed
  frame and return. The path at lines 652 to 673 reads the image from the render targets
  without testing the handle, which the resize handler has emptied: after one completed
  frame, the key F1 (mode Wait) and a resize, the call dereferences the empty handle. The
  full-frame path recreates the render targets before it uses them.
\<close>

theorem C8_wait_after_resize_faults:
  "\<exists>s1. RenderScene exampleFramebuffer exampleWorld exampleStart = Inr s1 \<and>
         m_FrameStepMode (BackBufferResizing (KeyboardUpdate_F1 s1)) = Wait \<and>
         RenderScene exampleFramebuffer exampleWorld (BackBufferResizing (KeyboardUpdate_F1 s1)) =
           Inl NullDereference"
  by (simp add: example_defs stage_defs Let_def)



text \<open>
  C10. In frame-step mode Wait, with the render targets there, the call returns and records
  exactly one blit, of the image chosen by priority: the LDR colour when tone mapping is
  enabled, else the accumulated colour when accumulation is enabled, else the resolved
  colour when TAA is enabled, else the HDR colour.
\<close>

theorem C10_wait_image_priority:
  "m_FrameStepMode s = Wait \<Longrightarrow> m_RenderTargets s = Some rt \<Longrightarrow>
   \<exists>s'. RenderScene fb w s = Inr s' \<and>
        m_CommandList s' =
          [BlitTexture (if enableToneMapping (m_ui s) then LdrColor
                        else if enableAccumulation (m_ui s) then AccumulatedColor
                        else if enableTAA (m_ui s) then ResolvedColor
                        else HdrColor)]"
  by (simp add: RenderScene_wait waitImage_def)

theorem C10_witness:
  "\<exists>s1. RenderScene exampleFramebuffer exampleWorld
           (exampleStart\<lparr>m_ui := (m_ui exampleStart)\<lparr>enableToneMapping := False, enableTAA := True\<rparr>\<rparr>) = Inr s1 \<and>
         m_FrameStepMode (KeyboardUpdate_F1 s1) = Wait \<and>
         m_RenderTargets (KeyboardUpdate_F1 s1) = Some \<lparr>Size = (1920, 1080)\<rparr> \<and>
         (\<exists>s'. RenderScene exampleFramebuffer exampleWorld (KeyboardUpdate_F1 s1) = Inr s' \<and>
               m_CommandList s' = [BlitTexture AccumulatedColor])"
proof -
  let ?s0 = "exampleStart\<lparr>m_ui := (m_ui exampleStart)\<lparr>enableToneMapping := False, enableTAA := True\<rparr>\<rparr>"
  have "\<exists>s1. RenderScene exampleFramebuffer exampleWorld ?s0 = Inr s1 \<and>
          m_FrameStepMode (KeyboardUpdate_F1 s1) = Wait \<and>
          m_RenderTargets (KeyboardUpdate_F1 s1) = Some \<lparr>Size = (1920, 1080)\<rparr> \<and>
          enableToneMapping (m_ui (KeyboardUpdate_F1 s1)) = False \<and>
          enableAccumulation (m_ui (KeyboardUpdate_F1 s1)) = True"
    by (simp add: example_defs stage_defs Let_def)
  then obtain s1 where
    run: "RenderScene exampleFramebuffer exampleWorld ?s0 = Inr s1" and
    mode: "m_FrameStepMode (KeyboardUpdate_F1 s1) = Wait" and
    rt: "m_RenderTargets (KeyboardUpdate_F1 s1) = Some \<lparr>Size = (1920, 1080)\<rparr>" and
    ui: "enableToneMapping (m_ui (KeyboardUpdate_F1 s1)) = False"
        "enableAccumulation (m_ui (KeyboardUpdate_F1 s1)) = True"
    by auto
  from C10_wait_image_priority[OF mode rt, of exampleFramebuffer exampleWorld] ui
  have "\<exists>s'. RenderScene exampleFramebuffer exampleWorld (KeyboardUpdate_F1 s1) = Inr s' \<and>
               m_CommandList s' = [BlitTexture AccumulatedColor]"
    by simp
  with run mode rt show ?thesis by auto
qed

end
